(* ===== verification/Prelude.thy ===== *)
theory Prelude
  imports Complex_Main
begin

text \<open>
  Shared vocabulary of the dingz adapter model: the named collections the component
  theories feed, the property-store type, and the generic lemmas on maps and lists that
  the component proofs use.  The adapter keeps every per-device table (properties,
  actions, events) in a JavaScript \<open>Map\<close> keyed by a string id; here such a table is a
  partial function \<open>string \<rightharpoonup> 'v\<close>.  The idiom \<open>this.findProperty(id)?.f()\<close> (look
  the entry up, change it if it is there, do nothing otherwise) is \<open>opt_modify\<close>.
\<close>

named_theorems dingz_defs "definitions of the adapter model unfolded by component proofs"
named_theorems js_eval "evaluation rules of the JavaScript runtime model"

type_synonym 'v store = "string \<rightharpoonup> 'v"

definition opt_modify :: "'k \<Rightarrow> ('v \<Rightarrow> 'v) \<Rightarrow> ('k \<rightharpoonup> 'v) \<Rightarrow> ('k \<rightharpoonup> 'v)" where
  "opt_modify k f m = (case m k of None \<Rightarrow> m | Some v \<Rightarrow> m(k \<mapsto> f v))"

definition filter_store :: "('v \<Rightarrow> bool) \<Rightarrow> ('k \<rightharpoonup> 'v) \<Rightarrow> ('k \<rightharpoonup> 'v)" where
  "filter_store P m = (\<lambda>k. case m k of Some v \<Rightarrow> if P v then Some v else None | None \<Rightarrow> None)"

text \<open>Sequencing of code that may throw: an exception (\<open>Inl\<close>) skips the rest.\<close>

definition ebind :: "'e + 'a \<Rightarrow> ('a \<Rightarrow> 'e + 'b) \<Rightarrow> 'e + 'b" where
  "ebind x f = (case x of Inl e \<Rightarrow> Inl e | Inr a \<Rightarrow> f a)"

text \<open>A JavaScript \<open>for\<close> loop over a list whose body may throw.\<close>

fun efold :: "('a \<Rightarrow> 's \<Rightarrow> 'e + 's) \<Rightarrow> 'a list \<Rightarrow> 's \<Rightarrow> 'e + 's" where
  "efold f [] s = Inr s"
| "efold f (x # xs) s = ebind (f x s) (efold f xs)"

text \<open>A handler that runs on a live object: a \<open>throw\<close> keeps the mutations made before it,
  so the outcome carries the state either way.\<close>

datatype ('e, 's) outcome = Done 's | Threw 'e 's

fun obind :: "('e, 's) outcome \<Rightarrow> ('s \<Rightarrow> ('e, 's) outcome) \<Rightarrow> ('e, 's) outcome" where
  "obind (Done s) f = f s"
| "obind (Threw e s) f = Threw e s"

fun final_state :: "('e, 's) outcome \<Rightarrow> 's" where
  "final_state (Done s) = s"
| "final_state (Threw e s) = s"

text \<open>Using the value of an expression that may throw, in a handler on the state \<open>s\<close>.\<close>

definition ocase :: "'e + 'a \<Rightarrow> 's \<Rightarrow> ('a \<Rightarrow> ('e, 's) outcome) \<Rightarrow> ('e, 's) outcome" where
  "ocase x s f = (case x of Inl e \<Rightarrow> Threw e s | Inr a \<Rightarrow> f a)"

text \<open>A \<open>for ... of\<close> loop whose body may throw.\<close>

fun ofold :: "('a \<Rightarrow> 's \<Rightarrow> ('e, 's) outcome) \<Rightarrow> 'a list \<Rightarrow> 's \<Rightarrow> ('e, 's) outcome" where
  "ofold f [] s = Done s"
| "ofold f (x # xs) s = obind (f x s) (ofold f xs)"

text \<open>A handler keeps the relation \<open>R\<close> between the state before and the state after it,
  whether it returns or throws.\<close>

definition keeps :: "('s \<Rightarrow> 's \<Rightarrow> bool) \<Rightarrow> ('s \<Rightarrow> ('e, 's) outcome) \<Rightarrow> bool" where
  "keeps R f \<longleftrightarrow> (\<forall>s. R s (final_state (f s)))"

subsection \<open>Lemmas on \<open>ebind\<close> and \<open>efold\<close>\<close>

lemma ebind_Inl [simp]: "ebind (Inl e) f = Inl e"
  by (simp add: ebind_def)

lemma ebind_Inr [simp]: "ebind (Inr a) f = f a"
  by (simp add: ebind_def)

lemma ebind_eq_Inr:
  "ebind x f = Inr b \<longleftrightarrow> (\<exists>a. x = Inr a \<and> f a = Inr b)"
  by (cases x) auto

lemma efold_append: "efold f (xs @ ys) s = ebind (efold f xs s) (efold f ys)"
  by (induction xs arbitrary: s) (auto simp: ebind_def split: sum.splits)

lemma efold_invariant:
  assumes "\<And>x s s'. x \<in> set xs \<Longrightarrow> P s \<Longrightarrow> f x s = Inr s' \<Longrightarrow> P s'"
    and "P s" and "efold f xs s = Inr s'"
  shows "P s'"
  using assms
proof (induction xs arbitrary: s)
  case Nil
  then show ?case by simp
next
  case (Cons x xs)
  from Cons.prems(3) obtain s1 where s1: "f x s = Inr s1" "efold f xs s1 = Inr s'"
    by (auto simp: ebind_eq_Inr)
  with Cons.prems(1,2) have "P s1" by auto
  with Cons.IH Cons.prems(1) s1(2) show ?case by auto
qed

subsection \<open>Lemmas on \<open>opt_modify\<close>\<close>

lemma opt_modify_absent [simp]: "m k = None \<Longrightarrow> opt_modify k f m = m"
  by (simp add: opt_modify_def)

lemma opt_modify_present [simp]: "m k = Some v \<Longrightarrow> opt_modify k f m = m(k \<mapsto> f v)"
  by (simp add: opt_modify_def)

lemma opt_modify_lookup_other [simp]: "k' \<noteq> k \<Longrightarrow> opt_modify k f m k' = m k'"
  by (simp add: opt_modify_def split: option.splits)

lemma opt_modify_lookup_same [simp]: "opt_modify k f m k = map_option f (m k)"
  by (simp add: opt_modify_def split: option.splits)

lemma dom_opt_modify [simp]: "dom (opt_modify k f m) = dom m"
  by (auto simp add: opt_modify_def split: option.splits)

lemma opt_modify_commute:
  "k \<noteq> k' \<Longrightarrow> opt_modify k f (opt_modify k' g m) = opt_modify k' g (opt_modify k f m)"
  by (rule ext) (simp add: opt_modify_def split: option.splits)

lemma opt_modify_idem:
  "(\<And>v. f (f v) = f v) \<Longrightarrow> opt_modify k f (opt_modify k f m) = opt_modify k f m"
  by (rule ext) (simp add: opt_modify_def split: option.splits)

lemma opt_modify_absorb:
  "(\<And>v. f (g v) = f v) \<Longrightarrow> opt_modify k f (opt_modify k g m) = opt_modify k f m"
  by (rule ext) (simp add: opt_modify_def split: option.splits)

lemma opt_modify_cong_eq:
  "(\<And>v. m k = Some v \<Longrightarrow> f v = g v) \<Longrightarrow> opt_modify k f m = opt_modify k g m"
  by (rule ext) (simp add: opt_modify_def split: option.splits)

subsection \<open>Lemmas on \<open>filter_store\<close>\<close>

lemma filter_store_Some [simp]:
  "filter_store P m k = Some v \<longleftrightarrow> m k = Some v \<and> P v"
  by (auto simp add: filter_store_def split: option.splits)

lemma filter_store_None [simp]:
  "filter_store P m k = None \<longleftrightarrow> (\<forall>v. m k = Some v \<longrightarrow> \<not> P v)"
  by (simp add: filter_store_def split: option.splits)

lemma dom_filter_store: "dom (filter_store P m) = {k. \<exists>v. m k = Some v \<and> P v}"
  by (auto simp add: filter_store_def split: option.splits if_splits)

subsection \<open>Outcomes\<close>

text \<open>A property of the state that every step keeps holds of the outcome of a sequence.\<close>

lemma obind_invariant:
  "P (final_state x) \<Longrightarrow> (\<And>s. P s \<Longrightarrow> P (final_state (f s))) \<Longrightarrow> P (final_state (obind x f))"
  by (cases x) auto

lemma keeps_Done: "reflp R \<Longrightarrow> keeps R Done"
  by (simp add: keeps_def reflp_def)

lemma keeps_obind:
  "transp R \<Longrightarrow> keeps R f \<Longrightarrow> keeps R g \<Longrightarrow> keeps R (\<lambda>s. obind (f s) g)"
  unfolding keeps_def transp_def by (metis obind_invariant)

lemma keeps_if: "keeps R f \<Longrightarrow> keeps R g \<Longrightarrow> keeps R (\<lambda>s. if b s then f s else g s)"
  by (simp add: keeps_def)

lemma keeps_pre: "transp R \<Longrightarrow> keeps R f \<Longrightarrow> (\<And>s. R s (h s)) \<Longrightarrow> keeps R (\<lambda>s. f (h s))"
  unfolding keeps_def transp_def by blast

lemma keeps_ocase:
  "reflp R \<Longrightarrow> (\<And>a. keeps R (g a)) \<Longrightarrow> keeps R (\<lambda>s. ocase (x s) s (\<lambda>a. g a s))"
  by (auto simp: keeps_def ocase_def reflpD split: sum.splits)

lemma keeps_ofold:
  assumes "reflp R" "transp R" "\<And>x. keeps R (f x)" shows "keeps R (ofold f xs)"
proof (induction xs)
  case Nil
  then show ?case using assms(1) by (simp add: keeps_def reflpD)
next
  case (Cons x xs)
  have "keeps R (\<lambda>s. obind (f x s) (ofold f xs))"
    using keeps_obind [OF assms(2) assms(3) Cons.IH] .
  then show ?case by simp
qed

lemma ocase_Inr [simp]: "ocase (Inr a) s f = f a" and ocase_Inl [simp]: "ocase (Inl e) s f = Threw e s"
  by (simp_all add: ocase_def)

text \<open>The continuation of a handler only sees states the handler can produce.\<close>

lemma obind_cong_keeps:
  "keeps R f \<Longrightarrow> (\<And>s'. R s s' \<Longrightarrow> g s' = h s') \<Longrightarrow> obind (f s) g = obind (f s) h"
  by (cases "f s") (auto simp: keeps_def dest: spec [of _ s])

lemma keepsD: "keeps R f \<Longrightarrow> R s (final_state (f s))"
  by (simp add: keeps_def)

lemma obind_Done_iff: "obind x f = Done s \<longleftrightarrow> (\<exists>s'. x = Done s' \<and> f s' = Done s)"
  by (cases x) auto


text \<open>Introduction rules that carry a property of a result through the branches of the
  code that computes it.\<close>

lemma pred_if: "P x \<Longrightarrow> P y \<Longrightarrow> P (if c then x else y)"
  by simp

lemma pred_case_sum: "(\<And>e. P (f e)) \<Longrightarrow> (\<And>m. P (g m)) \<Longrightarrow> P (case x of Inl e \<Rightarrow> f e | Inr m \<Rightarrow> g m)"
  by (cases x) simp_all

lemma pred_case_prod: "(\<And>a b. P (f a b)) \<Longrightarrow> P (case x of (a, b) \<Rightarrow> f a b)"
  by (cases x) simp

lemma pred_case_option: "P f \<Longrightarrow> (\<And>y. P (g y)) \<Longrightarrow> P (case x of None \<Rightarrow> f | Some y \<Rightarrow> g y)"
  by (cases x) simp_all

end
