(* ===== verification/JsRuntime.thy ===== *)
theory JsRuntime
  imports Prelude
begin

text \<open>
  The part of the JavaScript runtime the adapter's code relies on, written from the
  language's semantics (these are builtins, not code of the repository): values as they
  come out of \<open>JSON.parse\<close>, truthiness, property access, the conversions of numbers to
  and from strings (\<open>parseInt\<close>, \<open>toString(16)\<close>, template literals), \<open>padStart\<close>,
  \<open>toUpperCase\<close> and \<open>split\<close>.  Numbers are exact rationals: the adapter never relies on
  floating-point rounding except in \<open>hsv2rgb\<close>, where the difference is stated there.
  \<open>NaN\<close> appears only as the failure of \<open>parseInt\<close>, which is \<open>None\<close>.
\<close>

datatype jval =
    JUndef
  | JNull
  | JBool bool
  | JNum rat
  | JStr string
  | JArr "jval list"
  | JObj "(string \<times> jval) list"

datatype js_error =
    TypeError string
  | HttpError int string
  | FetchError string string
  | PublishError
  | NotFound string

fun js_truthy :: "jval \<Rightarrow> bool" where
  "js_truthy JUndef = False"
| "js_truthy JNull = False"
| "js_truthy (JBool b) = b"
| "js_truthy (JNum r) = (r \<noteq> 0)"
| "js_truthy (JStr s) = (s \<noteq> [])"
| "js_truthy (JArr _) = True"
| "js_truthy (JObj _) = True"

text \<open>\<open>v.k\<close>: reading a field of \<open>undefined\<close> or \<open>null\<close> throws; a missing field, or a
  field of a primitive, is \<open>undefined\<close>.  \<open>JSON.parse\<close> keeps the last of duplicate keys.\<close>

fun js_get :: "jval \<Rightarrow> string \<Rightarrow> js_error + jval" where
  "js_get JUndef k = Inl (TypeError k)"
| "js_get JNull k = Inl (TypeError k)"
| "js_get (JObj kvs) k = Inr (case map_of (rev kvs) k of Some v \<Rightarrow> v | None \<Rightarrow> JUndef)"
| "js_get _ k = Inr JUndef"

subsection \<open>Digits\<close>

function to_digits :: "nat \<Rightarrow> nat \<Rightarrow> nat list" where
  "to_digits b n = (if b \<le> 1 \<or> n < b then [n] else to_digits b (n div b) @ [n mod b])"
  by pat_completeness auto
termination
  by (relation "measure snd") auto

declare to_digits.simps [simp del]

definition from_digits :: "nat \<Rightarrow> nat list \<Rightarrow> nat" where
  "from_digits b ds = foldl (\<lambda>acc d. acc * b + d) 0 ds"

definition digit_char :: "nat \<Rightarrow> char" where
  "digit_char d = char_of (if d < 10 then 48 + d else 87 + d)"

definition digit_val :: "char \<Rightarrow> nat option" where
  "digit_val c =
     (let n = of_char c :: nat in
      if 48 \<le> n \<and> n \<le> 57 then Some (n - 48)
      else if 97 \<le> n \<and> n \<le> 122 then Some (n - 87)
      else if 65 \<le> n \<and> n \<le> 90 then Some (n - 55)
      else None)"

definition nat_str :: "nat \<Rightarrow> string" where
  "nat_str n = map digit_char (to_digits 10 n)"

definition hex_str :: "nat \<Rightarrow> string" where
  "hex_str n = map digit_char (to_digits 16 n)"

definition int_str :: "int \<Rightarrow> string" where
  "int_str i = (if i < 0 then CHR ''-'' # nat_str (nat (- i)) else nat_str (nat i))"

text \<open>\<open>Number.prototype.toString(16)\<close> of an integral value.\<close>

definition int_hex :: "int \<Rightarrow> string" where
  "int_hex i = (if i < 0 then CHR ''-'' # hex_str (nat (- i)) else hex_str (nat i))"

text \<open>A number in a template literal: \<open>NaN\<close> (the failure of \<open>parseInt\<close>) prints as
  \<open>NaN\<close>.\<close>

definition num_tmpl :: "int option \<Rightarrow> string" where
  "num_tmpl x = (case x of None \<Rightarrow> ''NaN'' | Some i \<Rightarrow> int_str i)"

subsection \<open>Strings\<close>

definition pad_start :: "nat \<Rightarrow> char \<Rightarrow> string \<Rightarrow> string" where
  "pad_start n c s = replicate (n - length s) c @ s"

definition upper_char :: "char \<Rightarrow> char" where
  "upper_char c = (let n = of_char c :: nat in if 97 \<le> n \<and> n \<le> 122 then char_of (n - 32) else c)"

definition js_upper :: "string \<Rightarrow> string" where
  "js_upper s = map upper_char s"

fun split_on :: "char \<Rightarrow> string \<Rightarrow> string list" where
  "split_on c [] = [[]]"
| "split_on c (x # xs) =
     (if x = c then [] # split_on c xs
      else (case split_on c xs of w # ws \<Rightarrow> (x # w) # ws | [] \<Rightarrow> [[x]]))"

fun join_with :: "char \<Rightarrow> string list \<Rightarrow> string" where
  "join_with c [] = []"
| "join_with c [w] = w"
| "join_with c (w # ws) = w @ c # join_with c ws"

subsection \<open>Numbers as strings\<close>

text \<open>The digits of the fractional part of a number in radix \<open>b\<close>, at most \<open>k\<close> of
  them.  JavaScript prints the shortest expansion that identifies the double; for the
  numbers the adapter meets (JSON decimal literals, integral channel values) that is the
  finite expansion computed here, which \<open>k\<close> bounds (20 decimal, 13 hexadecimal digits).\<close>

primrec frac_digits :: "nat \<Rightarrow> nat \<Rightarrow> rat \<Rightarrow> string" where
  "frac_digits b 0 f = []"
| "frac_digits b (Suc k) f =
     (if f = 0 then [] else
      (let t = f * of_nat b in digit_char (nat \<lfloor>t\<rfloor>) # frac_digits b k (t - of_int \<lfloor>t\<rfloor>)))"

definition num_radix :: "nat \<Rightarrow> nat \<Rightarrow> rat \<Rightarrow> string" where
  "num_radix b k r =
     (let a = \<bar>r\<bar>; ip = nat \<lfloor>a\<rfloor>; f = a - of_int \<lfloor>a\<rfloor>;
          body = map digit_char (to_digits b ip) @ (if f = 0 then [] else CHR ''.'' # frac_digits b k f)
      in if r < 0 then CHR ''-'' # body else body)"

text \<open>\<open>String(n)\<close> and \<open>n.toString(16)\<close> of a number.\<close>

definition num_str :: "rat \<Rightarrow> string" where
  "num_str r = num_radix 10 20 r"

definition num_hex :: "rat \<Rightarrow> string" where
  "num_hex r = num_radix 16 13 r"

text \<open>\<open>String(v)\<close>, as a template literal prints \<open>v\<close>.\<close>

fun js_str :: "jval \<Rightarrow> string" where
  "js_str JUndef = ''undefined''"
| "js_str JNull = ''null''"
| "js_str (JBool b) = (if b then ''true'' else ''false'')"
| "js_str (JNum r) = num_str r"
| "js_str (JStr s) = s"
| "js_str (JArr vs) =
     join_with CHR '','' (map (\<lambda>v. if v = JUndef \<or> v = JNull then [] else js_str v) vs)"
| "js_str (JObj _) = ''[object Object]''"

text \<open>\<open>v.toString(16)\<close>: the radix matters for numbers only; \<open>undefined\<close> and
  \<open>null\<close> have no \<open>toString\<close>.\<close>

fun js_to_string16 :: "jval \<Rightarrow> js_error + string" where
  "js_to_string16 JUndef = Inl (TypeError ''toString'')"
| "js_to_string16 JNull = Inl (TypeError ''toString'')"
| "js_to_string16 (JNum r) = Inr (num_hex r)"
| "js_to_string16 v = Inr (js_str v)"

subsection \<open>\<open>parseInt\<close>\<close>

definition is_js_space :: "char \<Rightarrow> bool" where
  "is_js_space c \<longleftrightarrow> c \<in> set [CHR 0x20, CHR 0x09, CHR 0x0A, CHR 0x0B, CHR 0x0C, CHR 0x0D]"

fun digit_prefix :: "nat \<Rightarrow> string \<Rightarrow> nat list" where
  "digit_prefix r [] = []"
| "digit_prefix r (c # cs) =
     (case digit_val c of Some d \<Rightarrow> if d < r then d # digit_prefix r cs else [] | None \<Rightarrow> [])"

definition has_hex_prefix :: "string \<Rightarrow> bool" where
  "has_hex_prefix s \<longleftrightarrow> take 2 s = ''0x'' \<or> take 2 s = ''0X''"

text \<open>\<open>parseInt(s, radix)\<close>, radix \<open>0\<close> standing for an absent radix: leading white space,
  a sign, a \<open>0x\<close> prefix in radix 16 or 0, then the longest prefix of digits.\<close>

definition parse_int :: "nat \<Rightarrow> string \<Rightarrow> int option" where
  "parse_int radix s =
     (let s1 = dropWhile is_js_space s;
          (sg, s2) = (case s1 of c # r \<Rightarrow> if c = CHR ''-'' then (-1, r)
                                          else if c = CHR ''+'' then (1, r) else (1, s1)
                               | [] \<Rightarrow> (1, s1));
          (rdx, s3) = (if (radix = 0 \<or> radix = 16) \<and> has_hex_prefix s2 then (16, drop 2 s2)
                       else (if radix = 0 then 10 else radix, s2));
          ds = digit_prefix rdx s3
      in if radix \<noteq> 0 \<and> (radix < 2 \<or> 36 < radix) then None
         else if ds = [] then None else Some (sg * int (from_digits rdx ds)))"

subsection \<open>Numbers with \<open>NaN\<close>\<close>

text \<open>A JavaScript number in arithmetic: a rational or \<open>NaN\<close>.  Operations propagate
  \<open>NaN\<close>, and every comparison with \<open>NaN\<close> is false.\<close>

datatype jsnum = Fin rat | NaN

fun n_lift2 :: "(rat \<Rightarrow> rat \<Rightarrow> rat) \<Rightarrow> jsnum \<Rightarrow> jsnum \<Rightarrow> jsnum" where
  "n_lift2 f (Fin a) (Fin b) = Fin (f a b)"
| "n_lift2 f _ _ = NaN"

fun n_map :: "(rat \<Rightarrow> rat) \<Rightarrow> jsnum \<Rightarrow> jsnum" where
  "n_map f (Fin a) = Fin (f a)"
| "n_map f NaN = NaN"

definition js_trunc :: "rat \<Rightarrow> int" where
  "js_trunc q = (if 0 \<le> q then \<lfloor>q\<rfloor> else \<lceil>q\<rceil>)"

text \<open>\<open>a % b\<close>: the remainder takes the sign of the dividend.\<close>

fun n_mod :: "jsnum \<Rightarrow> jsnum \<Rightarrow> jsnum" where
  "n_mod (Fin a) (Fin b) = (if b = 0 then NaN else Fin (a - b * of_int (js_trunc (a / b))))"
| "n_mod _ _ = NaN"

fun n_less :: "jsnum \<Rightarrow> rat \<Rightarrow> bool" where
  "n_less (Fin a) b = (a < b)"
| "n_less NaN b = False"

definition of_parsed :: "int option \<Rightarrow> jsnum" where
  "of_parsed x = (case x of Some i \<Rightarrow> Fin (of_int i) | None \<Rightarrow> NaN)"

fun n_le :: "jsnum \<Rightarrow> rat \<Rightarrow> bool" where
  "n_le (Fin a) b = (a \<le> b)"
| "n_le NaN b = False"

fun n_ge :: "jsnum \<Rightarrow> rat \<Rightarrow> bool" where
  "n_ge (Fin a) b = (b \<le> a)"
| "n_ge NaN b = False"

definition trim_js :: "string \<Rightarrow> string" where
  "trim_js s = rev (dropWhile is_js_space (rev (dropWhile is_js_space s)))"

text \<open>\<open>Number(v)\<close>, as the relational operators apply it.  A string converts when it is
  empty or an integer in canonical decimal form (other numeric literals are outside the
  model and read as \<open>NaN\<close>); an array converts through its string.\<close>

fun js_to_number :: "jval \<Rightarrow> jsnum" where
  "js_to_number JUndef = NaN"
| "js_to_number JNull = Fin 0"
| "js_to_number (JBool b) = Fin (if b then 1 else 0)"
| "js_to_number (JNum r) = Fin r"
| "js_to_number (JStr s) =
     (let t = trim_js s in
      if t = [] then Fin 0
      else case parse_int 10 t of Some i \<Rightarrow> if int_str i = t then Fin (of_int i) else NaN
                                | None \<Rightarrow> NaN)"
| "js_to_number (JArr vs) = js_to_number (JStr (js_str (JArr vs)))"
| "js_to_number (JObj _) = NaN"

text \<open>\<open>v == "s"\<close> against a string literal that is not numeric.\<close>

fun loose_eq_str :: "jval \<Rightarrow> string \<Rightarrow> bool" where
  "loose_eq_str (JStr t) s = (t = s)"
| "loose_eq_str (JArr vs) s = (js_str (JArr vs) = s)"
| "loose_eq_str (JObj kvs) s = (js_str (JObj kvs) = s)"
| "loose_eq_str _ s = False"

text \<open>\<open>v[i]\<close> with a numeric index.\<close>

fun js_index :: "jval \<Rightarrow> nat \<Rightarrow> js_error + jval" where
  "js_index JUndef i = Inl (TypeError (nat_str i))"
| "js_index JNull i = Inl (TypeError (nat_str i))"
| "js_index (JArr vs) i = Inr (if i < length vs then vs ! i else JUndef)"
| "js_index (JObj kvs) i = js_get (JObj kvs) (nat_str i)"
| "js_index (JStr s) i = Inr (if i < length s then JStr [s ! i] else JUndef)"
| "js_index _ i = Inr JUndef"

text \<open>\<open>`${v + 1}`\<close>: addition, or concatenation when \<open>v\<close> is a string or an object.\<close>

fun tmpl_plus1 :: "jval \<Rightarrow> string" where
  "tmpl_plus1 (JNum r) = num_str (r + 1)"
| "tmpl_plus1 JUndef = ''NaN''"
| "tmpl_plus1 JNull = ''1''"
| "tmpl_plus1 (JBool b) = (if b then ''2'' else ''1'')"
| "tmpl_plus1 v = js_str v @ ''1''"

definition lower_char :: "char \<Rightarrow> char" where
  "lower_char c = (let n = of_char c :: nat in if 65 \<le> n \<and> n \<le> 90 then char_of (n + 32) else c)"

definition js_lower :: "string \<Rightarrow> string" where
  "js_lower s = map lower_char s"

text \<open>A decimal digit character.\<close>

definition is_dec_digit :: "char \<Rightarrow> bool" where
  "is_dec_digit c \<longleftrightarrow> (let n = (of_char c :: nat) in 48 \<le> n \<and> n \<le> 57)"

subsection \<open>Digit strings: bounds, injectivity and round trips through \<open>parseInt\<close>\<close>

lemma to_digits_nonempty [simp]: "to_digits b n \<noteq> []"
  by (subst to_digits.simps) simp

lemma to_digits_less: "1 < b \<Longrightarrow> d \<in> set (to_digits b n) \<Longrightarrow> d < b"
proof (induction b n rule: to_digits.induct)
  case (1 b n)
  then show ?case
    by (subst (asm) to_digits.simps) (auto split: if_splits)
qed

lemma from_digits_snoc [simp]: "from_digits b (xs @ [d]) = from_digits b xs * b + d"
  by (simp add: from_digits_def)

lemma from_to_digits: "1 < b \<Longrightarrow> from_digits b (to_digits b n) = n"
proof (induction b n rule: to_digits.induct)
  case (1 b n)
  show ?case
  proof (cases "n < b")
    case True
    then show ?thesis by (subst to_digits.simps) (simp add: from_digits_def)
  next
    case False
    with "1" have "from_digits b (to_digits b (n div b)) = n div b" by simp
    with False "1.prems" show ?thesis by (subst to_digits.simps) simp
  qed
qed

lemma digit_val_digit_char [simp]: "d < 36 \<Longrightarrow> digit_val (digit_char d) = Some d"
  by (auto simp: digit_val_def digit_char_def Let_def)

lemma digit_char_inj: "d < 36 \<Longrightarrow> e < 36 \<Longrightarrow> digit_char d = digit_char e \<longleftrightarrow> d = e"
  by (metis digit_val_digit_char option.inject)

lemma of_char_digit_char:
  "d < 36 \<Longrightarrow> of_char (digit_char d) = (if d < 10 then 48 + d else 87 + d)"
  by (simp add: digit_char_def)

lemma of_char_digit_char_ge: "d < 36 \<Longrightarrow> 48 \<le> (of_char (digit_char d) :: nat)"
  by (simp add: of_char_digit_char)

lemma js_space_code: "is_js_space c \<Longrightarrow> (of_char c :: nat) < 48"
  by (auto simp: is_js_space_def)

lemma digit_char_not_space [simp]: "d < 36 \<Longrightarrow> \<not> is_js_space (digit_char d)"
  using js_space_code of_char_digit_char_ge by fastforce

lemma digit_char_not_sign [simp]:
  "d < 36 \<Longrightarrow> digit_char d \<noteq> CHR ''-''" "d < 36 \<Longrightarrow> digit_char d \<noteq> CHR ''+''"
  using of_char_digit_char_ge [of d] by auto

lemma digit_prefix_digits:
  assumes "\<forall>d\<in>set ds. d < r" "r \<le> 36"
    and "\<forall>c cs d. rest = c # cs \<longrightarrow> digit_val c = Some d \<longrightarrow> r \<le> d"
  shows "digit_prefix r (map digit_char ds @ rest) = ds"
  using assms
proof (induction ds)
  case Nil
  then show ?case by (cases rest) (auto split: option.splits)
next
  case (Cons d ds)
  then show ?case by simp
qed

lemma digit_char_code_eq:
  "d < 36 \<Longrightarrow> digit_char d = c \<Longrightarrow> (of_char c :: nat) = (if d < 10 then 48 + d else 87 + d)"
  using of_char_digit_char by blast

lemma digit_char_not_x:
  "d < 33 \<Longrightarrow> digit_char d \<noteq> CHR ''x''" "d < 36 \<Longrightarrow> digit_char d \<noteq> CHR ''X''"
  using digit_char_code_eq [of d "CHR ''x''"] digit_char_code_eq [of d "CHR ''X''"]
  by (auto split: if_splits)

lemma has_hex_prefix_digits:
  "\<forall>d\<in>set ds. d < 33 \<Longrightarrow> \<not> has_hex_prefix (map digit_char ds)"
  by (cases ds; cases "tl ds") (auto simp: has_hex_prefix_def digit_char_not_x)

lemma parse_int_digits:
  assumes "ds \<noteq> []" "\<forall>d\<in>set ds. d < r" "2 \<le> r" "r \<le> 16" "radix = r \<or> radix = 0 \<and> r = 10"
  shows "parse_int radix (map digit_char ds) = Some (int (from_digits r ds))"
proof -
  obtain d ds' where ds: "ds = d # ds'" using assms(1) by (cases ds) auto
  have lt: "\<forall>d\<in>set ds. d < 33" "d < 36" using assms ds by auto
  have "dropWhile is_js_space (map digit_char ds) = map digit_char ds"
    using ds lt by simp
  moreover have "digit_prefix r (map digit_char ds @ []) = ds"
    using assms by (intro digit_prefix_digits) auto
  ultimately show ?thesis
    using assms ds lt has_hex_prefix_digits [OF lt(1)]
    by (auto simp add: parse_int_def Let_def)
qed

lemma from_digits_zeros [simp]: "from_digits b (replicate k 0 @ ds) = from_digits b ds"
  by (induction k) (simp_all add: from_digits_def)

lemma from_digits_Cons_zero [simp]: "from_digits b (0 # ds) = from_digits b ds"
  using from_digits_zeros [of b 1 ds] by simp

lemma parse_int_nat_str [simp]: "parse_int 10 (nat_str n) = Some (int n)"
  using parse_int_digits [of "to_digits 10 n" 10 10]
  by (simp add: nat_str_def to_digits_less from_to_digits)

lemma parse_int_hex_str [simp]: "parse_int 16 (hex_str n) = Some (int n)"
  using parse_int_digits [of "to_digits 16 n" 16 16]
  by (simp add: hex_str_def to_digits_less from_to_digits)

lemma nat_str_inj [simp]: "nat_str m = nat_str n \<longleftrightarrow> m = n"
  by (metis parse_int_nat_str of_nat_eq_iff option.inject)


lemma split_on_no_sep: "c \<notin> set w \<Longrightarrow> split_on c w = [w]"
  by (induction w) auto

lemma split_on_sep: "c \<notin> set w \<Longrightarrow> split_on c (w @ c # rest) = w # split_on c rest"
proof (induction w)
  case Nil
  then show ?case by simp
next
  case (Cons a w)
  then show ?case by auto
qed

lemma split_on_nonempty: "split_on c s \<noteq> []"
  by (induction s) (auto split: list.splits)

lemma join_with_cons_first: "join_with c ((x # w) # ws) = x # join_with c (w # ws)"
  by (cases ws) simp_all

text \<open>\<open>s.split(c).join(c)\<close> is \<open>s\<close>.\<close>

lemma join_split_on: "join_with c (split_on c s) = s"
proof (induction s)
  case (Cons x xs)
  obtain w ws where "split_on c xs = w # ws" using split_on_nonempty by (cases "split_on c xs") auto
  then show ?case using Cons by (cases ws) (auto simp: join_with_cons_first)
qed simp

lemma nat_str_digit: "n < 10 \<Longrightarrow> nat_str n = [digit_char n]"
  by (simp add: nat_str_def to_digits.simps)

lemma nat_str_char_range:
  assumes "c \<in> set (nat_str n)" shows " 48 \<le> (of_char c :: nat) \<and> (of_char c :: nat) \<le> 57"
proof -
  from assms obtain d where "d \<in> set (to_digits 10 n)" "c = digit_char d"
    by (auto simp: nat_str_def)
  moreover from this have "d < 10" by (simp add: to_digits_less)
  ultimately show ?thesis by (simp add: of_char_digit_char)
qed

lemma split_on_join_with:
  "ws \<noteq> [] \<Longrightarrow> (\<And>w. w \<in> set ws \<Longrightarrow> c \<notin> set w) \<Longrightarrow> split_on c (join_with c ws) = ws"
proof (induction ws rule: join_with.induct)
  case (3 w v vs)
  then show ?case by (simp add: split_on_sep)
qed (auto simp: split_on_no_sep)

lemma nat_str_no_sep [simp]:
  "CHR '';'' \<notin> set (nat_str n)" "CHR ''/'' \<notin> set (nat_str n)"
  using nat_str_char_range [of "CHR '';''" n] nat_str_char_range [of "CHR ''/''" n] by auto

lemma parse_int_auto_nat_str [simp]: "parse_int 0 (nat_str n) = Some (int n)"
  using parse_int_digits [of "to_digits 10 n" 10 0]
  by (simp add: nat_str_def to_digits_less from_to_digits)


lemma nat_str_all_digits: "\<forall>c\<in>set (nat_str n). is_dec_digit c"
  using nat_str_char_range by (auto simp: is_dec_digit_def)

lemma takeWhile_nat_str:
  "s = [] \<or> \<not> is_dec_digit (hd s) \<Longrightarrow> takeWhile is_dec_digit (nat_str n @ s) = nat_str n"
  using nat_str_all_digits [of n] by (cases s) (auto simp: takeWhile_append2)

lemma nat_str_append_eq:
  assumes "s = [] \<or> \<not> is_dec_digit (hd s)" "s' = [] \<or> \<not> is_dec_digit (hd s')"
  shows "nat_str i @ s = nat_str j @ s' \<longleftrightarrow> i = j \<and> s = s'"
proof
  assume eq: "nat_str i @ s = nat_str j @ s'"
  then have "takeWhile is_dec_digit (nat_str i @ s) = takeWhile is_dec_digit (nat_str j @ s')"
    by simp
  then have "nat_str i = nat_str j" using takeWhile_nat_str assms by simp
  with eq show "i = j \<and> s = s'" by simp
qed simp

lemma nat_str_small [simp]:
  "nat_str 0 = ''0''" "nat_str 1 = ''1''" "nat_str 2 = ''2''" "nat_str 3 = ''3''" "nat_str 4 = ''4''"
  "nat_str (Suc 0) = ''1''"
  by code_simp+

lemma num_tmpl_nat [simp]: "num_tmpl (Some (int n)) = nat_str n"
  by (simp add: num_tmpl_def int_str_def)

lemma num_str_of_nat [simp]: "num_str (of_nat n) = nat_str n"
  by (simp add: num_str_def num_radix_def nat_str_def Let_def)

lemma tmpl_plus1_nat [simp]: "tmpl_plus1 (JNum (of_nat k)) = nat_str (Suc k)"
  using num_str_of_nat [of "Suc k"] by (simp add: add.commute)


end
