(* ===== verification/Color.thy ===== *)
theory Color
  imports JsRuntime
begin

text \<open>
  The colour conversions of the LED ring.  \<open>hsv2rgb\<close> (the same function in
  \<^verbatim>\<open>src/index.js\<close> and \<^verbatim>\<open>src/unnamed/part_000\<close>) turns the \<open>"h;s;v"\<close> string a
  state snapshot reports in HSV mode into the six-digit hexadecimal colour of the
  \<open>ledColor\<close> property.  The MQTT generation formats the channels of a \<open>state/led\<close>
  message as \<open>#rrggbb\<close> and, for a write of \<open>ledColor\<close>, parses such a string back into
  its three channels.

  The arithmetic of \<open>hsv2rgb\<close> runs on the JavaScript numbers of \<open>JsRuntime\<close>
  (\<open>jsnum\<close>: a rational or \<open>NaN\<close>, which \<open>parseInt\<close> yields for a missing or
  malformed field).  Rationals are exact, so the model leaves out the rounding of doubles;
  the divisions are by the constants 100 and 60 only, so no infinity arises.
\<close>

text \<open>\<open>Math.floor(n).toString(16).padStart(2, '0')\<close>.\<close>

fun hex_byte :: "jsnum \<Rightarrow> string" where
  "hex_byte (Fin a) = pad_start 2 (CHR ''0'') (int_hex \<lfloor>a\<rfloor>)"
| "hex_byte NaN = pad_start 2 (CHR ''0'') ''NaN''"

text \<open>Destructuring \<open>const [h, s, v] = hsv.split(';')\<close>: a missing part is
  \<open>undefined\<close>, and \<open>parseInt(undefined)\<close> is \<open>NaN\<close>.\<close>

definition hsv_part :: "string list \<Rightarrow> nat \<Rightarrow> jsnum" where
  "hsv_part parts i = (if i < length parts then of_parsed (parse_int 0 (parts ! i)) else NaN)"

text \<open>The six hue sextants of \<open>hsv2rgb\<close>, as the chain of \<open>if\<close>s assigns
  \<open>(ra, ga, ba)\<close> from \<open>c\<close> and \<open>x\<close>.\<close>

definition hsv_sextant :: "jsnum \<Rightarrow> jsnum \<Rightarrow> jsnum \<Rightarrow> jsnum \<times> jsnum \<times> jsnum" where
  "hsv_sextant ha c x =
     (if n_less ha 60 then (c, x, Fin 0)
      else if n_less ha 120 then (x, c, Fin 0)
      else if n_less ha 180 then (Fin 0, c, x)
      else if n_less ha 240 then (Fin 0, x, c)
      else if n_less ha 300 then (x, Fin 0, c)
      else (c, Fin 0, x))"

definition hsv2rgb :: "string \<Rightarrow> string" where
  "hsv2rgb hsv =
     (let parts = split_on CHR '';'' hsv;
          ha = hsv_part parts 0;
          sa = n_map (\<lambda>s. s / 100) (hsv_part parts 1);
          va = n_map (\<lambda>v. v / 100) (hsv_part parts 2);
          c = n_lift2 (*) va sa;
          x = n_lift2 (*) c (n_map (\<lambda>t. 1 - \<bar>t - 1\<bar>) (n_mod (n_map (\<lambda>h. h / 60) ha) (Fin 2)));
          m = n_lift2 (-) va c;
          (ra, ga, ba) = hsv_sextant ha c x;
          chan = (\<lambda>t. n_map (\<lambda>y. of_int \<lfloor>y\<rfloor>) (n_map (\<lambda>y. y * 255) (n_lift2 (+) t m)))
      in js_upper (hex_byte (chan ra) @ hex_byte (chan ga) @ hex_byte (chan ba)))"

text \<open>\<open>state/led\<close> of the MQTT generation: \<open>`#${r.toString(16).padStart(2, '0')}...`\<close>
  over the fields of the message, without upper-casing.\<close>

definition led_color_str :: "jval \<Rightarrow> jval \<Rightarrow> jval \<Rightarrow> js_error + string" where
  "led_color_str r g b =
     (case js_to_string16 r of Inl e \<Rightarrow> Inl e | Inr rs \<Rightarrow>
       (case js_to_string16 g of Inl e \<Rightarrow> Inl e | Inr gs \<Rightarrow>
         (case js_to_string16 b of Inl e \<Rightarrow> Inl e | Inr bs \<Rightarrow>
           Inr (CHR ''#'' # pad_start 2 (CHR ''0'') rs @ pad_start 2 (CHR ''0'') gs
                @ pad_start 2 (CHR ''0'') bs))))"

text \<open>A write of \<open>ledColor\<close> in the MQTT generation: \<open>parseInt(value.slice(1, 3), 16)\<close>,
  \<open>slice(3, 5)\<close> and \<open>slice(5)\<close> (to the end of the string).\<close>

definition led_color_channels :: "string \<Rightarrow> int option \<times> int option \<times> int option" where
  "led_color_channels v =
     (parse_int 16 (take 2 (drop 1 v)), parse_int 16 (take 2 (drop 3 v)), parse_int 16 (drop 5 v))"

text \<open>The characters of an upper-case hexadecimal colour: \<open>0-9\<close> and \<open>A-F\<close>.\<close>

definition is_upper_hex :: "char \<Rightarrow> bool" where
  "is_upper_hex c \<longleftrightarrow> (let n = (of_char c :: nat) in 48 \<le> n \<and> n \<le> 57 \<or> 65 \<le> n \<and> n \<le> 70)"

subsection \<open>Hexadecimal bytes and the LED colour round trip\<close>

lemma length_to_digits_le:
  "1 < b \<Longrightarrow> n < b ^ Suc k \<Longrightarrow> length (to_digits b n) \<le> Suc k"
proof (induction b n arbitrary: k rule: to_digits.induct)
  case (1 b n)
  show ?case
  proof (cases "n < b")
    case True
    then show ?thesis by (subst to_digits.simps) simp
  next
    case False
    then obtain k' where k: "k = Suc k'"
      using "1.prems" by (cases k) auto
    have "n div b < b ^ Suc k'"
      using "1.prems" k by (simp add: div_less_iff_less_mult mult.commute)
    then have "length (to_digits b (n div b)) \<le> Suc k'"
      using "1.IH" "1.prems" False by simp
    then show ?thesis
      using False "1.prems" k by (subst to_digits.simps) simp
  qed
qed

lemma num_hex_of_nat [simp]: "num_hex (of_nat n) = hex_str n"
  by (simp add: num_hex_def num_radix_def hex_str_def Let_def)

lemma digit_char_zero: "digit_char 0 = CHR ''0''"
proof -
  have "(of_char (digit_char 0) :: nat) = of_char (CHR ''0'')"
    by (simp add: of_char_digit_char)
  then show ?thesis by (simp only: of_char_eq_iff)
qed

lemma pad2_hex_digits:
  assumes "n < 256"
  shows "pad_start 2 (CHR ''0'') (hex_str n) =
           map digit_char (replicate (2 - length (to_digits 16 n)) 0 @ to_digits 16 n)"
    and "length (pad_start 2 (CHR ''0'') (hex_str n)) = 2"
proof -
  have len: "length (to_digits 16 n) \<le> 2"
    using length_to_digits_le [of 16 n 1] assms by simp
  show "pad_start 2 (CHR ''0'') (hex_str n) =
           map digit_char (replicate (2 - length (to_digits 16 n)) 0 @ to_digits 16 n)"
    by (simp add: pad_start_def hex_str_def digit_char_zero)
  show "length (pad_start 2 (CHR ''0'') (hex_str n)) = 2"
    using len by (simp add: pad_start_def hex_str_def)
qed

lemma parse_pad2_hex:
  assumes "n < 256"
  shows "parse_int 16 (pad_start 2 (CHR ''0'') (hex_str n)) = Some (int n)"
proof -
  let ?ds = "replicate (2 - length (to_digits 16 n)) 0 @ to_digits 16 n"
  have "\<forall>d\<in>set ?ds. d < 16" by (auto simp: to_digits_less)
  then have "parse_int 16 (map digit_char ?ds) = Some (int (from_digits 16 ?ds))"
    by (intro parse_int_digits) auto
  then show ?thesis
    using pad2_hex_digits(1) [OF assms] by (simp add: from_to_digits)
qed

lemma led_color_str_nat:
  "led_color_str (JNum (of_nat r)) (JNum (of_nat g)) (JNum (of_nat b)) =
     Inr (CHR ''#'' # pad_start 2 (CHR ''0'') (hex_str r) @ pad_start 2 (CHR ''0'') (hex_str g)
          @ pad_start 2 (CHR ''0'') (hex_str b))"
  by (simp add: led_color_str_def)

lemma led_color_str_channels:
  assumes "r < 256" "g < 256" "b < 256"
  shows "led_color_channels (CHR ''#'' # pad_start 2 (CHR ''0'') (hex_str r) @ pad_start 2 (CHR ''0'') (hex_str g)
      @ pad_start 2 (CHR ''0'') (hex_str b)) = (Some (int r), Some (int g), Some (int b))"
proof -
  have "length (pad_start 2 (CHR ''0'') (hex_str r)) = 2" "length (pad_start 2 (CHR ''0'') (hex_str g)) = 2"
    using pad2_hex_digits(2) assms by auto
  then show ?thesis using parse_pad2_hex assms by (simp add: led_color_channels_def)
qed

subsection \<open>Bounds of \<open>hsv2rgb\<close>\<close>

lemma hue_factor_bounds:
  fixes h :: rat
  assumes "0 \<le> h"
  defines "t \<equiv> h / 60 - 2 * of_int (js_trunc (h / 60 / 2))"
  shows "0 \<le> 1 - \<bar>t - 1\<bar> \<and> 1 - \<bar>t - 1\<bar> \<le> 1"
proof -
  have tr: "js_trunc (h / 60 / 2) = \<lfloor>h / 120\<rfloor>"
    using assms(1) by (simp add: js_trunc_def)
  have "of_int \<lfloor>h / 120\<rfloor> \<le> h / 120" "h / 120 < of_int \<lfloor>h / 120\<rfloor> + 1"
    by linarith+
  then have "0 \<le> t" "t < 2"
    unfolding t_def tr by linarith+
  then show ?thesis by simp
qed

lemma channel_byte:
  fixes t c v :: rat
  assumes "0 \<le> t" "t \<le> c" "c \<le> v" "v \<le> 1"
  shows "0 \<le> \<lfloor>(t + (v - c)) * 255\<rfloor> \<and> \<lfloor>(t + (v - c)) * 255\<rfloor> \<le> 255"
proof -
  have "0 \<le> (t + (v - c)) * 255" using assms by simp
  moreover have "(t + (v - c)) * 255 \<le> 255" using assms by simp
  ultimately show ?thesis by linarith
qed

lemma upper_hex_digit: "d < 16 \<Longrightarrow> is_upper_hex (upper_char (digit_char d))"
  by (auto simp: is_upper_hex_def upper_char_def of_char_digit_char Let_def)

lemma hex_byte_upper:
  assumes "0 \<le> k" "k \<le> 255"
  shows "length (js_upper (hex_byte (Fin (of_int k)))) = 2
         \<and> (\<forall>c\<in>set (js_upper (hex_byte (Fin (of_int k)))). is_upper_hex c)"
proof -
  have n: "nat k < 256" using assms by simp
  have hb: "int_hex k = hex_str (nat k)"
    using assms by (simp add: int_hex_def)
  show ?thesis
    using pad2_hex_digits [OF n] upper_hex_digit
    by (auto simp: hb js_upper_def to_digits_less)
qed

lemma hsv_sextant_range:
  "hsv_sextant ha c x = (ra, ga, ba) \<Longrightarrow> {ra, ga, ba} \<subseteq> {c, x, Fin 0}"
  by (auto simp: hsv_sextant_def split: if_splits)


lemma hsv_split_parts:
  "split_on CHR '';'' (nat_str h @ CHR '';'' # nat_str s @ CHR '';'' # nat_str v)
     = [nat_str h, nat_str s, nat_str v]"
  by (simp add: split_on_sep split_on_no_sep)

lemma hue_factor_bounds':
  fixes h :: rat
  assumes "0 \<le> h"
  shows "0 \<le> 1 - \<bar>h / 60 - 2 * of_int (js_trunc (h / 120)) - 1\<bar>
         \<and> 1 - \<bar>h / 60 - 2 * of_int (js_trunc (h / 120)) - 1\<bar> \<le> 1"
  using hue_factor_bounds [OF assms] by simp

lemma channel_ok:
  assumes "t \<in> {Fin C, Fin X, Fin 0}" "0 \<le> X" "X \<le> C" "0 \<le> M" "C + M \<le> 1"
  defines "u \<equiv> js_upper (hex_byte (n_map (\<lambda>y. of_int \<lfloor>y\<rfloor>) (n_map (\<lambda>y. y * 255) (n_lift2 (+) t (Fin M)))))"
  shows "length u = 2 \<and> (\<forall>c\<in>set u. is_upper_hex c)"
proof -
  obtain T where t: "t = Fin T" "0 \<le> T" "T \<le> C"
    using assms(1-3) by auto
  have "0 \<le> \<lfloor>(T + M) * 255\<rfloor> \<and> \<lfloor>(T + M) * 255\<rfloor> \<le> 255"
    using channel_byte [of T C "C + M"] t assms(4,5) by simp
  then show ?thesis
    using hex_byte_upper [of "\<lfloor>(T + M) * 255\<rfloor>"] by (simp add: u_def t(1))
qed

lemma sextant_output_ok:
  assumes "0 \<le> X" "X \<le> C" "0 \<le> M" "C + M \<le> 1"
  defines "ch \<equiv> (\<lambda>t. n_map (\<lambda>y. of_int \<lfloor>y\<rfloor>) (n_map (\<lambda>y. y * 255) (n_lift2 (+) t (Fin M))))"
  shows "length (case hsv_sextant ha (Fin C) (Fin X) of (ra, ga, ba) \<Rightarrow>
                   js_upper (hex_byte (ch ra) @ hex_byte (ch ga) @ hex_byte (ch ba))) = 6
         \<and> (\<forall>c\<in>set (case hsv_sextant ha (Fin C) (Fin X) of (ra, ga, ba) \<Rightarrow>
                   js_upper (hex_byte (ch ra) @ hex_byte (ch ga) @ hex_byte (ch ba))). is_upper_hex c)"
proof -
  obtain ra ga ba where sx: "hsv_sextant ha (Fin C) (Fin X) = (ra, ga, ba)"
    by (cases "hsv_sextant ha (Fin C) (Fin X)") auto
  have "{ra, ga, ba} \<subseteq> {Fin C, Fin X, Fin 0}"
    by (rule hsv_sextant_range [OF sx])
  then have ok: "length (js_upper (hex_byte (ch t))) = 2 \<and> (\<forall>c\<in>set (js_upper (hex_byte (ch t))). is_upper_hex c)"
    if "t \<in> {ra, ga, ba}" for t
    using that channel_ok [of t C X M] assms(1-4) unfolding ch_def by blast
  show ?thesis
    using ok [of ra] ok [of ga] ok [of ba] by (auto simp add: sx js_upper_def)
qed

text \<open>C10: For every hue and every saturation and value in \<open>0..100\<close>, \<open>hsv2rgb\<close>
  produces a colour string of exactly six upper-case hexadecimal digits.\<close>

theorem hsv2rgb_well_formed:
  fixes h s v :: nat
  assumes "s \<le> 100" "v \<le> 100"
  shows "length (hsv2rgb (nat_str h @ CHR '';'' # nat_str s @ CHR '';'' # nat_str v)) = 6
         \<and> (\<forall>c\<in>set (hsv2rgb (nat_str h @ CHR '';'' # nat_str s @ CHR '';'' # nat_str v)). is_upper_hex c)"
proof -
  let ?H = "rat_of_nat h" and ?S = "rat_of_nat s" and ?V = "rat_of_nat v"
  let ?f = "1 - \<bar>?H / 60 - 2 * of_int (js_trunc (?H / 120)) - 1\<bar>"
  have f: "0 \<le> ?f" "?f \<le> 1" using hue_factor_bounds' [of ?H] by simp_all
  have vs: "?V * ?S \<le> ?V * 100" "?V \<le> 100" using assms by (simp_all add: mult_left_mono)
  then have vs': "?S * ?V \<le> ?V * 100" by (simp add: mult.commute)
  have x0: "0 \<le> ?V * ?S * ?f / 10000" using f by simp
  have xc: "?V * ?S * ?f / 10000 \<le> ?V * ?S / 10000"
    using f mult_left_mono [of ?f 1 "?V * ?S"] by (simp add: divide_right_mono)
  have m0: "0 \<le> ?V / 100 - ?V * ?S / 10000" using vs vs' by simp
  have cm: "?V * ?S / 10000 + (?V / 100 - ?V * ?S / 10000) \<le> 1" using vs by simp
  show ?thesis
    using sextant_output_ok [OF x0 xc m0 cm, of "Fin ?H"]
    by (simp add: hsv2rgb_def hsv_split_parts hsv_part_def of_parsed_def Let_def)
qed


text \<open>At full saturation and value, the hues on the sextant boundaries 0, 60, 120, 180,
  240 and 300 give the pure colours red, yellow, green, cyan, blue and magenta.\<close>

theorem hsv2rgb_sextant_boundaries:
  "hsv2rgb ''0;100;100'' = ''FF0000'' \<and> hsv2rgb ''60;100;100'' = ''FFFF00''
   \<and> hsv2rgb ''120;100;100'' = ''00FF00'' \<and> hsv2rgb ''180;100;100'' = ''00FFFF''
   \<and> hsv2rgb ''240;100;100'' = ''0000FF'' \<and> hsv2rgb ''300;100;100'' = ''FF00FF''"
  by code_simp


theorem hsv2rgb_well_formed_witness:
  "(50::nat) \<le> 100 \<and> (80::nat) \<le> 100
   \<and> length (hsv2rgb (nat_str 200 @ CHR '';'' # nat_str 50 @ CHR '';'' # nat_str 80)) = 6"
  using hsv2rgb_well_formed [of 50 80 200] by simp

end
