(* ===== verification/Device.thy ===== *)
theory Device
  imports Color
begin

text \<open>
  The device object of the MQTT generation (\<^verbatim>\<open>src/unnamed/part_000\<close>, class
  \<open>Dingz\<close>): its state, the capability resolution of its constructor, the schema of
  properties, actions and events it registers, and the late refinement of that schema by
  the blind and dimmer configuration.  The gateway's \<open>Property\<close>, \<open>Device\<close> and
  \<open>Action\<close> classes are containers: a property is the record of the fields the adapter
  reads or writes, and the device's property, action and event tables are stores keyed by
  id.  Fields the adapter sets once and never reads (\<open>unit\<close>, \<open>@type\<close>, \<open>enum\<close>) are
  left out.  A visibility or a title is a JSON value, since the configuration fetch assigns
  whatever the device reports (\<open>dimmerProperty.visible = config.active && ...\<close>).
\<close>

datatype ptype = TBoolean | TInteger | TNumber | TString

text \<open>\<open>BasicDingzProperty\<close> (read-only values) and \<open>DingzProperty\<close> (whose
  \<open>setValue\<close> issues a command).\<close>

datatype pclass = BasicProp | DingzProp

record dprop =
  pclass :: pclass
  ptype :: ptype
  ptitle :: jval
  pvalue :: jval
  pvisible :: jval
  preadonly :: bool
  pminimum :: jval
  pmaximum :: jval

record action =
  atitle :: jval
  avisible :: jval

text \<open>The capability flags the constructor resolves.\<close>

record caps =
  shade1 :: bool
  shade2 :: bool
  dimmerGroup1 :: bool
  dimmerGroup2 :: bool
  motionSensor :: bool
  thermostat :: bool
  thermostatOutput :: jval

record dingz =
  dev_id :: string
  address :: jval
  mac :: string
  connected :: jval
  title :: string
  dtypes :: "string list"
  deviceType :: jval
  dcaps :: caps
  props :: "dprop store"
  actions :: "action store"
  events :: "string store"
  fired :: "string list"

subsection \<open>Construction of properties, actions and events\<close>

text \<open>\<open>new BasicDingzProperty(device, name, spec)\<close>: \<open>visible\<close> is \<open>spec.visible\<close> when
  given, \<open>true\<close> otherwise; the value starts undefined.\<close>

definition mk_prop :: "pclass \<Rightarrow> ptype \<Rightarrow> string \<Rightarrow> bool \<Rightarrow> jval \<Rightarrow> jval \<Rightarrow> bool option \<Rightarrow> dprop" where
  "mk_prop cls ty ttl ro mn mx vis =
     \<lparr>pclass = cls, ptype = ty, ptitle = JStr ttl, pvalue = JUndef,
      pvisible = JBool (case vis of None \<Rightarrow> True | Some b \<Rightarrow> b), preadonly = ro,
      pminimum = mn, pmaximum = mx\<rparr>"

definition add_prop :: "string \<Rightarrow> dprop \<Rightarrow> dingz \<Rightarrow> dingz" where
  "add_prop n p d = d\<lparr>props := (props d)(n \<mapsto> p)\<rparr>"

definition add_action :: "string \<Rightarrow> string \<Rightarrow> dingz \<Rightarrow> dingz" where
  "add_action n ttl d = d\<lparr>actions := (actions d)(n \<mapsto> \<lparr>atitle = JStr ttl, avisible = JUndef\<rparr>)\<rparr>"

definition add_event :: "string \<Rightarrow> string \<Rightarrow> dingz \<Rightarrow> dingz" where
  "add_event n ttl d = d\<lparr>events := (events d)(n \<mapsto> ttl)\<rparr>"

definition key_id :: "nat \<Rightarrow> string" where
  "key_id i = ''key'' @ nat_str i"

definition dimmer_id :: "nat \<Rightarrow> string" where
  "dimmer_id i = ''dimmer'' @ nat_str i"

definition shade_id :: "nat \<Rightarrow> string" where
  "shade_id i = ''shade'' @ nat_str i"

definition addKey :: "nat \<Rightarrow> dingz \<Rightarrow> dingz" where
  "addKey i d =
     (let k = key_id i; n = nat_str i in
      add_event (k @ ''long'') (''Key '' @ n @ '' long press'')
       (add_event (k @ ''quadruple'') (''Key '' @ n @ '' quadruple press'')
        (add_event (k @ ''tripple'') (''Key '' @ n @ '' tripple press'')
         (add_event (k @ ''double'') (''Key '' @ n @ '' double press'')
          (add_event (k @ ''single'') (''Key '' @ n @ '' single press'')
           (add_prop k (mk_prop BasicProp TBoolean (''Key '' @ n) True JUndef JUndef None) d))))))"

definition addShade :: "nat \<Rightarrow> dingz \<Rightarrow> dingz" where
  "addShade i d =
     (let s = shade_id i; n = nat_str i in
      add_action (s @ ''stop'') (''Shade '' @ n @ '' stop'')
       (add_action (s @ ''down'') (''Shade '' @ n @ '' down'')
        (add_action (s @ ''up'') (''Shade '' @ n @ '' up'')
         (add_prop (s @ ''Power'')
            (mk_prop BasicProp TNumber (''Shade '' @ n @ '' Power'') True (JNum 0) (JNum 300) None)
          (add_prop (s @ ''Lamella'')
             (mk_prop DingzProp TInteger (''Shade '' @ n @ '' Lamella'') False (JNum 0) (JNum 100) None)
           (add_prop s
              (mk_prop DingzProp TInteger (''Shade '' @ n @ '' Position'') False (JNum 0) (JNum 100) None)
            d))))))"

text \<open>\<open>addDimmer\<close>: the channel that drives the thermostat valve
  (\<open>index - 1 === this.thermostatOutput\<close>) is registered invisible and without a toggle
  action; its power property stays visible.\<close>

definition dimmer_visible :: "caps \<Rightarrow> nat \<Rightarrow> bool" where
  "dimmer_visible c i \<longleftrightarrow> JNum (of_int (int i - 1)) \<noteq> thermostatOutput c"

definition addDimmer :: "nat \<Rightarrow> dingz \<Rightarrow> dingz" where
  "addDimmer i d =
     (let di = dimmer_id i; n = nat_str i; vis = dimmer_visible (dcaps d) i;
          d1 = add_prop (di @ ''Power'')
                 (mk_prop BasicProp TNumber (''Dimmer '' @ n @ '' Power'') True (JNum 0) (JNum 300) (Some True))
               (add_prop (di @ ''Brightness'')
                  (mk_prop DingzProp TInteger (''Dimmer '' @ n @ '' Brightness'') False (JNum 0) (JNum 100) (Some vis))
                (add_prop di (mk_prop DingzProp TBoolean (''Dimmer '' @ n) False JUndef JUndef (Some vis)) d))
      in if vis then add_action (di @ ''toggle'') (''Toggle dimmer '' @ n) d1 else d1)"

text \<open>\<open>this.findProperty(id).f = v\<close> without optional chaining: a missing property is
  a \<open>TypeError\<close>; \<open>this.actions.get(id).f = v\<close> likewise.\<close>

definition set_prop :: "string \<Rightarrow> (dprop \<Rightarrow> dprop) \<Rightarrow> dingz \<Rightarrow> js_error + dingz" where
  "set_prop n f d =
     (case props d n of None \<Rightarrow> Inl (TypeError n) | Some p \<Rightarrow> Inr (d\<lparr>props := (props d)(n \<mapsto> f p)\<rparr>))"

definition set_action :: "string \<Rightarrow> (action \<Rightarrow> action) \<Rightarrow> dingz \<Rightarrow> js_error + dingz" where
  "set_action n f d =
     (case actions d n of None \<Rightarrow> Inl (TypeError n)
      | Some a \<Rightarrow> Inr (d\<lparr>actions := (actions d)(n \<mapsto> f a)\<rparr>))"

subsection \<open>Connectivity of the device object\<close>

text \<open>\<open>connectedNotify(state)\<close>: the gateway is told, and \<open>this.connected\<close> holds the
  value as given (an MQTT \<open>online\<close> message passes its payload unchanged).\<close>

definition connectedNotify :: "jval \<Rightarrow> dingz \<Rightarrow> dingz" where
  "connectedNotify st d = d\<lparr>connected := st\<rparr>"

text \<open>\<open>updateFromDiscovery(address)\<close>: marks the device connected and takes the address
  unless it is falsy or contains a colon (an IPv6 address).  \<open>address.includes\<close> exists on
  strings and arrays; on any other truthy value the call throws.\<close>

definition updateFromDiscovery :: "jval \<Rightarrow> dingz \<Rightarrow> (js_error, dingz) outcome" where
  "updateFromDiscovery a d =
     (let d = connectedNotify (JBool True) d in
      if \<not> js_truthy a then Done d
      else case a of
        JStr s \<Rightarrow> Done (if CHR '':'' \<in> set s then d else d\<lparr>address := a\<rparr>)
      | JArr vs \<Rightarrow> Done (if JStr '':'' \<in> set vs then d else d\<lparr>address := a\<rparr>)
      | _ \<Rightarrow> Threw (TypeError ''includes'') d)"

subsection \<open>Capability resolution\<close>

text \<open>The fixed truth tables over the DIP configuration code: which of the two shade
  channels and which of the two dimmer pairs are wired.\<close>

definition dip_caps :: "jval \<Rightarrow> bool \<times> bool \<times> bool \<times> bool" where
  "dip_caps dip =
     (dip = JNum 0 \<or> dip = JNum 2, n_le (js_to_number dip) 1,
      dip = JNum 1 \<or> dip = JNum 3, n_ge (js_to_number dip) 2)"

text \<open>The device object before its configuration queries return.\<close>

definition dingz_init :: "string \<Rightarrow> jval \<Rightarrow> dingz" where
  "dingz_init m addr =
     \<lparr>dev_id = ''dingz-'' @ js_lower m, address = addr, mac = js_upper m, connected = JBool True,
      title = [], dtypes = [''ColorControl'', ''PushButton'', ''TemperatureSensor''],
      deviceType = JUndef,
      dcaps = \<lparr>shade1 = False, shade2 = False, dimmerGroup1 = False, dimmerGroup2 = False,
               motionSensor = False, thermostat = False, thermostatOutput = JUndef\<rparr>,
      props = Map.empty, actions = Map.empty, events = Map.empty, fired = []\<rparr>"

text \<open>The four handlers of the constructor's \<open>Promise.all\<close>, on the JSON each query
  returned (\<open>undefined\<close> when \<open>apiCall\<close> returned nothing).  They write disjoint
  fields, so their order does not matter; the first one that throws makes the construction
  fail.\<close>

definition on_system_config :: "jval \<Rightarrow> dingz \<Rightarrow> js_error + dingz" where
  "on_system_config sc d =
     ebind (js_get sc ''room_name'') (\<lambda>rn. ebind (js_get sc ''dingz_name'') (\<lambda>dn.
       Inr (d\<lparr>title := js_str rn @ '' - '' @ js_str dn\<rparr>)))"

definition on_device_info :: "jval \<Rightarrow> dingz \<Rightarrow> js_error + dingz" where
  "on_device_info info d =
     ebind (js_get info (mac d)) (\<lambda>di. ebind (js_get di ''dip_config'') (\<lambda>dip.
       ebind (js_get di ''has_pir'') (\<lambda>pir.
         (case dip_caps dip of (s1, s2, g1, g2) \<Rightarrow>
            Inr (d\<lparr>dcaps := (dcaps d)\<lparr>shade1 := s1, shade2 := s2, dimmerGroup1 := g1,
                                        dimmerGroup2 := g2, motionSensor := js_truthy pir\<rparr>\<rparr>)))))"

definition on_thermostat :: "jval \<Rightarrow> dingz \<Rightarrow> js_error + dingz" where
  "on_thermostat ts d =
     ebind (js_get ts ''active'') (\<lambda>a. Inr (d\<lparr>dcaps := (dcaps d)\<lparr>thermostat := js_truthy a\<rparr>\<rparr>))"

text \<open>\<open>outputs.find(o => o && o.type === "heating_valve")\<close>, then its \<open>ph_out_id\<close> when
  it is enabled.\<close>

definition is_valve_output :: "jval \<Rightarrow> bool" where
  "is_valve_output ov \<longleftrightarrow> js_truthy ov \<and> js_get ov ''type'' = Inr (JStr ''heating_valve'')"

definition on_outputs :: "jval \<Rightarrow> dingz \<Rightarrow> js_error + dingz" where
  "on_outputs outs d =
     (case outs of
        JArr os \<Rightarrow>
          (case find is_valve_output os of
             None \<Rightarrow> Inr d
           | Some ov \<Rightarrow>
               ebind (js_get ov ''enable'') (\<lambda>en.
                 if js_truthy en
                 then ebind (js_get ov ''ph_out_id'') (\<lambda>out.
                        Inr (d\<lparr>dcaps := (dcaps d)\<lparr>thermostatOutput := out\<rparr>\<rparr>))
                 else Inr d))
      | _ \<Rightarrow> Inl (TypeError ''find''))"

definition resolve_caps :: "jval \<Rightarrow> jval \<Rightarrow> jval \<Rightarrow> jval \<Rightarrow> dingz \<Rightarrow> js_error + dingz" where
  "resolve_caps sc info ts outs d =
     ebind (on_system_config sc d) (\<lambda>d. ebind (on_device_info info d) (\<lambda>d.
       ebind (on_thermostat ts d) (on_outputs outs)))"

subsection \<open>Schema registration\<close>

definition push_type :: "string \<Rightarrow> string list \<Rightarrow> string list" where
  "push_type ty ts = ts @ [ty]"

definition push_type_once :: "string \<Rightarrow> string list \<Rightarrow> string list" where
  "push_type_once ty ts = (if ty \<in> set ts then ts else ts @ [ty])"

definition capability_types :: "caps \<Rightarrow> string list \<Rightarrow> string list" where
  "capability_types c ts =
     (let t1 = (if motionSensor c then push_type ''MotionSensor'' ts else ts);
          t2 = (if shade1 c \<or> shade2 c then push_type ''Shade'' (push_type ''EnergyMonitor'' t1) else t1);
          t3 = (if dimmerGroup1 c \<or> dimmerGroup2 c
                then push_type_once ''EnergyMonitor'' (push_type ''Light'' t2) else t2)
      in if thermostat c then push_type_once ''EnergyMonitor'' (push_type ''Thermostat'' t3) else t3)"

text \<open>The thermostat part of the schema: the target temperature, mode and state, and the
  power property of the valve channel \<open>dimmer${thermostatOutput + 1}Power\<close>, which is
  only retitled when a dimmer group registered it already.\<close>

definition add_thermostat :: "dingz \<Rightarrow> dingz" where
  "add_thermostat d =
     (let d1 = add_prop ''thermostatState''
                 (mk_prop BasicProp TString ''Thermostat State'' True JUndef JUndef None)
               (add_prop ''thermostatMode''
                  (mk_prop DingzProp TString ''Thermostat Mode'' False JUndef JUndef None)
                (add_prop ''targetTemperature''
                   (mk_prop DingzProp TNumber ''Target Temperature'' False (JNum (-55)) (JNum 125) None) d));
          pw = ''dimmer'' @ tmpl_plus1 (thermostatOutput (dcaps d)) @ ''Power''
      in case props d1 pw of
           None \<Rightarrow> add_prop pw (mk_prop BasicProp TNumber ''Thermostat Valve Power'' True (JNum 0) (JNum 300) (Some True)) d1
         | Some p \<Rightarrow> d1\<lparr>props := (props d1)(pw \<mapsto> p\<lparr>ptitle := JStr ''Thermostat Valve Power''\<rparr>)\<rparr>)"

text \<open>An \<open>if (cond) { ... }\<close> block that changes the device.\<close>

definition when_do :: "bool \<Rightarrow> ('a \<Rightarrow> 'a) \<Rightarrow> 'a \<Rightarrow> 'a" where
  "when_do b f x = (if b then f x else x)"

definition base_props :: "dingz \<Rightarrow> dingz" where
  "base_props d =
     add_prop ''temperature'' (mk_prop BasicProp TNumber ''Temperature'' True JUndef JUndef None)
      (add_prop ''lightLevel'' (mk_prop BasicProp TInteger ''Brightness'' True (JNum 0) JUndef None)
       (add_prop ''ledColor'' (mk_prop DingzProp TString ''LED Color'' False JUndef JUndef None)
        (add_prop ''led'' (mk_prop DingzProp TBoolean ''LED'' False JUndef JUndef None) d)))"

text \<open>The schema registered before the thermostat block: the base properties, the four
  keys, the dimmer pairs, the shades and the motion sensor, in the constructor's order.\<close>

definition schema_base :: "dingz \<Rightarrow> dingz" where
  "schema_base d =
     (let c = dcaps d in
      when_do (motionSensor c)
        (add_prop ''motion'' (mk_prop BasicProp TBoolean ''Motion'' True JUndef JUndef None))
       (when_do (shade2 c) (addShade 2)
        (when_do (shade1 c) (addShade 1)
         (when_do (dimmerGroup2 c) (\<lambda>x. addDimmer 4 (addDimmer 3 x))
          (when_do (dimmerGroup1 c) (\<lambda>x. addDimmer 2 (addDimmer 1 x))
           (addKey 4 (addKey 3 (addKey 2 (addKey 1
             (base_props (d\<lparr>dtypes := capability_types c (dtypes d)\<rparr>)))))))))))"

definition build_schema :: "dingz \<Rightarrow> dingz" where
  "build_schema d = when_do (thermostat (dcaps d)) add_thermostat (schema_base d)"

text \<open>Which detail configurations the constructor fetches after the schema is
  registered: \<open>blind_config\<close> when a shade is present, \<open>dimmer_config\<close> when a dimmer
  group is.\<close>

definition detail_requests :: "caps \<Rightarrow> bool \<times> bool" where
  "detail_requests c = (shade1 c \<or> shade2 c, dimmerGroup1 c \<or> dimmerGroup2 c)"

subsection \<open>Late refinement by the blind and dimmer configuration\<close>

text \<open>The \<open>if(shadeConfig.name)\<close> block of \<open>setShadeConfig\<close>.\<close>

definition shade_titles :: "string \<Rightarrow> jval \<Rightarrow> dingz \<Rightarrow> js_error + dingz" where
  "shade_titles s nm d =
     ebind (set_prop s (\<lambda>p. p\<lparr>ptitle := nm\<rparr>) d) (\<lambda>d.
     ebind (set_prop (s @ ''Lamella'') (\<lambda>p. p\<lparr>ptitle := JStr (js_str nm @ '' Lamella'')\<rparr>) d) (\<lambda>d.
     ebind (set_prop (s @ ''Power'') (\<lambda>p. p\<lparr>ptitle := JStr (js_str nm @ '' Power'')\<rparr>) d) (\<lambda>d.
     ebind (set_action (s @ ''up'') (\<lambda>a. a\<lparr>atitle := JStr (js_str nm @ '' up'')\<rparr>) d) (\<lambda>d.
     ebind (set_action (s @ ''down'') (\<lambda>a. a\<lparr>atitle := JStr (js_str nm @ '' down'')\<rparr>) d) (\<lambda>d.
     set_action (s @ ''stop'') (\<lambda>a. a\<lparr>atitle := JStr (''Stop '' @ js_str nm)\<rparr>) d)))))"

definition setShadeConfig :: "nat \<Rightarrow> jval \<Rightarrow> dingz \<Rightarrow> js_error + dingz" where
  "setShadeConfig i cfg d =
     (let s = shade_id i in
      ebind (ebind (js_get cfg ''blinds'') (\<lambda>bl. js_index bl (i - 1))) (\<lambda>sc.
      ebind (js_get sc ''type'') (\<lambda>ty.
      ebind (set_prop (s @ ''Lamella'') (\<lambda>p. p\<lparr>pvisible := JBool (ty = JStr ''blind'')\<rparr>) d) (\<lambda>d.
      ebind (js_get sc ''min_value'') (\<lambda>mn. ebind (js_get sc ''max_value'') (\<lambda>mx.
      ebind (set_prop s (\<lambda>p. p\<lparr>pminimum := mn, pmaximum := mx\<rparr>) d) (\<lambda>d.
      ebind (js_get sc ''name'') (\<lambda>nm.
        if js_truthy nm then shade_titles s nm d else Inr d))))))))"

text \<open>\<open>config.active && config.type == "light"\<close>: the value of \<open>active\<close> itself when it
  is falsy.\<close>

definition dimmer_cfg_visible :: "jval \<Rightarrow> jval \<Rightarrow> jval" where
  "dimmer_cfg_visible act ty = (if js_truthy act then JBool (loose_eq_str ty ''light'') else act)"

text \<open>The four visibility assignments of \<open>setDimmerConfig\<close>, and its
  \<open>if(config.name)\<close> block.\<close>

definition dimmer_visibility :: "string \<Rightarrow> jval \<Rightarrow> dingz \<Rightarrow> js_error + dingz" where
  "dimmer_visibility di vis d =
     ebind (set_prop di (\<lambda>p. p\<lparr>pvisible := vis\<rparr>) d) (\<lambda>d.
     ebind (set_prop (di @ ''Brightness'') (\<lambda>p. p\<lparr>pvisible := vis\<rparr>) d) (\<lambda>d.
     ebind (set_prop (di @ ''Power'') (\<lambda>p. p\<lparr>pvisible := vis\<rparr>) d) (\<lambda>d.
     set_action (di @ ''toggle'') (\<lambda>a. a\<lparr>avisible := vis\<rparr>) d)))"

definition dimmer_titles :: "string \<Rightarrow> jval \<Rightarrow> dingz \<Rightarrow> js_error + dingz" where
  "dimmer_titles di nm d =
     ebind (set_prop di (\<lambda>p. p\<lparr>ptitle := nm\<rparr>) d) (\<lambda>d.
     ebind (set_prop (di @ ''Brightness'') (\<lambda>p. p\<lparr>ptitle := JStr (js_str nm @ '' Brightness'')\<rparr>) d) (\<lambda>d.
     ebind (set_prop (di @ ''Power'') (\<lambda>p. p\<lparr>ptitle := JStr (js_str nm @ '' Power'')\<rparr>) d) (\<lambda>d.
     set_action (di @ ''toggle'') (\<lambda>a. a\<lparr>atitle := JStr (''Toggle '' @ js_str nm)\<rparr>) d)))"

definition setDimmerConfig :: "nat \<Rightarrow> jval \<Rightarrow> dingz \<Rightarrow> js_error + dingz" where
  "setDimmerConfig i dc d =
     (if \<not> dimmer_visible (dcaps d) i then Inr d
      else
        (let di = dimmer_id i in
         ebind (ebind (js_get dc ''dimmers'') (\<lambda>ds. js_index ds (i - 1))) (\<lambda>cfg.
         ebind (js_get cfg ''active'') (\<lambda>act. ebind (js_get cfg ''type'') (\<lambda>ty.
         (let vis = dimmer_cfg_visible act ty in
          ebind (dimmer_visibility di vis d) (\<lambda>d.
          ebind (js_get cfg ''name'') (\<lambda>nm.
          ebind (if js_truthy nm then dimmer_titles di nm d else Inr d) (\<lambda>d.
          Inr (if js_truthy vis then d
               else d\<lparr>actions := (actions d)(di @ ''toggle'' := None)\<rparr>))))))))))"

definition apply_details :: "jval \<Rightarrow> jval \<Rightarrow> dingz \<Rightarrow> js_error + dingz" where
  "apply_details bc dc d =
     (let c = dcaps d in
      ebind (if \<not> js_truthy bc then Inr d
             else ebind (if shade1 c then setShadeConfig 1 bc d else Inr d) (\<lambda>d.
                  if shade2 c then setShadeConfig 2 bc d else Inr d)) (\<lambda>d.
      if \<not> js_truthy dc then Inr d
      else ebind (if dimmerGroup1 c then ebind (setDimmerConfig 1 dc d) (setDimmerConfig 2 dc) else Inr d)
             (\<lambda>d. if dimmerGroup2 c then ebind (setDimmerConfig 3 dc d) (setDimmerConfig 4 dc) else Inr d)))"

text \<open>The whole constructor.  Each configuration query is the settled value of its
  \<open>apiCall\<close> promise: \<open>Inl\<close> when it rejected, \<open>Inr v\<close> with \<open>v\<close> the JSON it
  returned (\<open>undefined\<close> for none).  A rejection of any of the four capability queries, a
  handler that throws, a rejected detail fetch or a refinement that throws all leave the
  device unannounced; only a result \<open>Inr d\<close> reaches \<open>handleDeviceAdded\<close>.  A detail
  fetch that is not requested contributes \<open>undefined\<close>.\<close>

definition construct ::
  "string \<Rightarrow> jval \<Rightarrow> js_error + jval \<Rightarrow> js_error + jval \<Rightarrow> js_error + jval \<Rightarrow> js_error + jval
     \<Rightarrow> js_error + jval \<Rightarrow> js_error + jval \<Rightarrow> js_error + dingz" where
  "construct m addr qsc qinfo qts qouts qbc qdc =
     ebind qsc (\<lambda>sc. ebind qinfo (\<lambda>info. ebind qts (\<lambda>ts. ebind qouts (\<lambda>outs.
     ebind (resolve_caps sc info ts outs (dingz_init m addr)) (\<lambda>d.
       (let d' = build_schema d; (rb, rd) = detail_requests (dcaps d') in
        ebind (if rb then qbc else Inr JUndef) (\<lambda>bc.
        ebind (if rd then qdc else Inr JUndef) (\<lambda>dc. apply_details bc dc d'))))))))"

text \<open>A fresh device, as \<open>new Dingz\<close> leaves it before any answer arrives.\<close>

definition ex_dip_dev :: dingz where
  "ex_dip_dev = dingz_init ''aabbcc'' (JStr ''10.0.0.2'')"

subsection \<open>The outward representation\<close>

text \<open>\<open>Dingz.asDict\<close>: properties and actions whose \<open>visible\<close> is the boolean
  \<open>false\<close> are deleted from the serialised device; any other value keeps them.\<close>

definition dict_props :: "dingz \<Rightarrow> dprop store" where
  "dict_props d = filter_store (\<lambda>p. pvisible p \<noteq> JBool False) (props d)"

definition dict_actions :: "dingz \<Rightarrow> action store" where
  "dict_actions d = filter_store (\<lambda>a. avisible a \<noteq> JBool False) (actions d)"

subsection \<open>Predicates of the correctness statements\<close>

text \<open>\<open>frame_on N d d'\<close>: the step from \<open>d\<close> to \<open>d'\<close> changes properties and actions
  with ids in \<open>N\<close> only, and no capability flag.\<close>

definition frame_on :: "string set \<Rightarrow> dingz \<Rightarrow> dingz \<Rightarrow> bool" where
  "frame_on N d d' \<longleftrightarrow>
     (\<forall>n. n \<notin> N \<longrightarrow> props d' n = props d n \<and> actions d' n = actions d n) \<and> dcaps d' = dcaps d"

definition dimmer_names :: "nat \<Rightarrow> string set" where
  "dimmer_names i = {dimmer_id i, dimmer_id i @ ''Brightness'', dimmer_id i @ ''Power'', dimmer_id i @ ''toggle''}"

definition shade_names :: "nat \<Rightarrow> string set" where
  "shade_names i = {shade_id i, shade_id i @ ''Lamella'', shade_id i @ ''Power'',
                    shade_id i @ ''up'', shade_id i @ ''down'', shade_id i @ ''stop''}"

text \<open>Two device states with the same schema: the same properties apart from their values,
  the same actions, events, capabilities, types and names.  Updates from the unit (MQTT
  messages, the poll) may only change values, the connection, the address, the reported
  device type and the events fired.\<close>

definition prop_shape :: "dprop \<Rightarrow> dprop" where
  "prop_shape p = p\<lparr>pvalue := JUndef\<rparr>"

definition same_schema :: "dingz \<Rightarrow> dingz \<Rightarrow> bool" where
  "same_schema d d' \<longleftrightarrow>
     (\<forall>n. map_option prop_shape (props d' n) = map_option prop_shape (props d n))
     \<and> actions d' = actions d \<and> events d' = events d \<and> dcaps d' = dcaps d
     \<and> dtypes d' = dtypes d \<and> title d' = title d \<and> dev_id d' = dev_id d \<and> mac d' = mac d"

text \<open>A weaker relation: the same property ids with the same class, type, title, visibility
  and read-only flag, the same actions, events and capabilities.  The poll keeps it, but
  not \<open>same_schema\<close>: it rewrites the bounds of \<open>targetTemperature\<close>.\<close>

definition prop_kind :: "dprop \<Rightarrow> pclass \<times> ptype \<times> jval \<times> jval \<times> bool" where
  "prop_kind p = (pclass p, ptype p, ptitle p, pvisible p, preadonly p)"

definition same_kinds :: "dingz \<Rightarrow> dingz \<Rightarrow> bool" where
  "same_kinds d d' \<longleftrightarrow>
     (\<forall>n. map_option prop_kind (props d' n) = map_option prop_kind (props d n))
     \<and> actions d' = actions d \<and> events d' = events d \<and> dcaps d' = dcaps d"

text \<open>The ids the late refinement may touch.\<close>

definition refine_scope :: "caps \<Rightarrow> string set" where
  "refine_scope c = shade_names 1 \<union> shade_names 2 \<union> (\<Union>j\<in>{j. dimmer_visible c j}. dimmer_names j)"

definition keeps_scope :: "(dingz \<Rightarrow> js_error + dingz) \<Rightarrow> bool" where
  "keeps_scope g \<longleftrightarrow> (\<forall>d d'. g d = Inr d' \<longrightarrow> frame_on (refine_scope (dcaps d)) d d')"

text \<open>The valve channel \<open>k + 1\<close> of the thermostat is hidden: its power property is the
  visible \<open>Thermostat Valve Power\<close>, it has no toggle action, and its switch and
  brightness properties, where registered, are invisible.\<close>

definition valve_hidden :: "nat \<Rightarrow> dingz \<Rightarrow> bool" where
  "valve_hidden k d \<longleftrightarrow>
     (case props d (dimmer_id (Suc k) @ ''Power'') of None \<Rightarrow> False
      | Some p \<Rightarrow> ptitle p = JStr ''Thermostat Valve Power'' \<and> pvisible p = JBool True)
     \<and> actions d (dimmer_id (Suc k) @ ''toggle'') = None
     \<and> (case props d (dimmer_id (Suc k)) of None \<Rightarrow> True | Some p \<Rightarrow> pvisible p = JBool False)
     \<and> (case props d (dimmer_id (Suc k) @ ''Brightness'') of None \<Rightarrow> True
        | Some p \<Rightarrow> pvisible p = JBool False)"

text \<open>Before the thermostat block the valve channel is already hidden, except that its
  power property may be missing (when its dimmer pair is not wired).\<close>

definition valve_pre :: "nat \<Rightarrow> dingz \<Rightarrow> bool" where
  "valve_pre k d \<longleftrightarrow>
     (case props d (dimmer_id (Suc k) @ ''Power'') of None \<Rightarrow> True | Some p \<Rightarrow> pvisible p = JBool True)
     \<and> actions d (dimmer_id (Suc k) @ ''toggle'') = None
     \<and> (case props d (dimmer_id (Suc k)) of None \<Rightarrow> True | Some p \<Rightarrow> pvisible p = JBool False)
     \<and> (case props d (dimmer_id (Suc k) @ ''Brightness'') of None \<Rightarrow> True
         | Some p \<Rightarrow> pvisible p = JBool False)"

subsection \<open>An example unit\<close>

text \<open>Configuration answers of a unit with MAC \<open>AABBCC\<close>: DIP code 1 (a shade on the
  second pair, the first dimmer group), a motion sensor, and a thermostat whose valve is
  wired to output 1, that is, to dimmer 2.\<close>

definition ex_system_config :: jval where
  "ex_system_config = JObj [(''room_name'', JStr ''Kitchen''), (''dingz_name'', JStr ''Puck'')]"

definition ex_device_info :: jval where
  "ex_device_info = JObj [(''AABBCC'', JObj [(''dip_config'', JNum 1), (''has_pir'', JBool True)])]"

definition ex_thermostat :: jval where
  "ex_thermostat = JObj [(''active'', JBool True)]"

definition ex_outputs :: jval where
  "ex_outputs = JArr [JObj [(''type'', JStr ''heating_valve''), (''enable'', JBool True), (''ph_out_id'', JNum 1)]]"

definition ex_blind_config :: jval where
  "ex_blind_config = JObj [(''blinds'', JArr [JObj [],
     JObj [(''type'', JStr ''blind''), (''min_value'', JNum 0), (''max_value'', JNum 100), (''name'', JStr ''Window'')]])]"

definition ex_dimmer_config :: jval where
  "ex_dimmer_config = JObj [(''dimmers'', JArr [JObj [(''active'', JBool True), (''type'', JStr ''light''),
     (''name'', JStr ''Ceiling'')], JObj [], JObj [], JObj []])]"

text \<open>The unit above, where the two detail fetches returned no body.\<close>

definition ex_construct :: "js_error + dingz" where
  "ex_construct = construct ''aabbcc'' (JStr ''10.0.0.2'') (Inr ex_system_config) (Inr ex_device_info)
     (Inr ex_thermostat) (Inr ex_outputs) (Inr JUndef) (Inr JUndef)"

subsection \<open>Capability tables\<close>

text \<open>C9: The DIP code wires each of the unit's two output pairs either to a shade motor
  or to a dimmer group, never both and never neither (output pair 1: shade 1 or dimmer
  group 1; pair 2: shade 2 or dimmer group 2), and it does so exactly for the codes
  \<open>0..3\<close>: any other value the unit may report, another number, \<open>null\<close> or a numeric
  string such as \<open>"1"\<close> (the strict \<open>===\<close> fails while \<open><=\<close> coerces), leaves a pair
  without either or with both.\<close>

theorem dip_caps_table:
  "(case dip_caps dip of (s1, s2, g1, g2) \<Rightarrow> (s1 \<noteq> g1) \<and> (s2 \<noteq> g2))
     \<longleftrightarrow> dip \<in> {JNum 0, JNum 1, JNum 2, JNum 3}"
  by (cases dip) (auto simp: dip_caps_def)

lemma dip_caps_pairs:
  assumes "d \<in> {0, 1, 2, 3}"
  shows "case dip_caps (JNum d) of (s1, s2, g1, g2) \<Rightarrow> (s1 \<longleftrightarrow> \<not> g1) \<and> (s2 \<longleftrightarrow> \<not> g2)"
  using assms by (auto simp: dip_caps_def)

lemma dip_caps_out_of_range:
  "dip_caps (JNum 4) = (False, False, False, True) \<and> dip_caps (JNum (-1)) = (False, True, False, False)"
  by (simp add: dip_caps_def)


subsection \<open>Frames of the construction steps\<close>

lemma add_prop_simps [simp]:
  "props (add_prop n p d) = (props d)(n \<mapsto> p)" "actions (add_prop n p d) = actions d"
  "events (add_prop n p d) = events d" "dcaps (add_prop n p d) = dcaps d"
  by (simp_all add: add_prop_def)

lemma add_action_simps [simp]:
  "props (add_action n t d) = props d" "dcaps (add_action n t d) = dcaps d"
  "actions (add_action n t d) = (actions d)(n \<mapsto> \<lparr>atitle = JStr t, avisible = JUndef\<rparr>)"
  by (simp_all add: add_action_def)

lemma add_event_simps [simp]:
  "props (add_event n t d) = props d" "dcaps (add_event n t d) = dcaps d"
  "actions (add_event n t d) = actions d"
  by (simp_all add: add_event_def)

lemma addKey_simps [simp]:
  "props (addKey i d) = (props d)(key_id i \<mapsto> mk_prop BasicProp TBoolean (''Key '' @ nat_str i) True JUndef JUndef None)"
  "actions (addKey i d) = actions d" "dcaps (addKey i d) = dcaps d"
  by (simp_all add: addKey_def Let_def)

lemma addShade_simps [simp]:
  "props (addShade i d) = (props d)
     (shade_id i \<mapsto> mk_prop DingzProp TInteger (''Shade '' @ nat_str i @ '' Position'') False (JNum 0) (JNum 100) None,
      shade_id i @ ''Lamella'' \<mapsto> mk_prop DingzProp TInteger (''Shade '' @ nat_str i @ '' Lamella'') False (JNum 0) (JNum 100) None,
      shade_id i @ ''Power'' \<mapsto> mk_prop BasicProp TNumber (''Shade '' @ nat_str i @ '' Power'') True (JNum 0) (JNum 300) None)"
  "dcaps (addShade i d) = dcaps d"
  by (simp_all add: addShade_def Let_def)

lemma addDimmer_simps [simp]:
  "props (addDimmer i d) = (props d)
     (dimmer_id i \<mapsto> mk_prop DingzProp TBoolean (''Dimmer '' @ nat_str i) False JUndef JUndef (Some (dimmer_visible (dcaps d) i)),
      dimmer_id i @ ''Brightness'' \<mapsto> mk_prop DingzProp TInteger (''Dimmer '' @ nat_str i @ '' Brightness'') False (JNum 0) (JNum 100) (Some (dimmer_visible (dcaps d) i)),
      dimmer_id i @ ''Power'' \<mapsto> mk_prop BasicProp TNumber (''Dimmer '' @ nat_str i @ '' Power'') True (JNum 0) (JNum 300) (Some True))"
  "actions (addDimmer i d) = (if dimmer_visible (dcaps d) i
     then (actions d)(dimmer_id i @ ''toggle'' \<mapsto> \<lparr>atitle = JStr (''Toggle dimmer '' @ nat_str i), avisible = JUndef\<rparr>)
     else actions d)"
  "dcaps (addDimmer i d) = dcaps d"
  by (simp_all add: addDimmer_def Let_def)

lemma when_do_same [simp]: "g (f x) = g x \<Longrightarrow> g (when_do b f x) = g x"
  by (simp add: when_do_def)

lemma when_do_True [simp]: "when_do True f x = f x" and when_do_False [simp]: "when_do False f x = x"
  by (simp_all add: when_do_def)

lemma schema_base_caps [simp]: "dcaps (schema_base d) = dcaps d"
  by (simp add: schema_base_def Let_def when_do_def base_props_def)

lemma base_props_simps [simp]:
  "actions (base_props d) = actions d" "dcaps (base_props d) = dcaps d"
  by (simp_all add: base_props_def)

lemma frame_on_refl [simp]: "frame_on N d d"
  by (simp add: frame_on_def)

lemma frame_on_trans: "frame_on A d1 d2 \<Longrightarrow> frame_on B d2 d3 \<Longrightarrow> frame_on (A \<union> B) d1 d3"
  by (simp add: frame_on_def)

lemma frame_on_mono: "frame_on A d d' \<Longrightarrow> A \<subseteq> B \<Longrightarrow> frame_on B d d'"
  by (auto simp: frame_on_def)

lemma set_prop_Inr [simp]:
  "set_prop n f d = Inr d' \<longleftrightarrow> (\<exists>p. props d n = Some p \<and> d' = d\<lparr>props := (props d)(n \<mapsto> f p)\<rparr>)"
  by (auto simp: set_prop_def split: option.splits)

lemma set_action_Inr [simp]:
  "set_action n f d = Inr d' \<longleftrightarrow> (\<exists>a. actions d n = Some a \<and> d' = d\<lparr>actions := (actions d)(n \<mapsto> f a)\<rparr>)"
  by (auto simp: set_action_def split: option.splits)

lemma dimmer_visibility_frame:
  "dimmer_visibility di vis d = Inr d' \<Longrightarrow>
     frame_on {di, di @ ''Brightness'', di @ ''Power'', di @ ''toggle''} d d'"
  by (auto simp: dimmer_visibility_def ebind_eq_Inr frame_on_def)

lemma dimmer_titles_frame:
  "dimmer_titles di nm d = Inr d' \<Longrightarrow>
     frame_on {di, di @ ''Brightness'', di @ ''Power'', di @ ''toggle''} d d'"
  by (auto simp: dimmer_titles_def ebind_eq_Inr frame_on_def)

lemma shade_titles_frame:
  "shade_titles s nm d = Inr d' \<Longrightarrow>
     frame_on {s, s @ ''Lamella'', s @ ''Power'', s @ ''up'', s @ ''down'', s @ ''stop''} d d'"
  by (auto simp: shade_titles_def ebind_eq_Inr frame_on_def)

lemma frame_on_trans_same: "frame_on N d1 d2 \<Longrightarrow> frame_on N d2 d3 \<Longrightarrow> frame_on N d1 d3"
  using frame_on_trans [of N d1 d2 N d3] by simp

lemma setDimmerConfig_frame:
  assumes "setDimmerConfig i dc d = Inr d'"
  shows "frame_on (if dimmer_visible (dcaps d) i then dimmer_names i else {}) d d'"
proof (cases "dimmer_visible (dcaps d) i")
  case False
  with assms show ?thesis by (simp add: setDimmerConfig_def)
next
  case True
  let ?di = "dimmer_id i"
  from assms True obtain act ty d1 nm d2 where
    d1: "dimmer_visibility ?di (dimmer_cfg_visible act ty) d = Inr d1"
    and d2: "(if js_truthy nm then dimmer_titles ?di nm d1 else Inr d1) = Inr d2"
    and d': "d' = (if js_truthy (dimmer_cfg_visible act ty) then d2
                   else d2\<lparr>actions := (actions d2)(?di @ ''toggle'' := None)\<rparr>)"
    by (auto simp: setDimmerConfig_def Let_def ebind_eq_Inr)
  have "frame_on (dimmer_names i) d d1"
    using dimmer_visibility_frame [OF d1] by (simp add: dimmer_names_def)
  moreover have "frame_on (dimmer_names i) d1 d2"
    using d2 dimmer_titles_frame by (auto simp: dimmer_names_def split: if_splits)
  moreover have "frame_on (dimmer_names i) d2 d'"
    using d' by (auto simp: frame_on_def dimmer_names_def)
  ultimately show ?thesis
    using True by (auto intro: frame_on_trans_same)
qed

lemma setShadeConfig_frame:
  assumes "setShadeConfig i cfg d = Inr d'"
  shows "frame_on (shade_names i) d d'"
proof -
  let ?s = "shade_id i"
  from assms obtain ty d1 mn mx d2 nm where
    d1: "set_prop (?s @ ''Lamella'') (\<lambda>p. p\<lparr>pvisible := JBool (ty = JStr ''blind'')\<rparr>) d = Inr d1"
    and d2: "set_prop ?s (\<lambda>p. p\<lparr>pminimum := mn, pmaximum := mx\<rparr>) d1 = Inr d2"
    and d': "(if js_truthy nm then shade_titles ?s nm d2 else Inr d2) = Inr d'"
    unfolding setShadeConfig_def Let_def ebind_eq_Inr by blast
  have "frame_on (shade_names i) d d1"
    using d1 by (auto simp: frame_on_def shade_names_def)
  moreover have "frame_on (shade_names i) d1 d2"
    using d2 by (auto simp: frame_on_def shade_names_def)
  moreover have "frame_on (shade_names i) d2 d'"
    using d' shade_titles_frame by (auto simp: shade_names_def split: if_splits)
  ultimately show ?thesis by (auto intro: frame_on_trans_same)
qed

lemma setDimmerConfig_scope:
  "setDimmerConfig i dc d = Inr d' \<Longrightarrow> frame_on (refine_scope (dcaps d)) d d'"
  by (rule frame_on_mono [OF setDimmerConfig_frame]) (auto simp: refine_scope_def)

lemma setShadeConfig_scope:
  "i \<in> {1, 2} \<Longrightarrow> setShadeConfig i cfg d = Inr d' \<Longrightarrow> frame_on (refine_scope (dcaps d)) d d'"
  by (rule frame_on_mono [OF setShadeConfig_frame]) (auto simp: refine_scope_def)

lemma frame_on_caps: "frame_on N d d' \<Longrightarrow> dcaps d' = dcaps d"
  by (simp add: frame_on_def)

lemma keeps_scope_Inr: "keeps_scope Inr"
  by (simp add: keeps_scope_def)

lemma keeps_scope_if: "keeps_scope g \<Longrightarrow> keeps_scope (\<lambda>d. if b then g d else Inr d)"
  by (simp add: keeps_scope_def)

lemma keeps_scope_if': "keeps_scope g \<Longrightarrow> keeps_scope (\<lambda>d. if b then Inr d else g d)"
  by (simp add: keeps_scope_def)

lemma keeps_scope_seq:
  assumes "keeps_scope g" "keeps_scope h"
  shows "keeps_scope (\<lambda>d. ebind (g d) h)"
  unfolding keeps_scope_def
proof (intro allI impI)
  fix d d'
  assume "ebind (g d) h = Inr d'"
  then obtain d1 where d1: "g d = Inr d1" "h d1 = Inr d'" by (auto simp: ebind_eq_Inr)
  have f1: "frame_on (refine_scope (dcaps d)) d d1" using assms(1) d1(1) by (simp add: keeps_scope_def)
  have "frame_on (refine_scope (dcaps d1)) d1 d'"
    using assms(2) d1(2) by (simp add: keeps_scope_def)
  then have "frame_on (refine_scope (dcaps d)) d1 d'"
    using frame_on_caps [OF f1] by simp
  with f1 show "frame_on (refine_scope (dcaps d)) d d'" by (rule frame_on_trans_same)
qed

lemma keeps_scope_dimmer: "keeps_scope (setDimmerConfig i dc)"
  using setDimmerConfig_scope by (simp add: keeps_scope_def)

lemma keeps_scope_shade: "i \<in> {1, 2} \<Longrightarrow> keeps_scope (setShadeConfig i cfg)"
  using setShadeConfig_scope by (simp add: keeps_scope_def)

lemma apply_details_frame:
  assumes "apply_details bc dc d = Inr d'"
  shows "frame_on (refine_scope (dcaps d)) d d'"
proof -
  let ?c = "dcaps d"
  let ?B = "\<lambda>x. if \<not> js_truthy bc then Inr x
             else ebind (if shade1 ?c then setShadeConfig 1 bc x else Inr x)
                    (\<lambda>x. if shade2 ?c then setShadeConfig 2 bc x else Inr x)"
  let ?D = "\<lambda>x. if \<not> js_truthy dc then Inr x
             else ebind (if dimmerGroup1 ?c then ebind (setDimmerConfig 1 dc x) (setDimmerConfig 2 dc) else Inr x)
                    (\<lambda>x. if dimmerGroup2 ?c then ebind (setDimmerConfig 3 dc x) (setDimmerConfig 4 dc) else Inr x)"
  have kb: "keeps_scope ?B"
    by (intro keeps_scope_if' keeps_scope_seq keeps_scope_if keeps_scope_shade) auto
  have kd: "keeps_scope ?D"
    by (intro keeps_scope_if' keeps_scope_seq keeps_scope_if keeps_scope_dimmer)
  have "keeps_scope (\<lambda>x. ebind (?B x) ?D)"
    using kb kd by (rule keeps_scope_seq)
  moreover have "(\<lambda>x. ebind (?B x) ?D) d = Inr d'"
    using assms by (simp add: apply_details_def Let_def)
  ultimately show ?thesis by (simp add: keeps_scope_def)
qed

subsection \<open>The thermostat valve channel\<close>

lemma dimmer_suffix_ok:
  "s \<in> {[], ''Brightness'', ''Power'', ''toggle''} \<Longrightarrow> s = [] \<or> \<not> is_dec_digit (hd s)"
  by (auto simp: is_dec_digit_def)

lemma dimmer_names_shape:
  "x \<in> dimmer_names i \<Longrightarrow> \<exists>s\<in>{[], ''Brightness'', ''Power'', ''toggle''}. x = dimmer_id i @ s"
  by (auto simp: dimmer_names_def)

lemma dimmer_names_disjoint:
  assumes "i \<noteq> j" shows "dimmer_names i \<inter> dimmer_names j = {}"
proof -
  have False if x: "x \<in> dimmer_names i" "x \<in> dimmer_names j" for x
  proof -
    obtain s where s: "s \<in> {[], ''Brightness'', ''Power'', ''toggle''}" "x = dimmer_id i @ s"
      using dimmer_names_shape [OF x(1)] by blast
    obtain s' where s': "s' \<in> {[], ''Brightness'', ''Power'', ''toggle''}" "x = dimmer_id j @ s'"
      using dimmer_names_shape [OF x(2)] by blast
    have "nat_str i @ s = nat_str j @ s'"
      using s(2) s'(2) by (simp add: dimmer_id_def)
    with nat_str_append_eq [OF dimmer_suffix_ok [OF s(1)] dimmer_suffix_ok [OF s'(1)]] assms
    show False by blast
  qed
  then show ?thesis by blast
qed

lemma valve_hidden_frame:
  "frame_on N d d' \<Longrightarrow> dimmer_names (Suc k) \<inter> N = {} \<Longrightarrow> valve_hidden k d' = valve_hidden k d"
  by (auto simp: frame_on_def dimmer_names_def valve_hidden_def)

lemma valve_pre_frame:
  "frame_on N d d' \<Longrightarrow> dimmer_names (Suc k) \<inter> N = {} \<Longrightarrow> valve_pre k d' = valve_pre k d"
  by (auto simp: frame_on_def dimmer_names_def valve_pre_def)

lemma schema_step_frames:
  "frame_on {key_id i} d (addKey i d)"
  "frame_on (shade_names i) d (addShade i d)"
  "frame_on (dimmer_names i) d (addDimmer i d)"
  "frame_on {''temperature'', ''lightLevel'', ''ledColor'', ''led''} d (base_props d)"
  "frame_on {n} d (add_prop n p d)"
  "frame_on {} d (d\<lparr>dtypes := ts\<rparr>)"
  by (auto simp: frame_on_def shade_names_def dimmer_names_def addShade_def Let_def base_props_def)

lemma dimmer_names_apart:
  "dimmer_names j \<inter> {key_id i} = {}" "dimmer_names j \<inter> shade_names i = {}"
  "dimmer_names j \<inter> {''temperature'', ''lightLevel'', ''ledColor'', ''led''} = {}"
  "dimmer_names j \<inter> {''motion''} = {}"
  by (auto simp: dimmer_names_def shade_names_def dimmer_id_def key_id_def shade_id_def)

lemma valve_pre_steps [simp]:
  "valve_pre k (addKey i d) = valve_pre k d"
  "valve_pre k (addShade i d) = valve_pre k d"
  "valve_pre k (base_props d) = valve_pre k d"
  "valve_pre k (add_prop ''motion'' p d) = valve_pre k d"
  "valve_pre k (d\<lparr>dtypes := ts\<rparr>) = valve_pre k d"
  using schema_step_frames [THEN valve_pre_frame] dimmer_names_apart by auto

lemma valve_pre_addDimmer:
  assumes "valve_pre k d" "thermostatOutput (dcaps d) = JNum (of_nat k)"
  shows "valve_pre k (addDimmer j d)"
proof (cases "j = Suc k")
  case True
  then have "\<not> dimmer_visible (dcaps d) j" using assms(2) by (simp add: dimmer_visible_def)
  then show ?thesis using True assms(1) by (simp add: valve_pre_def mk_prop_def)
next
  case False
  then have "dimmer_names (Suc k) \<inter> dimmer_names j = {}" by (simp add: dimmer_names_disjoint)
  from valve_pre_frame [OF schema_step_frames(3) this] assms(1) show ?thesis by simp
qed

lemma valve_pre_empty: "props d = Map.empty \<Longrightarrow> actions d = Map.empty \<Longrightarrow> valve_pre k d"
  by (simp add: valve_pre_def)

lemma schema_base_valve:
  assumes "thermostatOutput (dcaps d) = JNum (of_nat k)"
    and "props d = Map.empty" "actions d = Map.empty"
  shows "valve_pre k (schema_base d)"
  using assms
  by (auto simp: schema_base_def Let_def when_do_def valve_pre_empty intro!: valve_pre_addDimmer)

lemma dimmer_id_neq_other [simp]:
  "hd t \<noteq> CHR ''d'' \<Longrightarrow> dimmer_id j @ s \<noteq> t" "hd t \<noteq> CHR ''d'' \<Longrightarrow> dimmer_id j \<noteq> t"
  by (auto simp: dimmer_id_def)

lemma add_thermostat_valve:
  assumes "thermostatOutput (dcaps d) = JNum (of_nat k)" and "valve_pre k d"
  shows "valve_hidden k (add_thermostat d)"
proof -
  have pw: "''dimmer'' @ tmpl_plus1 (thermostatOutput (dcaps d)) @ ''Power'' = dimmer_id (Suc k) @ ''Power''"
    by (simp only: assms(1) tmpl_plus1_nat dimmer_id_def append_assoc)
  show ?thesis
    using assms(2) unfolding add_thermostat_def Let_def pw
    by (auto simp: valve_pre_def valve_hidden_def mk_prop_def split: option.splits)
qed

lemma build_schema_valve:
  assumes "thermostat (dcaps d)" "thermostatOutput (dcaps d) = JNum (of_nat k)"
    and "props d = Map.empty" "actions d = Map.empty"
  shows "valve_hidden k (build_schema d)"
  using add_thermostat_valve [OF _ schema_base_valve [OF assms(2-4)]] assms(1,2)
  by (simp add: build_schema_def)

lemma valve_outside_scope:
  assumes "thermostatOutput c = JNum (of_nat k)"
  shows "dimmer_names (Suc k) \<inter> refine_scope c = {}"
proof -
  have "j \<noteq> Suc k" if "dimmer_visible c j" for j
    using that assms by (auto simp: dimmer_visible_def)
  then have "dimmer_names (Suc k) \<inter> dimmer_names j = {}" if "dimmer_visible c j" for j
    using that dimmer_names_disjoint by blast
  moreover have "dimmer_names (Suc k) \<inter> (shade_names 1 \<union> shade_names 2) = {}"
    by (auto simp: dimmer_names_def shade_names_def dimmer_id_def shade_id_def)
  ultimately show ?thesis by (auto simp: refine_scope_def)
qed


lemma resolve_steps_schema:
  "on_system_config sc d = Inr d' \<Longrightarrow> props d' = props d \<and> actions d' = actions d"
  "on_device_info info d = Inr d' \<Longrightarrow> props d' = props d \<and> actions d' = actions d"
  "on_thermostat ts d = Inr d' \<Longrightarrow> props d' = props d \<and> actions d' = actions d"
  "on_outputs outs d = Inr d' \<Longrightarrow> props d' = props d \<and> actions d' = actions d"
  by (auto simp: on_system_config_def on_device_info_def on_thermostat_def on_outputs_def
      ebind_eq_Inr case_prod_beta split: jval.splits option.splits if_splits)

lemma resolve_caps_schema:
  assumes "resolve_caps sc info ts outs d = Inr d'"
  shows "props d' = props d \<and> actions d' = actions d"
  using assms by (auto simp: resolve_caps_def ebind_eq_Inr dest!: resolve_steps_schema)

lemma add_thermostat_caps [simp]: "dcaps (add_thermostat d) = dcaps d"
  by (simp add: add_thermostat_def Let_def split: option.splits)

lemma build_schema_caps [simp]: "dcaps (build_schema d) = dcaps d"
  by (simp add: build_schema_def when_do_def)

lemma dingz_init_schema [simp]:
  "props (dingz_init m addr) = Map.empty" "actions (dingz_init m addr) = Map.empty"
  by (simp_all add: dingz_init_def)

lemma construct_Inr:
  assumes "construct m addr qsc qinfo qts qouts qbc qdc = Inr d"
  obtains sc info ts outs d0 bc dc where
    "resolve_caps sc info ts outs (dingz_init m addr) = Inr d0"
    "apply_details bc dc (build_schema d0) = Inr d"
  using assms unfolding construct_def Let_def case_prod_beta ebind_eq_Inr by blast

text \<open>C1: When the thermostat is present and its valve is wired to output \<open>k\<close>, the device
  the constructor announces hides dimmer channel \<open>k + 1\<close>: no toggle action, invisible
  switch and brightness properties, and a visible power property titled \<open>Thermostat Valve
  Power\<close>; the late dimmer configuration does not make it visible again.\<close>

theorem construct_valve_hidden:
  assumes "construct m addr qsc qinfo qts qouts qbc qdc = Inr d"
    and "thermostat (dcaps d)" and "thermostatOutput (dcaps d) = JNum (of_nat k)"
  shows "valve_hidden k d"
proof -
  obtain sc info ts outs d0 bc dc where
    d0: "resolve_caps sc info ts outs (dingz_init m addr) = Inr d0"
    and d: "apply_details bc dc (build_schema d0) = Inr d"
    using construct_Inr [OF assms(1)] .
  have caps: "dcaps d = dcaps d0"
    using frame_on_caps [OF apply_details_frame [OF d]] by simp
  have empty: "props d0 = Map.empty" "actions d0 = Map.empty"
    using resolve_caps_schema [OF d0] by simp_all
  have "valve_hidden k (build_schema d0)"
    using build_schema_valve [of d0 k] assms(2,3) caps empty by simp
  moreover have "dimmer_names (Suc k) \<inter> refine_scope (dcaps (build_schema d0)) = {}"
    using valve_outside_scope [of "dcaps d0" k] assms(3) caps by simp
  ultimately show ?thesis
    using valve_hidden_frame [OF apply_details_frame [OF d]] by simp
qed

lemma ex_resolve_caps:
  "case resolve_caps ex_system_config ex_device_info ex_thermostat ex_outputs
          (dingz_init ''aabbcc'' (JStr ''10.0.0.2'')) of
     Inr d \<Rightarrow> thermostat (dcaps d) \<and> thermostatOutput (dcaps d) = JNum 1 | Inl e \<Rightarrow> False"
  by code_simp

lemma apply_details_undefined [simp]: "apply_details JUndef JUndef d = Inr d"
  by (simp add: apply_details_def)

theorem construct_valve_hidden_witness:
  "\<exists>d. ex_construct = Inr d \<and> thermostat (dcaps d) \<and> thermostatOutput (dcaps d) = JNum (of_nat 1)
      \<and> valve_hidden 1 d"
proof -
  obtain d0 where d0: "resolve_caps ex_system_config ex_device_info ex_thermostat ex_outputs
      (dingz_init ''aabbcc'' (JStr ''10.0.0.2'')) = Inr d0"
    and th: "thermostat (dcaps d0)" and o: "thermostatOutput (dcaps d0) = JNum (of_nat 1)"
    using ex_resolve_caps by (auto split: sum.splits)
  have c: "construct ''aabbcc'' (JStr ''10.0.0.2'') (Inr ex_system_config) (Inr ex_device_info)
      (Inr ex_thermostat) (Inr ex_outputs) (Inr JUndef) (Inr JUndef) = Inr (build_schema d0)"
    by (simp add: construct_def d0 Let_def case_prod_beta)
  show ?thesis
    using construct_valve_hidden [OF c] th o c unfolding ex_construct_def by simp
qed


text \<open>C32: The valve hiding relies on \<open>ph_out_id\<close> being a JSON number.  When the unit
  reports it as a string \<open>s\<close>, \<open>index - 1 === this.thermostatOutput\<close> never holds, so
  every dimmer stays visible with its toggle, and \<open>`dimmer${this.thermostatOutput + 1}Power`\<close>
  concatenates: the thermostat block registers \<open>dimmer<s>1Power\<close>.\<close>

theorem valve_output_type:
  assumes "thermostatOutput (dcaps d) = JStr s"
  shows "(\<forall>i. dimmer_visible (dcaps d) i) \<and> props (add_thermostat d) (''dimmer'' @ s @ ''1Power'') \<noteq> None"
  using assms by (simp add: dimmer_visible_def add_thermostat_def Let_def split: option.splits)

theorem valve_output_type_witness:
  "(\<forall>i. dimmer_visible (dcaps (ex_dip_dev\<lparr>dcaps := (dcaps ex_dip_dev)\<lparr>thermostatOutput := JStr ''0''\<rparr>\<rparr>)) i)
   \<and> props (add_thermostat (ex_dip_dev\<lparr>dcaps := (dcaps ex_dip_dev)\<lparr>thermostatOutput := JStr ''0''\<rparr>\<rparr>))
       (''dimmer'' @ ''0'' @ ''1Power'') \<noteq> None"
  using valve_output_type [of "ex_dip_dev\<lparr>dcaps := (dcaps ex_dip_dev)\<lparr>thermostatOutput := JStr ''0''\<rparr>\<rparr>" "''0''"]
  by simp

theorem dip_caps_table_witness:
  "\<not> (case dip_caps (JStr ''1'') of (s1, s2, g1, g2) \<Rightarrow> (s1 \<noteq> g1) \<and> (s2 \<noteq> g2))"
  using dip_caps_table [of "JStr ''1''"] by simp

end
