(* ===== verification/Mqtt.thy ===== *)
theory Mqtt
  imports Device
begin

text \<open>
  The MQTT generation keeps a device up to date from the messages of topic
  \<open>dingz/<id>/<localPath>\<close>.  \<open>DingzMQTT\<close>'s message listener (src/unnamed/part_000
  lines 91--128) decodes the payload (\<open>decode_message\<close>) and calls
  \<open>Dingz.mqttEvent(localPath, message)\<close> (lines 482--614), modelled as \<open>mqtt_event\<close> with
  one definition per \<open>case\<close> of its outer \<open>switch(event)\<close>.  A handler runs on the live
  device object, so its result is an \<open>outcome\<close>: \<open>Threw e d\<close> keeps the assignments made
  before the exception.  \<open>setCachedValueAndNotify\<close> stores the value in the property
  (\<open>set_cached\<close>); the change notification to the gateway is not part of the state.
  \<open>eventNotify\<close> appends the event's name to \<open>fired\<close>.
\<close>

subsection \<open>Path and payload helpers\<close>

text \<open>\<open>details[i]\<close> of a destructured \<open>split('/')\<close>: \<open>undefined\<close> past the end.\<close>

definition part :: "string list \<Rightarrow> nat \<Rightarrow> string option" where
  "part xs i = (if i < length xs then Some (xs ! i) else None)"

text \<open>\<open>`${parseInt(details[1], 10) + 1}`\<close>: \<open>parseInt(undefined)\<close> parses the string
  \<open>"undefined"\<close>, and \<open>NaN + 1\<close> prints as \<open>NaN\<close>.\<close>

definition mqtt_index :: "string option \<Rightarrow> string" where
  "mqtt_index x =
     num_tmpl (map_option (\<lambda>n. n + 1) (parse_int 10 (case x of None \<Rightarrow> ''undefined'' | Some s \<Rightarrow> s)))"

text \<open>\<open>setCachedValue(v)\<close> on the property \<open>n\<close>, which is there.\<close>

definition set_cached :: "string \<Rightarrow> jval \<Rightarrow> dingz \<Rightarrow> dingz" where
  "set_cached n v d = d\<lparr>props := opt_modify n (\<lambda>p. p\<lparr>pvalue := v\<rparr>) (props d)\<rparr>"

text \<open>\<open>this.findProperty(n)?.setCachedValueAndNotify(x)\<close>: the argument \<open>x\<close> is only
  evaluated, and so can only throw, when the property exists.\<close>

definition opt_notify :: "string \<Rightarrow> js_error + jval \<Rightarrow> dingz \<Rightarrow> (js_error, dingz) outcome" where
  "opt_notify n x d =
     (case props d n of None \<Rightarrow> Done d
      | Some p \<Rightarrow> (case x of Inl e \<Rightarrow> Threw e d | Inr v \<Rightarrow> Done (set_cached n v d)))"

text \<open>\<open>this.findProperty(n).setCachedValueAndNotify(v)\<close> without optional chaining.\<close>

definition notify :: "string \<Rightarrow> jval \<Rightarrow> dingz \<Rightarrow> (js_error, dingz) outcome" where
  "notify n v d =
     (case props d n of None \<Rightarrow> Threw (TypeError n) d | Some p \<Rightarrow> Done (set_cached n v d))"

definition fire :: "string \<Rightarrow> dingz \<Rightarrow> dingz" where
  "fire n d = d\<lparr>fired := fired d @ [n]\<rparr>"

subsection \<open>The cases of \<open>mqttEvent\<close>\<close>

definition mqtt_sensor :: "string option \<Rightarrow> jval \<Rightarrow> dingz \<Rightarrow> (js_error, dingz) outcome" where
  "mqtt_sensor d0 msg d =
     (if d0 = Some ''temperature'' then opt_notify ''temperature'' (Inr msg) d
      else if d0 = Some ''light'' then opt_notify ''lightLevel'' (Inr msg) d
      else Done d)"

definition mqtt_power ::
  "string option \<Rightarrow> string option \<Rightarrow> jval \<Rightarrow> dingz \<Rightarrow> (js_error, dingz) outcome" where
  "mqtt_power d0 d1 msg d =
     (let idx = mqtt_index d1 in
      if d0 = Some ''motor'' then opt_notify (''shade'' @ idx @ ''Power'') (Inr msg) d
      else if d0 = Some ''light'' then opt_notify (''dimmer'' @ idx @ ''Power'') (Inr msg) d
      else Done d)"

text \<open>\<open>message.r.toString(16).padStart(2, '0')\<close> and likewise for \<open>g\<close> and \<open>b\<close>.\<close>

definition led_message_color :: "jval \<Rightarrow> js_error + jval" where
  "led_message_color msg =
     ebind (js_get msg ''r'') (\<lambda>r. ebind (js_get msg ''g'') (\<lambda>g. ebind (js_get msg ''b'') (\<lambda>b.
       map_sum id JStr (led_color_str r g b))))"

definition mqtt_state ::
  "string option \<Rightarrow> string option \<Rightarrow> jval \<Rightarrow> dingz \<Rightarrow> (js_error, dingz) outcome" where
  "mqtt_state d0 d1 msg d =
     (if d0 = Some ''light'' then
        (let idx = mqtt_index d1 in
         obind (opt_notify (''dimmer'' @ idx) (map_sum id (\<lambda>t. JBool (t = JStr ''off'')) (js_get msg ''turn'')) d)
           (opt_notify (''dimmer'' @ idx @ ''Brightness'') (js_get msg ''brightness'')))
      else if d0 = Some ''thermostat'' then
        obind (opt_notify ''thermostatMode'' (js_get msg ''status'') d) (\<lambda>d.
        obind (opt_notify ''thermostatState''
                 (ebind (js_get msg ''status'') (\<lambda>s. if s = JStr ''on'' then js_get msg ''mode'' else Inr (JStr ''off''))) d)
          (opt_notify ''targetTemperature'' (js_get msg ''target'')))
      else if d0 = Some ''motor'' then
        (let idx = mqtt_index d1 in
         obind (opt_notify (''shade'' @ idx) (js_get msg ''position'') d)
           (opt_notify (''shade'' @ idx @ ''Lamella'') (js_get msg ''lamella'')))
      else if d0 = Some ''led'' then
        obind (opt_notify ''led'' (map_sum id (\<lambda>v. JBool (v = JNum 1)) (js_get msg ''on'')) d)
          (opt_notify ''ledColor'' (led_message_color msg))
      else Done d)"

text \<open>\<open>case "event"\<close>, \<open>details[0] === "button"\<close>: \<open>switch(message)\<close> compares strictly
  with string literals, so the second \<open>case "m2"\<close> (the quadruple press) is kept here as
  the code has it.  The \<open>default\<close> branch calls \<open>message.startsWith\<close>, which throws for
  a payload that is not a string.\<close>

definition mqtt_button :: "string option \<Rightarrow> jval \<Rightarrow> dingz \<Rightarrow> (js_error, dingz) outcome" where
  "mqtt_button d1 msg d =
     (let k = ''key'' @ mqtt_index d1 in
      if k = ''key5'' then Done d
      else if msg = JStr ''p'' then notify k (JBool True) d
      else if msg = JStr ''m1'' then notify k (JBool False) (fire (k @ ''single'') d)
      else if msg = JStr ''m2'' then notify k (JBool False) (fire (k @ ''double'') d)
      else if msg = JStr ''m3'' then notify k (JBool False) (fire (k @ ''tripple'') d)
      else if msg = JStr ''m2'' then notify k (JBool False) (fire (k @ ''quadruple'') d)
      else if msg = JStr ''h'' then Done d
      else if msg = JStr ''r'' then notify k (JBool False) (fire (k @ ''long'') d)
      else (case msg of
              JStr s \<Rightarrow> if take 1 s = ''m'' then notify k (JBool False) d else Done d
            | _ \<Rightarrow> Threw (TypeError ''startsWith'') d))"

definition mqtt_pir :: "string option \<Rightarrow> jval \<Rightarrow> dingz \<Rightarrow> (js_error, dingz) outcome" where
  "mqtt_pir d1 msg d = (if d1 = Some ''0'' then opt_notify ''motion'' (Inr msg) d else Done d)"

text \<open>The \<open>switch(event)\<close> of \<open>mqttEvent\<close>; the cases \<open>energy\<close>, \<open>command\<close> and
  \<open>default\<close> only log.\<close>

definition mqtt_dispatch ::
  "string option \<Rightarrow> string option \<Rightarrow> string option \<Rightarrow> jval \<Rightarrow> dingz \<Rightarrow> (js_error, dingz) outcome" where
  "mqtt_dispatch ev d0 d1 msg d =
     (if ev = Some ''sensor'' then mqtt_sensor d0 msg d
      else if ev = Some ''power'' then mqtt_power d0 d1 msg d
      else if ev = Some ''state'' then mqtt_state d0 d1 msg d
      else if ev = Some ''event'' then
        (if d0 = Some ''button'' then mqtt_button d1 msg d
         else if d0 = Some ''pir'' then mqtt_pir d1 msg d
         else Done d)
      else Done d)"

text \<open>\<open>mqttEvent(path, message)\<close>: \<open>online\<close>, \<open>announce\<close> and \<open>last_alive\<close> return
  early; for every other path \<open>this.deviceType\<close> is assigned before the \<open>switch\<close>.\<close>

definition mqtt_event :: "string \<Rightarrow> jval \<Rightarrow> dingz \<Rightarrow> (js_error, dingz) outcome" where
  "mqtt_event path msg d =
     (let ps = split_on (CHR ''/'') path; dt = hd ps; ev = part ps 1; ds = drop 2 ps in
      if dt = ''online'' then Done (connectedNotify msg d)
      else if dt = ''announce'' then
        (case js_get msg ''ip'' of Inl e \<Rightarrow> Threw e d
         | Inr ip \<Rightarrow> (case js_get msg ''model'' of Inl e \<Rightarrow> Threw e (d\<lparr>address := ip\<rparr>)
                     | Inr mo \<Rightarrow> Done (d\<lparr>address := ip, deviceType := mo\<rparr>)))
      else if dt = ''last_alive'' then Done d
      else mqtt_dispatch ev (part ds 0) (part ds 1) msg (d\<lparr>deviceType := JStr dt\<rparr>))"

subsection \<open>Decoding a payload\<close>

text \<open>\<open>s.replace(pat, rep)\<close> with a string pattern: the first occurrence only.\<close>

fun replace_first :: "string \<Rightarrow> string \<Rightarrow> string \<Rightarrow> string" where
  "replace_first pat rep [] = (if pat = [] then rep else [])"
| "replace_first pat rep (c # cs) =
     (if take (length pat) (c # cs) = pat then rep @ drop (length pat) (c # cs)
      else c # replace_first pat rep cs)"

definition ends_with :: "string \<Rightarrow> string \<Rightarrow> bool" where
  "ends_with s p \<longleftrightarrow> length p \<le> length s \<and> drop (length s - length p) s = p"

text \<open>The payloads the listener accepts when \<open>JSON.parse\<close> rejects them: the relay
  tokens \<open>s\<close>, \<open>ss\<close>, \<open>n\<close> as booleans and the button tokens as strings.\<close>

definition legacy_token :: "string \<Rightarrow> jval option" where
  "legacy_token s =
     (if s \<in> {''s'', ''ss'', ''n''} then Some (JBool (s \<noteq> ''n''))
      else if s \<in> {''p'', ''h'', ''r''} \<or> take 1 s = ''m'' then Some (JStr s)
      else None)"

text \<open>The payload decoding of the listener, \<open>JSON.parse\<close> being the parameter
  \<open>json\<close> (\<open>None\<close> when it throws).  On topics ending in \<open>state/thermostat\<close> the
  malformed key \<open>"target:"\<close> is repaired first.  \<open>None\<close>: the message is dropped.\<close>

definition decode_message :: "(string \<Rightarrow> jval option) \<Rightarrow> string \<Rightarrow> string \<Rightarrow> jval option" where
  "decode_message json topic raw =
     (let q = [CHR 0x22];
          s = (if ends_with topic ''state/thermostat''
               then replace_first (q @ ''target:'' @ q) (q @ ''target'' @ q @ '':'') raw else raw)
      in case json s of Some v \<Rightarrow> Some v | None \<Rightarrow> legacy_token s)"

subsection \<open>Events fired\<close>

text \<open>The events fired between two states, none of which has the name suffix \<open>sfx\<close>.\<close>

definition fired_without :: "string \<Rightarrow> dingz \<Rightarrow> dingz \<Rightarrow> bool" where
  "fired_without sfx d d' \<longleftrightarrow> (\<exists>es. fired d' = fired d @ es \<and> list_all (\<lambda>e. \<not> ends_with e sfx) es)"

subsection \<open>An example device\<close>

definition ex_mqtt_dev :: dingz where
  "ex_mqtt_dev = addDimmer 1 (addKey 1 (dingz_init ''aabbcc'' (JStr ''10.0.0.2'')))"

subsection \<open>Lemmas\<close>

lemma same_schema_refl [simp]: "same_schema d d"
  by (simp add: same_schema_def)

lemma same_schema_trans: "same_schema d1 d2 \<Longrightarrow> same_schema d2 d3 \<Longrightarrow> same_schema d1 d3"
  by (simp add: same_schema_def)

lemma same_schema_rel: "reflp same_schema" "transp same_schema"
  by (auto intro!: reflpI transpI elim: same_schema_trans)

lemma same_schema_updates [simp]:
  "same_schema d (set_cached n v d)" "same_schema d (fire e d)"
  "same_schema d (d\<lparr>deviceType := x\<rparr>)" "same_schema d (d\<lparr>address := x\<rparr>)"
  "same_schema d (connectedNotify x d)" "same_schema d (d\<lparr>address := x, deviceType := y\<rparr>)"
  by (auto simp: same_schema_def set_cached_def fire_def connectedNotify_def opt_modify_def
      prop_shape_def split: option.splits)

lemma fired_without_rel: "reflp (fired_without sfx)" "transp (fired_without sfx)"
  by (auto intro!: reflpI transpI simp: fired_without_def)

lemma fired_updates [simp]:
  "fired (set_cached n v d) = fired d" "fired (fire e d) = fired d @ [e]"
  by (simp_all add: set_cached_def fire_def)

lemma fired_without_updates [simp]:
  "fired_without sfx d (set_cached n v d)" "fired_without sfx d (d\<lparr>deviceType := x\<rparr>)"
  "fired_without sfx d (d\<lparr>address := x\<rparr>)" "fired_without sfx d (connectedNotify x d)"
  "fired_without sfx d (d\<lparr>address := x, deviceType := y\<rparr>)"
  by (auto simp: fired_without_def connectedNotify_def intro: exI [of _ "[]"])

text \<open>Every handler other than the button handler only writes property values, so it
  keeps any reflexive and transitive relation that writing a value keeps.\<close>

lemma notify_keeps:
  assumes "reflp R" "\<And>d n v. R d (set_cached n v d)"
  shows "keeps R (opt_notify n x)" "keeps R (notify n v)"
  using assms by (auto simp: keeps_def opt_notify_def notify_def reflpD split: option.splits sum.splits)

lemma mqtt_handlers_keep:
  assumes "reflp R" "transp R" "\<And>d n v. R d (set_cached n v d)"
  shows "keeps R (mqtt_sensor d0 msg)" "keeps R (mqtt_power d0 d1 msg)"
    "keeps R (mqtt_pir d1 msg)" "keeps R (mqtt_state d0 d1 msg)"
  unfolding mqtt_sensor_def [abs_def] mqtt_power_def [abs_def] mqtt_pir_def [abs_def]
    mqtt_state_def [abs_def] Let_def
  by (intro keeps_if keeps_obind keeps_Done notify_keeps assms)+

lemma mqtt_event_keeps:
  assumes "reflp R" "transp R" "\<And>d n v. R d (set_cached n v d)"
    and "\<And>d1 msg. keeps R (mqtt_button d1 msg)"
    and "\<And>d x. R d (d\<lparr>deviceType := x\<rparr>)" "\<And>d x. R d (connectedNotify x d)"
    and "\<And>d x. R d (d\<lparr>address := x\<rparr>)" "\<And>d x y. R d (d\<lparr>address := x, deviceType := y\<rparr>)"
  shows "keeps R (mqtt_event path msg)"
proof -
  have k: "keeps R (mqtt_dispatch ev d0 d1 msg)" for ev d0 d1
    unfolding mqtt_dispatch_def [abs_def]
    by (intro keeps_if keeps_Done mqtt_handlers_keep assms(1-4))
  have "R d (final_state (mqtt_dispatch ev d0 d1 msg (d\<lparr>deviceType := x\<rparr>)))" for ev d0 d1 d x
    using transpD [OF assms(2) assms(5) keepsD [OF k]] .
  then show ?thesis
    using assms(1,6-8) unfolding keeps_def mqtt_event_def Let_def
    by (auto simp: reflpD split: sum.splits)
qed

lemma mqtt_button_same_schema: "keeps same_schema (mqtt_button d1 msg)"
proof -
  have "same_schema d (final_state (notify n v d'))" if "same_schema d d'" for d d' n v
    using same_schema_trans [OF that keepsD [OF notify_keeps(2) [OF same_schema_rel(1)]]] by simp
  then show ?thesis by (simp add: keeps_def mqtt_button_def Let_def split: jval.splits)
qed

lemma ends_with_Cons [simp]: "ends_with (c # s) p \<longleftrightarrow> ends_with s p \<or> c # s = p"
proof (cases "length p \<le> length s")
  case True
  then have "Suc (length s) - length p = Suc (length s - length p)" by (simp add: Suc_diff_le)
  with True show ?thesis by (auto simp: ends_with_def)
next
  case False
  then have "Suc (length s) - length p = 0" by simp
  with False show ?thesis by (auto simp: ends_with_def)
qed

lemma ends_with_append_short:
  assumes "length ys \<le> length p" "\<not> ends_with p ys" shows "\<not> ends_with (xs @ ys) p"
proof
  assume "ends_with (xs @ ys) p"
  then have p: "p = drop (length xs + length ys - length p) (xs @ ys)" and "length p \<le> length xs + length ys"
    by (simp_all add: ends_with_def)
  then have "p = drop (length xs + length ys - length p) xs @ ys" using assms(1) by simp
  then obtain a where "p = a @ ys" by blast
  then show False using assms(2) by (simp add: ends_with_def)
qed

lemma fired_without_fire [simp]: "fired_without sfx d (fire e d) \<longleftrightarrow> \<not> ends_with e sfx"
  by (simp add: fired_without_def)

lemma mqtt_button_no_quadruple: "keeps (fired_without ''quadruple'') (mqtt_button d1 msg)"
proof -
  have n: "fired_without ''quadruple'' d (final_state (notify n v d'))"
    if "fired_without ''quadruple'' d d'" for d d' n v
    using that by (simp add: notify_def fired_without_def split: option.splits)
  have e: "\<not> ends_with (xs @ e) ''quadruple''" if "e \<in> {''single'', ''double'', ''tripple'', ''long''}" for xs e
    using that by (auto intro!: ends_with_append_short simp: ends_with_def)
  show ?thesis
    by (simp add: keeps_def mqtt_button_def Let_def reflpD [OF fired_without_rel(1)] n e
        split: jval.splits)
qed

lemma mqtt_event_same_schema: "keeps same_schema (mqtt_event path msg)"
  using mqtt_event_keeps [OF same_schema_rel _ mqtt_button_same_schema] by simp

text \<open>C2: An MQTT message never changes the device's schema: whatever the path and the
  payload, and also when the handler throws, the properties (apart from their values), the
  actions, the events, the capabilities and the names are those before the message.\<close>

theorem mqtt_event_keeps_schema: "same_schema d (final_state (mqtt_event path msg d))"
  using keepsD [OF mqtt_event_same_schema] .

lemma mqtt_event_path:
  assumes "\<And>w. w \<in> set (dt # ev # ds) \<Longrightarrow> CHR ''/'' \<notin> set w"
    and "dt \<notin> {''online'', ''announce'', ''last_alive''}"
  shows "mqtt_event (join_with (CHR ''/'') (dt # ev # ds)) msg d =
    mqtt_dispatch (Some ev) (part ds 0) (part ds (Suc 0)) msg (d\<lparr>deviceType := JStr dt\<rparr>)"
  using assms split_on_join_with [of "dt # ev # ds" "CHR ''/''", OF _ assms(1)]
  by (simp add: mqtt_event_def Let_def part_def)

lemma mqtt_index_nat [simp]: "mqtt_index (Some (nat_str i)) = nat_str (Suc i)"
  using num_tmpl_nat [of "Suc i"] by (simp add: mqtt_index_def add.commute)

lemma key_id_small:
  assumes "i < 4" shows "''key'' @ nat_str (Suc i) \<noteq> ''key5''"
proof
  have five: "nat_str 5 = ''5''" by code_simp
  assume "''key'' @ nat_str (Suc i) = ''key5''"
  then have "nat_str (Suc i) = nat_str 5" using five by simp
  then have "Suc i = 5" by simp
  with assms show False by simp
qed

lemma mqtt_event_4:
  assumes "CHR ''/'' \<notin> set dt" "dt \<notin> {''online'', ''announce'', ''last_alive''}"
    and "CHR ''/'' \<notin> set ev" "CHR ''/'' \<notin> set a" "CHR ''/'' \<notin> set b"
  shows "mqtt_event (join_with (CHR ''/'') [dt, ev, a, b]) msg d =
    mqtt_dispatch (Some ev) (Some a) (Some b) msg (d\<lparr>deviceType := JStr dt\<rparr>)"
proof -
  have "\<And>w. w \<in> set [dt, ev, a, b] \<Longrightarrow> CHR ''/'' \<notin> set w"
    using assms(1,3-5) by auto
  from mqtt_event_path [of dt ev "[a, b]", OF this assms(2)] show ?thesis by (simp add: part_def)
qed

text \<open>C33: No MQTT message fires a quadruple-press event: the events a message appends to the
  fired list never end in \<open>quadruple\<close>, because the second \<open>case "m2"\<close> of the button
  handler, which would fire it, is shadowed by the first.\<close>

theorem mqtt_event_no_quadruple: "fired_without ''quadruple'' d (final_state (mqtt_event path msg d))"
  using mqtt_event_keeps [OF fired_without_rel _ mqtt_button_no_quadruple] by (simp add: keeps_def)

text \<open>C3: A multiple or long press of key \<open>i + 1\<close> (payload \<open>m1\<close>, \<open>m2\<close>, \<open>m3\<close> or
  \<open>r\<close> on \<open>event/button/i\<close>) fires the event of that press and releases the key's
  property; the device type is taken from the path.\<close>

theorem mqtt_button_press:
  assumes "props d (key_id (Suc i)) = Some p" "i < 4"
    and "(m, e) \<in> set [(''m1'', ''single''), (''m2'', ''double''), (''m3'', ''tripple''), (''r'', ''long'')]"
    and "CHR ''/'' \<notin> set dt" "dt \<notin> {''online'', ''announce'', ''last_alive''}"
  shows "mqtt_event (join_with (CHR ''/'') [dt, ''event'', ''button'', nat_str i]) (JStr m) d =
    Done (set_cached (key_id (Suc i)) (JBool False) (fire (key_id (Suc i) @ e) (d\<lparr>deviceType := JStr dt\<rparr>)))"
proof -
  have k: "''key'' @ nat_str (Suc i) \<noteq> ''key5''" using key_id_small assms(2) .
  have "mqtt_event (join_with (CHR ''/'') [dt, ''event'', ''button'', nat_str i]) (JStr m) d =
      mqtt_dispatch (Some ''event'') (Some ''button'') (Some (nat_str i)) (JStr m) (d\<lparr>deviceType := JStr dt\<rparr>)"
    by (rule mqtt_event_4) (use assms(4,5) in auto)
  also have "\<dots> = Done (set_cached (key_id (Suc i)) (JBool False) (fire (key_id (Suc i) @ e) (d\<lparr>deviceType := JStr dt\<rparr>)))"
    using assms(1,3) k by (auto simp: mqtt_dispatch_def mqtt_button_def notify_def fire_def key_id_def)
  finally show ?thesis .
qed

text \<open>C34: A press on a button path whose index is not a number names the key \<open>keyNaN\<close>:
  the handler fires the event \<open>keyNaNsingle\<close> and then throws a \<open>TypeError\<close>, because
  the key's property is read without optional chaining.\<close>

theorem mqtt_button_bad_index:
  assumes "parse_int 10 s = None" "CHR ''/'' \<notin> set s" "props d ''keyNaN'' = None"
    and "CHR ''/'' \<notin> set dt" "dt \<notin> {''online'', ''announce'', ''last_alive''}"
  shows "mqtt_event (join_with (CHR ''/'') [dt, ''event'', ''button'', s]) (JStr ''m1'') d =
    Threw (TypeError ''keyNaN'') (fire ''keyNaNsingle'' (d\<lparr>deviceType := JStr dt\<rparr>))"
proof -
  have "mqtt_event (join_with (CHR ''/'') [dt, ''event'', ''button'', s]) (JStr ''m1'') d =
      mqtt_dispatch (Some ''event'') (Some ''button'') (Some s) (JStr ''m1'') (d\<lparr>deviceType := JStr dt\<rparr>)"
    by (rule mqtt_event_4) (use assms(2,4,5) in auto)
  also have "\<dots> = Threw (TypeError ''keyNaN'') (fire ''keyNaNsingle'' (d\<lparr>deviceType := JStr dt\<rparr>))"
    using assms(1,3) by (simp add: mqtt_dispatch_def mqtt_button_def mqtt_index_def num_tmpl_def
        notify_def fire_def)
  finally show ?thesis .
qed

text \<open>C35: A \<open>state/light\<close> message reporting a dimmer on (\<open>turn = "on"\<close>) sets the
  dimmer's on/off property to \<open>false\<close>: the handler stores \<open>message.turn === "off"\<close>.\<close>

theorem mqtt_light_on_reads_off:
  assumes "props d (dimmer_id (Suc i)) = Some p" "props d (dimmer_id (Suc i) @ ''Brightness'') = Some q"
    and "CHR ''/'' \<notin> set dt" "dt \<notin> {''online'', ''announce'', ''last_alive''}"
  shows "map_option pvalue (props (final_state (mqtt_event (join_with (CHR ''/'') [dt, ''state'', ''light'', nat_str i])
      (JObj [(''turn'', JStr ''on''), (''brightness'', b)]) d)) (dimmer_id (Suc i))) = Some (JBool False)"
proof -
  have "mqtt_event (join_with (CHR ''/'') [dt, ''state'', ''light'', nat_str i])
      (JObj [(''turn'', JStr ''on''), (''brightness'', b)]) d =
    mqtt_dispatch (Some ''state'') (Some ''light'') (Some (nat_str i))
      (JObj [(''turn'', JStr ''on''), (''brightness'', b)]) (d\<lparr>deviceType := JStr dt\<rparr>)"
    by (rule mqtt_event_4) (use assms(3,4) in auto)
  then show ?thesis
    using assms(1,2) by (simp add: mqtt_dispatch_def mqtt_state_def opt_notify_def set_cached_def dimmer_id_def Let_def)
qed

theorem mqtt_button_press_witness:
  "mqtt_event (join_with (CHR ''/'') [''dingz'', ''event'', ''button'', nat_str 0]) (JStr ''m1'') ex_mqtt_dev =
    Done (set_cached (key_id (Suc 0)) (JBool False)
      (fire (key_id (Suc 0) @ ''single'') (ex_mqtt_dev\<lparr>deviceType := JStr ''dingz''\<rparr>)))"
  by (rule mqtt_button_press [of _ _ "the (props ex_mqtt_dev (key_id (Suc 0)))"])
    (simp_all add: ex_mqtt_dev_def dingz_init_def key_id_def dimmer_id_def)

theorem mqtt_button_bad_index_witness:
  "mqtt_event (join_with (CHR ''/'') [''dingz'', ''event'', ''button'', ''x'']) (JStr ''m1'') ex_mqtt_dev =
    Threw (TypeError ''keyNaN'') (fire ''keyNaNsingle'' (ex_mqtt_dev\<lparr>deviceType := JStr ''dingz''\<rparr>))"
  by (rule mqtt_button_bad_index)
    (simp | code_simp)+

theorem mqtt_light_on_reads_off_witness:
  "map_option pvalue (props (final_state (mqtt_event (join_with (CHR ''/'') [''dingz'', ''state'', ''light'', nat_str 0])
      (JObj [(''turn'', JStr ''on''), (''brightness'', JNum 50)]) ex_mqtt_dev)) (dimmer_id (Suc 0))) = Some (JBool False)"
  by (rule mqtt_light_on_reads_off [of _ _ "the (props ex_mqtt_dev (dimmer_id (Suc 0)))"
      "the (props ex_mqtt_dev (dimmer_id (Suc 0) @ ''Brightness''))"])
    (simp_all add: ex_mqtt_dev_def dingz_init_def key_id_def dimmer_id_def)

end
