(* ===== verification/Api.thy ===== *)
theory Api
  imports Device
begin

text \<open>
  \<open>Dingz.apiCall(path, method)\<close> (src/unnamed/part_000 lines 624--653, identical in
  src/index.js lines 421--450): the HTTP request to the unit and the classification of
  its failures.  The network is a parameter \<open>fetch\<close> from the URL and the method to the
  reply, and \<open>response.json()\<close> is the parameter \<open>json\<close> (\<open>None\<close> when the body is not
  JSON).  The result is the value of the returned promise (\<open>Inl\<close> a rejection) with the
  device state after the call: a timeout marks the device disconnected.
\<close>

text \<open>What \<open>fetch\<close> settles with: a response with its status and body text, or a
  node-fetch \<open>FetchError\<close> with its \<open>type\<close> and \<open>code\<close>.\<close>

datatype fetch_reply = Reply int string | NetFail string string

definition api_url :: "jval \<Rightarrow> string \<Rightarrow> string" where
  "api_url addr path = ''http://'' @ js_str addr @ ''/api/v1/'' @ path"

text \<open>\<open>response.ok && response.status < 400\<close>.\<close>

definition reply_ok :: "int \<Rightarrow> bool" where
  "reply_ok st \<longleftrightarrow> 200 \<le> st \<and> st \<le> 299 \<and> st < 400"

text \<open>A missing address returns \<open>undefined\<close>.  A successful reply returns its parsed body,
  except for status 204 and for \<open>POST\<close>; \<open>return response.json()\<close> hands back the
  promise un-awaited, so a body that is not JSON rejects outside the \<open>try\<close>.  Any other
  status throws \<open>Error("status: text")\<close>, which the \<open>catch\<close> rethrows; a system error
  \<open>ETIMEDOUT\<close> or \<open>EHOSTUNREACH\<close> is swallowed after \<open>connectedNotify(false)\<close>.\<close>

definition api_call ::
  "(string \<Rightarrow> jval option) \<Rightarrow> (string \<Rightarrow> string \<Rightarrow> fetch_reply) \<Rightarrow> string \<Rightarrow> string \<Rightarrow> dingz
     \<Rightarrow> (js_error + jval) \<times> dingz" where
  "api_call json fetch path meth d =
     (if \<not> js_truthy (address d) then (Inr JUndef, d)
      else case fetch (api_url (address d) path) meth of
        NetFail ty code \<Rightarrow>
          if ty = ''system'' \<and> (code = ''ETIMEDOUT'' \<or> code = ''EHOSTUNREACH'')
          then (Inr JUndef, connectedNotify (JBool False) d)
          else (Inl (FetchError ty code), d)
      | Reply st body \<Rightarrow>
          if reply_ok st then
            (if st \<noteq> 204 \<and> meth \<noteq> ''POST'' then
               (case json body of Some v \<Rightarrow> Inr v | None \<Rightarrow> Inl (FetchError ''invalid-json'' []), d)
             else (Inr JUndef, d))
          else (Inl (HttpError st body), d))"

text \<open>The error of a call: \<open>None\<close> when the promise fulfils.\<close>

definition api_error :: "(js_error + jval) \<times> dingz \<Rightarrow> js_error option" where
  "api_error r = (case fst r of Inl e \<Rightarrow> Some e | Inr v \<Rightarrow> None)"

subsection \<open>Lemmas\<close>

text \<open>A call to the unit changes nothing of the device but, on a timeout, its connection
  flag, which becomes \<open>false\<close>.\<close>

lemma api_call_state:
  "snd (api_call json fetch path meth d) = d
   \<or> snd (api_call json fetch path meth d) = connectedNotify (JBool False) d"
  by (auto simp: api_call_def split: fetch_reply.splits option.splits)

text \<open>C13: Error classification: a call rejects exactly when the unit answered with a status
  outside 200--299, when a successful \<open>GET\<close> body is not JSON, or when the network failed
  other than by a timeout; a timeout or an unreachable host fulfils with \<open>undefined\<close> and
  marks the device disconnected.\<close>

theorem api_call_error:
  assumes "js_truthy (address d)"
  shows "api_error (api_call json fetch path meth d) =
    (case fetch (api_url (address d) path) meth of
       NetFail ty code \<Rightarrow>
         if ty = ''system'' \<and> code \<in> {''ETIMEDOUT'', ''EHOSTUNREACH''} then None
         else Some (FetchError ty code)
     | Reply st body \<Rightarrow>
         if \<not> reply_ok st then Some (HttpError st body)
         else if st \<noteq> 204 \<and> meth \<noteq> ''POST'' \<and> json body = None
         then Some (FetchError ''invalid-json'' []) else None)"
  using assms
  by (auto simp: api_call_def api_error_def split: fetch_reply.splits option.splits)

theorem api_call_error_witness:
  "api_error (api_call (\<lambda>s. None) (\<lambda>u m. Reply 500 ''boom'') ''state'' ''GET''
     (dingz_init ''aabbcc'' (JStr ''10.0.0.2''))) = Some (HttpError 500 ''boom'')"
  using api_call_error [of "dingz_init ''aabbcc'' (JStr ''10.0.0.2'')" "\<lambda>s. None"
      "\<lambda>u m. Reply 500 ''boom''" "''state''" "''GET''"]
  by (simp add: dingz_init_def reply_ok_def)

end
