(* ===== verification/Poll.thy ===== *)
theory Poll
  imports Mqtt Api
begin

text \<open>
  \<open>Dingz.poll()\<close>: the periodic reconciliation of the device with the unit's \<open>state\<close>
  snapshot, in both generations (src/unnamed/part_000 lines 812--862, src/index.js lines
  663--711).  The body reads the snapshot field by field; every read of a field of
  \<open>undefined\<close> and every \<open>findProperty(id).setCachedValueAndNotify\<close> on a missing
  property throws, and the writes made before stay.  The two generations differ in two
  places: the MQTT generation returns when the snapshot is falsy, and it reads the valve
  output of the thermostat from the device (\<open>this.thermostatOutput\<close>) where the HTTP
  generation reads \<open>state.thermostat.out\<close>; the body takes that choice as the parameter
  \<open>outsel\<close>.
\<close>

subsection \<open>JavaScript operations of the poll\<close>

text \<open>\<open>v.hasOwnProperty(k)\<close>.\<close>

fun js_has_own :: "jval \<Rightarrow> string \<Rightarrow> js_error + bool" where
  "js_has_own JUndef k = Inl (TypeError k)"
| "js_has_own JNull k = Inl (TypeError k)"
| "js_has_own (JObj kvs) k = Inr (k \<in> fst ` set kvs)"
| "js_has_own _ k = Inr False"

text \<open>The values a \<open>for ... of\<close> loop visits: the elements of an array, the characters of a
  string; anything else is not iterable.\<close>

fun js_iter :: "jval \<Rightarrow> js_error + jval list" where
  "js_iter (JArr vs) = Inr vs"
| "js_iter (JStr s) = Inr (map (\<lambda>c. JStr [c]) s)"
| "js_iter _ = Inl (TypeError ''not iterable'')"

text \<open>An array index given as a property key: the canonical decimal form of a natural
  number.\<close>

definition array_index :: "string \<Rightarrow> nat option" where
  "array_index k = (case parse_int 10 k of
     Some i \<Rightarrow> if 0 \<le> i \<and> int_str i = k then Some (nat i) else None | None \<Rightarrow> None)"

text \<open>\<open>v[k]\<close> with a computed key, which is converted to a string.\<close>

fun js_member :: "jval \<Rightarrow> jval \<Rightarrow> js_error + jval" where
  "js_member JUndef k = Inl (TypeError (js_str k))"
| "js_member JNull k = Inl (TypeError (js_str k))"
| "js_member (JArr vs) k =
     Inr (case array_index (js_str k) of Some n \<Rightarrow> if n < length vs then vs ! n else JUndef | None \<Rightarrow> JUndef)"
| "js_member (JObj kvs) k = js_get (JObj kvs) (js_str k)"
| "js_member _ k = Inr JUndef"

text \<open>\<open>v > b\<close> for a number \<open>b\<close>.\<close>

fun n_gt :: "jsnum \<Rightarrow> rat \<Rightarrow> bool" where
  "n_gt (Fin a) b = (b < a)"
| "n_gt NaN b = False"

definition js_get2 :: "jval \<Rightarrow> string \<Rightarrow> string \<Rightarrow> js_error + jval" where
  "js_get2 v a b = ebind (js_get v a) (\<lambda>w. js_get w b)"

text \<open>\<open>state.sensors.power_outputs[i].value\<close>.\<close>

definition power_value :: "jval \<Rightarrow> jval \<Rightarrow> js_error + jval" where
  "power_value st i =
     ebind (js_get2 st ''sensors'' ''power_outputs'') (\<lambda>po. ebind (js_member po i) (\<lambda>ov. js_get ov ''value''))"

text \<open>\<open>this.findProperty(n).setCachedValueAndNotify(x)\<close> with an argument that may throw:
  the missing property throws first, before the argument is evaluated.\<close>

definition snotify :: "string \<Rightarrow> js_error + jval \<Rightarrow> dingz \<Rightarrow> (js_error, dingz) outcome" where
  "snotify n x d =
     (case props d n of None \<Rightarrow> Threw (TypeError n) d
      | Some p \<Rightarrow> ocase x d (\<lambda>v. Done (set_cached n v d)))"

text \<open>\<open>targetTempProp.minimum = v\<close>, \<open>targetTempProp.maximum = v\<close>.\<close>

definition set_bounds :: "string \<Rightarrow> jval \<Rightarrow> jval \<Rightarrow> dingz \<Rightarrow> dingz" where
  "set_bounds n mn mx d =
     d\<lparr>props := opt_modify n (\<lambda>p. p\<lparr>pminimum := mn, pmaximum := mx\<rparr>) (props d)\<rparr>"

text \<open>\<open>THERMOSTAT_STATE_TO_MODE[mode]\<close>: the key is the string of \<open>mode\<close>.\<close>

definition thermostat_mode_of :: "jval \<Rightarrow> jval" where
  "thermostat_mode_of m =
     (if js_str m = ''heating'' then JStr ''heat'' else if js_str m = ''cooling'' then JStr ''cool'' else JUndef)"

subsection \<open>The steps of the poll\<close>

text \<open>The brightness (unless \<open>null\<close>) and the room temperature (when present).\<close>

definition poll_sensors :: "jval \<Rightarrow> dingz \<Rightarrow> (js_error, dingz) outcome" where
  "poll_sensors st d =
     ocase (js_get2 st ''sensors'' ''brightness'') d (\<lambda>b.
     obind (if b \<noteq> JNull then snotify ''lightLevel'' (Inr b) d else Done d) (\<lambda>d.
     ocase (ebind (js_get st ''sensors'') (\<lambda>s. js_has_own s ''room_temperature'')) d (\<lambda>h.
       if h then snotify ''temperature'' (js_get2 st ''sensors'' ''room_temperature'') d else Done d)))"

text \<open>\<open>const color = state.led.mode === 'hsv' ? hsv2rgb(state.led.hsv) : state.led.rgb\<close>;
  \<open>hsv2rgb\<close> calls \<open>split\<close>, which a value that is not a string does not have.\<close>

definition led_state_color :: "jval \<Rightarrow> js_error + jval" where
  "led_state_color st =
     ebind (js_get2 st ''led'' ''mode'') (\<lambda>m.
       if m = JStr ''hsv'' then
         ebind (js_get2 st ''led'' ''hsv'') (\<lambda>h. case h of JStr s \<Rightarrow> Inr (JStr (hsv2rgb s))
                                               | _ \<Rightarrow> Inl (TypeError ''split''))
       else js_get2 st ''led'' ''rgb'')"

definition poll_led :: "jval \<Rightarrow> dingz \<Rightarrow> (js_error, dingz) outcome" where
  "poll_led st d =
     obind (snotify ''led'' (js_get2 st ''led'' ''on'') d) (\<lambda>d.
     ocase (led_state_color st) d (\<lambda>c. snotify ''ledColor'' (Inr (JStr (CHR ''#'' # js_str c))) d))"

text \<open>One element of \<open>state.dimmers\<close>: a dimmer of a wired group (absolute index above 1
  for group 2, at most 1 for group 1) updates its switch, brightness and power.\<close>

definition poll_dimmer :: "jval \<Rightarrow> jval \<Rightarrow> dingz \<Rightarrow> (js_error, dingz) outcome" where
  "poll_dimmer st dm d =
     ocase (js_get2 dm ''index'' ''absolute'') d (\<lambda>a.
       if (n_gt (js_to_number a) 1 \<and> dimmerGroup2 (dcaps d)) \<or> (n_le (js_to_number a) 1 \<and> dimmerGroup1 (dcaps d))
       then (let did = ''dimmer'' @ tmpl_plus1 a in
             obind (snotify did (js_get dm ''on'') d) (\<lambda>d.
             obind (snotify (did @ ''Brightness'') (js_get dm ''value'') d) (\<lambda>d.
             snotify (did @ ''Power'') (power_value st a) d)))
       else Done d)"

text \<open>One element of \<open>state.blinds\<close>: a wired shade (absolute index 0 or 1, compared
  strictly) updates its position, lamella and power; its power is
  \<open>motor1Power || motor2Power\<close>, read from outputs \<open>2a\<close> and \<open>2a + 1\<close> before the property
  is looked up.  The guard makes \<open>a\<close> a number.\<close>

definition poll_blind :: "jval \<Rightarrow> jval \<Rightarrow> dingz \<Rightarrow> (js_error, dingz) outcome" where
  "poll_blind st bl d =
     ocase (js_get2 bl ''index'' ''absolute'') d (\<lambda>a.
       if (a = JNum 0 \<and> shade1 (dcaps d)) \<or> (a = JNum 1 \<and> shade2 (dcaps d)) then
         (case a of
            JNum r \<Rightarrow>
              (let sid = ''shade'' @ tmpl_plus1 a in
               obind (snotify sid (js_get bl ''position'') d) (\<lambda>d.
               obind (snotify (sid @ ''Lamella'') (js_get bl ''lamella'') d) (\<lambda>d.
               ocase (power_value st (JNum (r * 2))) d (\<lambda>m1.
               ocase (power_value st (JNum (r * 2 + 1))) d (\<lambda>m2.
                 snotify (sid @ ''Power'') (Inr (if js_truthy m1 then m1 else m2)) d)))))
          | _ \<Rightarrow> Done d)
       else Done d)"

text \<open>The thermostat block, when \<open>state.thermostat.active\<close> and the device has a
  thermostat: target temperature and its bounds, mode, state, and the valve's power.  The
  output whose power is read is chosen by \<open>outsel\<close>.\<close>

definition poll_thermostat ::
  "(dingz \<Rightarrow> jval \<Rightarrow> js_error + jval) \<Rightarrow> jval \<Rightarrow> dingz \<Rightarrow> (js_error, dingz) outcome" where
  "poll_thermostat outsel st d =
     ocase (js_get2 st ''thermostat'' ''active'') d (\<lambda>act.
       if js_truthy act \<and> thermostat (dcaps d) then
         obind (snotify ''targetTemperature'' (js_get2 st ''thermostat'' ''target_temp'') d) (\<lambda>d.
         ocase (js_get2 st ''thermostat'' ''min_target_temp'') d (\<lambda>mn.
         ocase (js_get2 st ''thermostat'' ''max_target_temp'') d (\<lambda>mx.
         (let d = set_bounds ''targetTemperature'' mn mx d in
          ocase (ebind (js_get2 st ''thermostat'' ''enabled'') (\<lambda>en.
                   if js_truthy en then map_sum id thermostat_mode_of (js_get2 st ''thermostat'' ''mode'')
                   else Inr (JStr ''off''))) d (\<lambda>md.
          obind (snotify ''thermostatMode'' (Inr md) d) (\<lambda>d.
          ocase (ebind (js_get2 st ''thermostat'' ''on'') (\<lambda>on.
                   if js_truthy on then js_get2 st ''thermostat'' ''mode'' else Inr (JStr ''off''))) d (\<lambda>ts.
          obind (snotify ''thermostatState'' (Inr ts) d) (\<lambda>d.
          ocase (outsel d st) d (\<lambda>ov.
            snotify (''dimmer'' @ tmpl_plus1 ov @ ''Power'') (power_value st ov) d)))))))))
       else Done d)"

text \<open>The body of \<open>poll()\<close> after the snapshot has arrived: the sensors, the LED, the
  loops over \<open>state.dimmers\<close> and \<open>state.blinds\<close>, then the thermostat block.\<close>

definition poll_updates :: "jval \<Rightarrow> dingz \<Rightarrow> (js_error, dingz) outcome" where
  "poll_updates st d =
     obind (poll_sensors st d) (\<lambda>d.
     obind (poll_led st d) (\<lambda>d.
     ocase (ebind (js_get st ''dimmers'') js_iter) d (\<lambda>ds.
     obind (ofold (poll_dimmer st) ds d) (\<lambda>d.
     ocase (ebind (js_get st ''blinds'') js_iter) d (\<lambda>bs.
     ofold (poll_blind st) bs d)))))"

definition poll_body ::
  "(dingz \<Rightarrow> jval \<Rightarrow> js_error + jval) \<Rightarrow> jval \<Rightarrow> dingz \<Rightarrow> (js_error, dingz) outcome" where
  "poll_body outsel st d = obind (poll_updates st d) (poll_thermostat outsel st)"

text \<open>The valve output: \<open>this.thermostatOutput\<close> (MQTT generation) or
  \<open>state.thermostat.out\<close> (HTTP generation).\<close>

definition outsel_device :: "dingz \<Rightarrow> jval \<Rightarrow> js_error + jval" where
  "outsel_device d st = Inr (thermostatOutput (dcaps d))"

definition outsel_state :: "dingz \<Rightarrow> jval \<Rightarrow> js_error + jval" where
  "outsel_state d st = js_get2 st ''thermostat'' ''out''"

text \<open>\<open>poll()\<close> of the MQTT generation: nothing while disconnected, then
  \<open>await this.apiCall('state')\<close>, nothing for a falsy snapshot.\<close>

definition poll_mqtt ::
  "(string \<Rightarrow> jval option) \<Rightarrow> (string \<Rightarrow> string \<Rightarrow> fetch_reply) \<Rightarrow> dingz \<Rightarrow> (js_error, dingz) outcome" where
  "poll_mqtt json fetch d =
     (if \<not> js_truthy (connected d) then Done d
      else (case api_call json fetch ''state'' ''GET'' d of
              (Inl e, d) \<Rightarrow> Threw e d
            | (Inr st, d) \<Rightarrow> if \<not> js_truthy st then Done d else poll_body outsel_device st d))"

text \<open>\<open>poll()\<close> of the HTTP generation: no check of the snapshot.\<close>

definition poll_http ::
  "(string \<Rightarrow> jval option) \<Rightarrow> (string \<Rightarrow> string \<Rightarrow> fetch_reply) \<Rightarrow> dingz \<Rightarrow> (js_error, dingz) outcome" where
  "poll_http json fetch d =
     (if \<not> js_truthy (connected d) then Done d
      else (case api_call json fetch ''state'' ''GET'' d of
              (Inl e, d) \<Rightarrow> Threw e d
            | (Inr st, d) \<Rightarrow> poll_body outsel_state st d))"

text \<open>The shape the two polls share: nothing while disconnected, otherwise the awaited
  \<open>apiCall('state')\<close>, whose rejection propagates, followed by a continuation.\<close>

definition poll_call ::
  "(string \<Rightarrow> jval option) \<Rightarrow> (string \<Rightarrow> string \<Rightarrow> fetch_reply) \<Rightarrow> dingz
     \<Rightarrow> (jval \<Rightarrow> dingz \<Rightarrow> (js_error, dingz) outcome) \<Rightarrow> (js_error, dingz) outcome" where
  "poll_call json fetch d g =
     (if \<not> js_truthy (connected d) then Done d
      else (case api_call json fetch ''state'' ''GET'' d of (Inl e, d) \<Rightarrow> Threw e d | (Inr st, d) \<Rightarrow> g st d))"

subsection \<open>Examples\<close>

definition ex_state :: jval where
  "ex_state = JObj [
     (''sensors'', JObj [(''brightness'', JNum 12), (''power_outputs'',
        JArr [JObj [(''value'', JNum 0)], JObj [(''value'', JNum 120)]])]),
     (''led'', JObj [(''on'', JBool True), (''mode'', JStr ''rgb''), (''rgb'', JStr ''00FF00'')]),
     (''dimmers'', JArr []),
     (''blinds'', JArr [JObj [(''index'', JObj [(''absolute'', JNum 0)]), (''position'', JNum 40),
        (''lamella'', JNum 10)]]),
     (''thermostat'', JObj [(''active'', JBool True), (''target_temp'', JNum 21),
        (''min_target_temp'', JNum 5), (''max_target_temp'', JNum 30), (''enabled'', JBool True),
        (''mode'', JStr ''heating''), (''on'', JBool True)])]"

definition ex_shade_dev :: dingz where
  "ex_shade_dev = (let d = dingz_init ''aabbcc'' (JStr ''10.0.0.2'') in
     addShade 1 (d\<lparr>dcaps := (dcaps d)\<lparr>shade1 := True\<rparr>\<rparr>))"

definition ex_valve_dev :: dingz where
  "ex_valve_dev = (let d = dingz_init ''aabbcc'' (JStr ''10.0.0.2'') in
     add_thermostat (d\<lparr>dcaps := (dcaps d)\<lparr>thermostat := True\<rparr>\<rparr>))"

subsection \<open>Lemmas\<close>

lemma schema_steps_fields [simp]:
  "connected (addShade i d) = connected d" "address (addShade i d) = address d"
  "connected (add_thermostat d) = connected d" "address (add_thermostat d) = address d"
  by (simp_all add: addShade_def add_thermostat_def Let_def add_prop_def add_action_def split: option.splits)

lemma array_index_undefined [simp]: "array_index ''undefined'' = None"
  by code_simp

lemma num_str_small [simp]: "num_str 1 = ''1''" "num_str 2 = ''2''"
  by code_simp+

lemma same_kinds_rel: "reflp same_kinds" "transp same_kinds"
  by (auto intro!: reflpI transpI simp: same_kinds_def)

lemma same_kinds_updates [simp]:
  "same_kinds d (set_cached n v d)" "same_kinds d (set_bounds n a b d)"
  "same_kinds d (connectedNotify x d)"
  by (auto simp: same_kinds_def set_cached_def set_bounds_def connectedNotify_def opt_modify_def
      prop_kind_def split: option.splits)

lemma snotify_keeps: "keeps same_kinds (snotify n x)"
  by (auto simp: keeps_def snotify_def ocase_def reflpD [OF same_kinds_rel(1)] split: option.splits sum.splits)

lemmas poll_keeps_intros = keeps_ocase [OF same_kinds_rel(1)] keeps_obind [OF same_kinds_rel(2)]
  keeps_if keeps_Done [OF same_kinds_rel(1)] snotify_keeps

lemma poll_steps_keep:
  "keeps same_kinds (poll_sensors st)" "keeps same_kinds (poll_led st)"
  "keeps same_kinds (poll_dimmer st dm)"
  unfolding poll_sensors_def [abs_def] poll_led_def [abs_def] poll_dimmer_def [abs_def] Let_def
  by (intro poll_keeps_intros)+

lemma poll_blind_keeps: "keeps same_kinds (poll_blind st bl)"
  unfolding poll_blind_def [abs_def] Let_def
proof (intro poll_keeps_intros)
  fix a
  show "keeps same_kinds (\<lambda>d. case a of JNum r \<Rightarrow> obind (snotify (''shade'' @ tmpl_plus1 a) (js_get bl ''position'') d)
      (\<lambda>d. obind (snotify ((''shade'' @ tmpl_plus1 a) @ ''Lamella'') (js_get bl ''lamella'') d)
      (\<lambda>d. ocase (power_value st (JNum (r * 2))) d (\<lambda>m1. ocase (power_value st (JNum (r * 2 + 1))) d
      (\<lambda>m2. snotify ((''shade'' @ tmpl_plus1 a) @ ''Power'') (Inr (if js_truthy m1 then m1 else m2)) d))))
      | _ \<Rightarrow> Done d)"
    by (cases a) (simp_all add: keeps_Done [OF same_kinds_rel(1)], intro poll_keeps_intros)
qed

lemma poll_thermostat_keeps: "keeps same_kinds (poll_thermostat outsel st)"
  unfolding poll_thermostat_def [abs_def] Let_def
  by (intro poll_keeps_intros keeps_pre [OF same_kinds_rel(2)] same_kinds_updates)+

lemma poll_updates_keeps: "keeps same_kinds (poll_updates st)"
  unfolding poll_updates_def [abs_def]
  by (intro poll_keeps_intros keeps_ofold [OF same_kinds_rel] poll_steps_keep poll_blind_keeps)+

lemma poll_body_keeps: "keeps same_kinds (poll_body outsel st)"
  unfolding poll_body_def [abs_def]
  by (intro poll_keeps_intros poll_updates_keeps poll_thermostat_keeps)

lemma api_call_kinds: "same_kinds d (snd (api_call json fetch path meth d))"
  using api_call_state [of json fetch path meth d] by (auto simp: reflpD [OF same_kinds_rel(1)])

text \<open>Both polls are a connection check around the awaited \<open>apiCall('state')\<close> and a
  continuation on the snapshot; a poll keeps the kinds when its continuation does.\<close>

lemma poll_mqtt_poll_call:
  "poll_mqtt json fetch d = poll_call json fetch d (\<lambda>st d'. if \<not> js_truthy st then Done d' else poll_body outsel_device st d')"
  by (simp add: poll_mqtt_def poll_call_def)

lemma poll_http_poll_call: "poll_http json fetch d = poll_call json fetch d (poll_body outsel_state)"
  by (simp add: poll_http_def poll_call_def)

lemma poll_call_kinds:
  assumes "\<And>st d'. same_kinds d' (final_state (g st d'))"
  shows "same_kinds d (final_state (poll_call json fetch d g))"
proof -
  obtain r d' where a: "api_call json fetch ''state'' ''GET'' d = (r, d')" by fastforce
  have dd': "same_kinds d d'" using api_call_kinds [of d json fetch "''state''" "''GET''"] a by simp
  show ?thesis
    using a dd' transpD [OF same_kinds_rel(2) dd' assms]
    by (auto simp: poll_call_def reflpD [OF same_kinds_rel(1)] split: sum.splits)
qed

text \<open>C11: A poll of either generation, whatever the unit answers and also when it
  throws, keeps the device's property ids with their class, type, title, visibility and
  read-only flag, its actions, events and capabilities.\<close>

theorem poll_keeps_kinds:
  "same_kinds d (final_state (poll_mqtt json fetch d)) \<and> same_kinds d (final_state (poll_http json fetch d))"
proof -
  have body: "same_kinds d' (final_state (poll_body sel st d'))" for sel st d'
    using keepsD [OF poll_body_keeps] .
  have "same_kinds d (final_state (poll_call json fetch d (\<lambda>st d'. if \<not> js_truthy st then Done d' else poll_body outsel_device st d')))"
    using body by (intro poll_call_kinds) (simp add: reflpD [OF same_kinds_rel(1)])
  moreover have "same_kinds d (final_state (poll_call json fetch d (poll_body outsel_state)))"
    using body by (intro poll_call_kinds)
  ultimately show ?thesis by (simp add: poll_mqtt_poll_call poll_http_poll_call)
qed

lemma poll_thermostat_outsel:
  assumes "\<And>d'. dcaps d' = dcaps d \<Longrightarrow> o1 d' st = o2 d' st"
  shows "poll_thermostat o1 st d = poll_thermostat o2 st d"
  using assms unfolding poll_thermostat_def Let_def ocase_def
  by (auto simp: set_bounds_def snotify_def ocase_def set_cached_def split: sum.splits option.splits
      intro!: obind_cong_keeps [of same_kinds])

text \<open>C12: When the unit times out, \<open>apiCall\<close> marks the device disconnected and returns
  \<open>undefined\<close>; the MQTT generation's poll then returns, while the HTTP generation's poll
  throws a \<open>TypeError\<close> reading \<open>state.sensors\<close>.\<close>

theorem poll_timeout:
  assumes "js_truthy (connected d)" "js_truthy (address d)"
    and "fetch (api_url (address d) ''state'') ''GET'' = NetFail ''system'' ''ETIMEDOUT''"
  shows "poll_mqtt json fetch d = Done (connectedNotify (JBool False) d)
    \<and> poll_http json fetch d = Threw (TypeError ''sensors'') (connectedNotify (JBool False) d)"
  using assms
  by (simp add: poll_mqtt_def poll_http_def api_call_def poll_body_def poll_updates_def poll_sensors_def
      js_get2_def)

lemma poll_disconnected: "\<not> js_truthy (connected d) \<Longrightarrow> poll_mqtt json fetch d = Done d \<and> poll_http json fetch d = Done d"
  by (simp add: poll_mqtt_def poll_http_def)
text \<open>For a wired shade the poll stores position and lamella and, as the shade's
  power, \<open>motor1Power || motor2Power\<close>: the first motor output unless it is falsy.\<close>

theorem poll_shade_power:
  assumes "shade1 (dcaps d)" "props d ''shade1'' = Some p1" "props d ''shade1Lamella'' = Some p2"
    and "props d ''shade1Power'' = Some p3"
    and "power_value st (JNum 0) = Inr m1" "power_value st (JNum 1) = Inr m2"
  shows "poll_blind st (JObj [(''index'', JObj [(''absolute'', JNum 0)]), (''position'', pos), (''lamella'', lam)]) d =
    Done (set_cached ''shade1Power'' (if js_truthy m1 then m1 else m2)
      (set_cached ''shade1Lamella'' lam (set_cached ''shade1'' pos d)))"
  using assms by (simp add: poll_blind_def js_get2_def snotify_def set_cached_def)

text \<open>C14: A thermostat without an enabled heating-valve output leaves \<open>thermostatOutput\<close>
  undefined; when the thermostat is active, the MQTT generation's poll then reads
  \<open>power_outputs[undefined].value\<close> and throws a \<open>TypeError\<close>.\<close>

theorem poll_valve_undefined:
  assumes "thermostat (dcaps d)" "thermostatOutput (dcaps d) = JUndef"
    and "js_get st ''thermostat'' = Inr (JObj tk)" "js_get2 st ''thermostat'' ''active'' = Inr a" "js_truthy a"
    and "js_get2 st ''sensors'' ''power_outputs'' = Inr (JArr po)"
    and "props d ''targetTemperature'' = Some p1" "props d ''thermostatMode'' = Some p2"
    and "props d ''thermostatState'' = Some p3" "props d ''dimmerNaNPower'' = Some p4"
  shows "\<exists>d'. poll_thermostat outsel_device st d = Threw (TypeError ''value'') d'"
  using assms
  by (simp add: poll_thermostat_def js_get2_def snotify_def set_cached_def set_bounds_def outsel_device_def
      power_value_def Let_def split: sum.splits)

theorem poll_timeout_witness:
  "poll_mqtt (\<lambda>s. Some ex_state) (\<lambda>u m. NetFail ''system'' ''ETIMEDOUT'') ex_shade_dev
     = Done (connectedNotify (JBool False) ex_shade_dev)
   \<and> poll_http (\<lambda>s. Some ex_state) (\<lambda>u m. NetFail ''system'' ''ETIMEDOUT'') ex_shade_dev
     = Threw (TypeError ''sensors'') (connectedNotify (JBool False) ex_shade_dev)"
  by (rule poll_timeout) (simp_all add: ex_shade_dev_def dingz_init_def)

theorem poll_shade_power_witness:
  "poll_blind ex_state (JObj [(''index'', JObj [(''absolute'', JNum 0)]), (''position'', JNum 40),
      (''lamella'', JNum 10)]) ex_shade_dev =
    Done (set_cached ''shade1Power'' (JNum 120)
      (set_cached ''shade1Lamella'' (JNum 10) (set_cached ''shade1'' (JNum 40) ex_shade_dev)))"
proof -
  have "power_value ex_state (JNum 0) = Inr (JNum 0)" "power_value ex_state (JNum 1) = Inr (JNum 120)"
    by code_simp+
  then show ?thesis
    using poll_shade_power [of ex_shade_dev "the (props ex_shade_dev ''shade1'')"
        "the (props ex_shade_dev ''shade1Lamella'')" "the (props ex_shade_dev ''shade1Power'')"
        ex_state "JNum 0" "JNum 120" "JNum 40" "JNum 10"]
    by (simp add: ex_shade_dev_def dingz_init_def shade_id_def)
qed

theorem poll_valve_undefined_witness:
  "\<exists>d'. poll_thermostat outsel_device ex_state ex_valve_dev = Threw (TypeError ''value'') d'"
proof -
  have p: "props ex_valve_dev ''dimmerNaNPower'' \<noteq> None" by code_simp
  show ?thesis
    using p poll_valve_undefined [of ex_valve_dev ex_state _ "JBool True"
        "[JObj [(''value'', JNum 0)], JObj [(''value'', JNum 120)]]"
        "the (props ex_valve_dev ''targetTemperature'')" "the (props ex_valve_dev ''thermostatMode'')"
        "the (props ex_valve_dev ''thermostatState'')" "the (props ex_valve_dev ''dimmerNaNPower'')"]
    by (simp add: ex_valve_dev_def dingz_init_def ex_state_def js_get2_def add_thermostat_def Let_def)
qed

end
