(* ===== verification/Webhook.thy ===== *)
theory Webhook
  imports Mqtt
begin

text \<open>
  The push channel of the HTTP generation: the unit posts the form fields \<open>index\<close> and
  \<open>action\<close> of a button or motion event to the adapter's web endpoint, which calls
  \<open>Dingz.handleGenericEvent(index, action)\<close> (src/index.js lines 612--648).  The fields
  are JavaScript values (\<open>undefined\<close> when absent); an event is \<open>fire\<close> and a property
  update the strict \<open>notify\<close> of the MQTT model, because this handler calls
  \<open>this.findProperty(id).setCachedValueAndNotify(v)\<close> without \<open>?.\<close>.
\<close>

text \<open>\<open>handleGenericEvent(index, action)\<close>: \<open>parseInt(index)\<close> without a radix (radix
  \<open>0\<close> of \<open>parse_int\<close>), the key id built from the raw \<open>index\<close>, and the action codes
  compared with \<open>===\<close> to strings.\<close>

definition handleGenericEvent :: "jval \<Rightarrow> jval \<Rightarrow> dingz \<Rightarrow> (js_error, dingz) outcome" where
  "handleGenericEvent index action d =
     (let indexNumber = of_parsed (parse_int 0 (js_str index)) in
      if n_le indexNumber 4 then
        (let keyID = ''key'' @ js_str index in
         if action = JStr ''1'' then Done (fire (keyID @ ''single'') d)
         else if action = JStr ''2'' then Done (fire (keyID @ ''double'') d)
         else if action = JStr ''3'' then Done (fire (keyID @ ''long'') d)
         else if action = JStr ''20'' then Done (fire (keyID @ ''tripple'') d)
         else if action = JStr ''21'' then Done (fire (keyID @ ''quadruple'') d)
         else if action = JStr ''8'' \<or> action = JStr ''begin'' then notify keyID (JBool True) d
         else if action = JStr ''9'' \<or> action = JStr ''end'' then notify keyID (JBool False) d
         else Done d)
      else if indexNumber = Fin 5 then
        (if action = JStr ''8'' then notify ''motion'' (JBool True) d
         else if action = JStr ''9'' then notify ''motion'' (JBool False) d
         else Done d)
      else Done d)"

text \<open>The abstract specification of the generic form for a button (spec, DeltaNormalizer,
  webhook form): the action code selects one canonical update record, an event to fire
  or a new pressed state of the key, and the reconciler applies it, dropping an update
  whose property the device does not have.  Event ids use the schema's spelling
  (\<open>tripple\<close>).\<close>

datatype push_update = FireEvent string | SetPressed string bool | NoUpdate

definition generic_spec :: "string \<Rightarrow> string \<Rightarrow> push_update" where
  "generic_spec index action =
     (let k = ''key'' @ index in
      if action = ''1'' then FireEvent (k @ ''single'')
      else if action = ''2'' then FireEvent (k @ ''double'')
      else if action = ''3'' then FireEvent (k @ ''long'')
      else if action = ''20'' then FireEvent (k @ ''tripple'')
      else if action = ''21'' then FireEvent (k @ ''quadruple'')
      else if action = ''8'' \<or> action = ''begin'' then SetPressed k True
      else if action = ''9'' \<or> action = ''end'' then SetPressed k False
      else NoUpdate)"

definition apply_update :: "push_update \<Rightarrow> dingz \<Rightarrow> (js_error, dingz) outcome" where
  "apply_update u d =
     (case u of
        FireEvent e \<Rightarrow> Done (fire e d)
      | SetPressed n b \<Rightarrow> (case props d n of None \<Rightarrow> Done d | Some p \<Rightarrow> Done (set_cached n (JBool b) d))
      | NoUpdate \<Rightarrow> Done d)"

subsection \<open>Lemmas\<close>

lemma set_cached_twice [simp]: "set_cached n v (set_cached n w d) = set_cached n v d"
  by (simp add: set_cached_def opt_modify_def split: option.splits)

lemma set_cached_props_same [simp]: "props (set_cached n v d) n = map_option (\<lambda>p. p\<lparr>pvalue := v\<rparr>) (props d n)"
  by (simp add: set_cached_def opt_modify_def split: option.splits)

lemma of_parsed_simps [simp]: "of_parsed (Some i) = Fin (of_int i)" "of_parsed None = NaN"
  by (simp_all add: of_parsed_def)

lemma parse_int_small [simp]: "parse_int 0 ''0'' = Some 0" "parse_int 0 ''5'' = Some 5"
  by code_simp+

lemma ex_mqtt_dev_keys: "\<exists>p. props ex_mqtt_dev ''key1'' = Some p" "props ex_mqtt_dev ''key0'' = None"
  by (simp_all add: ex_mqtt_dev_def dingz_init_def key_id_def dimmer_id_def)

text \<open>C21: Refinement of the specification's generic form: for a button index \<open>1..4\<close>
  whose key property exists, the handler does exactly what the canonical update record of
  the action code says, for every action string.\<close>

theorem webhook_refines_spec:
  assumes "1 \<le> i" "i \<le> 4" "props d (''key'' @ nat_str i) \<noteq> None"
  shows "handleGenericEvent (JStr (nat_str i)) (JStr a) d = apply_update (generic_spec (nat_str i) a) d"
  using assms
  by (auto simp: handleGenericEvent_def generic_spec_def apply_update_def notify_def Let_def split: option.splits)

text \<open>Pressing and releasing a key that exists, as the sequence of the two webhook
  calls \<open>begin\<close> and \<open>end\<close>, sets the key's pressed state to \<open>true\<close> and then back to
  \<open>false\<close>, and fires no event.\<close>

theorem webhook_press_release:
  assumes "i \<le> 4" "props d (''key'' @ nat_str i) = Some p"
  shows "handleGenericEvent (JStr (nat_str i)) (JStr ''begin'') d = Done (set_cached (''key'' @ nat_str i) (JBool True) d)
    \<and> obind (handleGenericEvent (JStr (nat_str i)) (JStr ''begin'') d) (handleGenericEvent (JStr (nat_str i)) (JStr ''end''))
      = Done (set_cached (''key'' @ nat_str i) (JBool False) d)"
  using assms by (simp add: handleGenericEvent_def notify_def Let_def)

text \<open>C22: The handler departs from the generic form of the specification: an index \<open>0\<close>
  is taken for a button and its \<open>begin\<close> throws a \<open>TypeError\<close> on the missing property
  \<open>key0\<close> instead of being dropped, and the motion sensor (index 5) ignores \<open>begin\<close>
  and \<open>end\<close>, reacting to \<open>8\<close> and \<open>9\<close> only.\<close>

theorem webhook_index_divergence:
  assumes "props d ''key0'' = None"
  shows "handleGenericEvent (JStr ''0'') (JStr ''begin'') d = Threw (TypeError ''key0'') d
    \<and> handleGenericEvent (JStr ''5'') (JStr ''begin'') d = Done d
    \<and> handleGenericEvent (JStr ''5'') (JStr ''end'') d = Done d"
  using assms by (simp add: handleGenericEvent_def notify_def Let_def)

theorem webhook_refines_spec_witness:
  "handleGenericEvent (JStr (nat_str 1)) (JStr ''20'') ex_mqtt_dev = apply_update (generic_spec (nat_str 1) ''20'') ex_mqtt_dev"
  by (rule webhook_refines_spec) (use ex_mqtt_dev_keys(1) in auto)

theorem webhook_press_release_witness:
  "handleGenericEvent (JStr (nat_str 1)) (JStr ''begin'') ex_mqtt_dev
     = Done (set_cached (''key'' @ nat_str 1) (JBool True) ex_mqtt_dev)
   \<and> obind (handleGenericEvent (JStr (nat_str 1)) (JStr ''begin'') ex_mqtt_dev)
       (handleGenericEvent (JStr (nat_str 1)) (JStr ''end''))
     = Done (set_cached (''key'' @ nat_str 1) (JBool False) ex_mqtt_dev)"
proof -
  obtain p where "props ex_mqtt_dev ''key1'' = Some p" using ex_mqtt_dev_keys(1) by blast
  then show ?thesis by (intro webhook_press_release [of 1 ex_mqtt_dev p]) simp_all
qed

theorem webhook_index_divergence_witness:
  "handleGenericEvent (JStr ''0'') (JStr ''begin'') ex_mqtt_dev = Threw (TypeError ''key0'') ex_mqtt_dev
   \<and> handleGenericEvent (JStr ''5'') (JStr ''begin'') ex_mqtt_dev = Done ex_mqtt_dev
   \<and> handleGenericEvent (JStr ''5'') (JStr ''end'') ex_mqtt_dev = Done ex_mqtt_dev"
  using webhook_index_divergence [of ex_mqtt_dev] ex_mqtt_dev_keys(2) by simp

end
