(* ===== verification/Adapter.thy ===== *)
theory Adapter
  imports Mqtt
begin

text \<open>
  The adapter of the MQTT generation (src/unnamed/part_000): the registry of devices the
  gateway keeps for it (\<open>this.devices\<close>, keyed by device id), \<open>DingzAdapter.handleDiscovery\<close>
  (lines 872--880), the completion of a construction started by \<open>new Dingz\<close> (the
  \<open>handleDeviceAdded\<close> call at line 413) and the message listener of \<open>DingzMQTT.connect\<close>
  (lines 91--128), which routes a topic to the device it names.  A construction runs
  asynchronously: between \<open>new Dingz\<close> and \<open>handleDeviceAdded\<close> the device is in
  \<open>pending\<close>, and its completion is a step of its own, with the construction as the
  parameter \<open>mk\<close> from the MAC and address to the constructed device.
\<close>

record adapter =
  devices :: "string \<rightharpoonup> dingz"
  pending :: "(string \<times> jval) list"

text \<open>\<open>`dingz-${deviceSpec.mac.toLowerCase()}`\<close>.\<close>

definition device_key :: "string \<Rightarrow> string" where
  "device_key m = ''dingz-'' @ js_lower m"

text \<open>A handler run on the registered device object \<open>d\<close> under key \<open>k\<close>: the object is
  mutated in place, so its state at the end, also after a throw, is the registry's.\<close>

definition at_device ::
  "string \<Rightarrow> (dingz \<Rightarrow> (js_error, dingz) outcome) \<Rightarrow> dingz \<Rightarrow> adapter \<Rightarrow> (js_error, adapter) outcome" where
  "at_device k f d a =
     (case f d of Done d' \<Rightarrow> Done (a\<lparr>devices := (devices a)(k \<mapsto> d')\<rparr>)
      | Threw e d' \<Rightarrow> Threw e (a\<lparr>devices := (devices a)(k \<mapsto> d')\<rparr>))"

text \<open>\<open>handleDiscovery(deviceSpec)\<close>: a known device takes the address, an unknown one is
  constructed; \<open>mac.toLowerCase()\<close> throws unless the MAC is a string.\<close>

definition handleDiscovery :: "jval \<Rightarrow> jval \<Rightarrow> adapter \<Rightarrow> (js_error, adapter) outcome" where
  "handleDiscovery smac addr a =
     (case smac of
        JStr m \<Rightarrow>
          (let deviceId = device_key m in
           case devices a deviceId of
             Some d \<Rightarrow> at_device deviceId (updateFromDiscovery addr) d a
           | None \<Rightarrow> Done (a\<lparr>pending := pending a @ [(m, addr)]\<rparr>))
      | _ \<Rightarrow> Threw (TypeError ''toLowerCase'') a)"

text \<open>The \<open>i\<close>-th pending construction settles: when it fulfils,
  \<open>this.adapter.handleDeviceAdded(this)\<close> registers the device under its id; a
  rejection of \<open>Promise.all\<close> is unhandled and the device is never registered.\<close>

definition device_added :: "(string \<Rightarrow> jval \<Rightarrow> js_error + dingz) \<Rightarrow> nat \<Rightarrow> adapter \<Rightarrow> adapter" where
  "device_added mk i a =
     (if i < length (pending a) then
        (let (m, addr) = pending a ! i;
             a' = a\<lparr>pending := take i (pending a) @ drop (Suc i) (pending a)\<rparr>
         in case mk m addr of
              Inr d \<Rightarrow> a'\<lparr>devices := (devices a')(dev_id d \<mapsto> d)\<rparr>
            | Inl e \<Rightarrow> a')
      else a)"

text \<open>The listener of \<open>client.on('message', ...)\<close>: topics outside \<open>dingz/\<close> and
  payloads that do not decode are dropped; a topic naming no registered device is only
  used when it is an \<open>announce\<close> (its \<open>ip\<close> is the address); otherwise the device's
  \<open>mqttEvent\<close> runs on the local path.\<close>

definition mqtt_message ::
  "(string \<Rightarrow> jval option) \<Rightarrow> string \<Rightarrow> string \<Rightarrow> adapter \<Rightarrow> (js_error, adapter) outcome" where
  "mqtt_message json topic raw a =
     (let ps = split_on (CHR ''/'') topic; dingzId = part ps 1; localPath = drop 2 ps;
          key = ''dingz-'' @ (case dingzId of Some s \<Rightarrow> s | None \<Rightarrow> ''undefined'')
      in if hd ps \<noteq> ''dingz'' then Done a
         else case decode_message json topic raw of
           None \<Rightarrow> Done a
         | Some v \<Rightarrow>
             (case devices a key of
                None \<Rightarrow>
                  if part localPath 0 = Some ''announce'' then
                    (case dingzId of
                       None \<Rightarrow> Threw (TypeError ''toUpperCase'') a
                     | Some s \<Rightarrow>
                         (case js_get v ''ip'' of
                            Inl e \<Rightarrow> Threw e a
                          | Inr ip \<Rightarrow> handleDiscovery (JStr (js_upper s)) ip a))
                  else Done a
              | Some d \<Rightarrow> at_device key (mqtt_event (join_with (CHR ''/'') localPath) v) d a))"

text \<open>A registry with the example device of Mqtt.thy.\<close>

definition ex_adapter :: adapter where
  "ex_adapter = \<lparr>devices = [dev_id ex_mqtt_dev \<mapsto> ex_mqtt_dev], pending = []\<rparr>"

subsection \<open>Lemmas\<close>

lemma at_device_final:
  "final_state (at_device k f d a) = a\<lparr>devices := (devices a)(k \<mapsto> final_state (f d))\<rparr>"
  by (simp add: at_device_def split: outcome.splits)

lemma lower_char_idem [simp]: "lower_char (lower_char c) = lower_char c"
  by (simp add: lower_char_def Let_def)

lemma js_lower_idem [simp]: "js_lower (js_lower s) = js_lower s"
  by (simp add: js_lower_def comp_def)

lemma key_not_lower:
  assumes "js_lower s \<noteq> s" shows "''dingz-'' @ s \<noteq> device_key m"
proof
  assume "''dingz-'' @ s = device_key m"
  then have "s = js_lower m" by (simp add: device_key_def)
  then show False using assms by simp
qed

lemma topic_split:
  assumes "CHR ''/'' \<notin> set s" "\<forall>w\<in>set path. CHR ''/'' \<notin> set w"
  shows "split_on (CHR ''/'') (join_with (CHR ''/'') (''dingz'' # s # path)) = ''dingz'' # s # path"
  using assms by (intro split_on_join_with) auto

lemma discovery_devices:
  assumes "devices (final_state (handleDiscovery smac addr a)) k \<noteq> devices a k"
  shows "\<exists>m. smac = JStr m \<and> k = device_key m"
  using assms by (auto simp: handleDiscovery_def Let_def at_device_final split: jval.splits option.splits if_splits)

lemma ex_adapter_keys [simp]:
  "dev_id ex_mqtt_dev = ''dingz-aabbcc''" "device_key ''aabbcc'' = ''dingz-aabbcc''"
  "device_key ''112233'' = ''dingz-112233''" "js_lower ''AABBCC'' = ''aabbcc''"
  by code_simp+

lemma ex_adapter_devices [simp]: "devices ex_adapter = [''dingz-aabbcc'' \<mapsto> ex_mqtt_dev]"
  by (simp add: ex_adapter_def)

lemma ex_mqtt_dev_connected [simp]: "connected ex_mqtt_dev = JBool True"
  by (simp add: ex_mqtt_dev_def addDimmer_def addKey_def Let_def add_prop_def add_event_def add_action_def
      dingz_init_def)

lemma connected_update_same [simp]: "(d\<lparr>connected := x\<rparr> = d) \<longleftrightarrow> connected d = x"
  by (cases d) auto

text \<open>C16: Isolation: a message changes the registry entry of at most the device its topic
  names (\<open>dingz-<id>\<close>) or, for an \<open>announce\<close> of an unregistered id, the device that
  id names after case folding; every other device is untouched, also when the handler
  throws.\<close>

theorem mqtt_message_isolated:
  assumes "devices (final_state (mqtt_message json topic raw a)) k \<noteq> devices a k"
  shows "k = ''dingz-'' @ (case part (split_on (CHR ''/'') topic) 1 of Some s \<Rightarrow> s | None \<Rightarrow> ''undefined'')
    \<or> (\<exists>s. part (split_on (CHR ''/'') topic) 1 = Some s \<and> k = device_key (js_upper s))"
  using assms discovery_devices [of _ _ _ k]
  by (fastforce simp: mqtt_message_def Let_def at_device_final split: option.splits sum.splits if_splits)

text \<open>C17: Routing: a decodable message on \<open>dingz/<id>/<path>\<close> for a registered device
  \<open>dingz-<id>\<close> runs that device's \<open>mqttEvent\<close> on \<open><path>\<close> with the decoded payload.\<close>

theorem mqtt_message_routes:
  assumes "CHR ''/'' \<notin> set s" "\<forall>w\<in>set path. CHR ''/'' \<notin> set w" "devices a (''dingz-'' @ s) = Some d"
    and "decode_message json (join_with (CHR ''/'') (''dingz'' # s # path)) raw = Some v"
  shows "mqtt_message json (join_with (CHR ''/'') (''dingz'' # s # path)) raw a
    = at_device (''dingz-'' @ s) (mqtt_event (join_with (CHR ''/'') path) v) d a"
  unfolding mqtt_message_def Let_def topic_split [OF assms(1,2)]
  using assms(3,4) by (simp add: part_def)

text \<open>C24: The topic's id is looked up verbatim while device ids are lower-cased: when every
  registered id is \<open>dingz-\<close> followed by a lower-cased MAC, a message whose id has an
  upper-case letter reaches no device and, unless it is an \<open>announce\<close>, is dropped.\<close>

theorem mqtt_message_case_sensitive:
  assumes "\<forall>k d. devices a k = Some d \<longrightarrow> (\<exists>m. k = device_key m)" "js_lower s \<noteq> s"
    and "CHR ''/'' \<notin> set s" "\<forall>w\<in>set path. CHR ''/'' \<notin> set w" "take 1 path \<noteq> [''announce'']"
  shows "mqtt_message json (join_with (CHR ''/'') (''dingz'' # s # path)) raw a = Done a"
proof -
  have "devices a (''dingz-'' @ s) = None"
    using assms(1) key_not_lower [OF assms(2)] by (cases "devices a (''dingz-'' @ s)") auto
  moreover have "part (drop 2 (''dingz'' # s # path)) 0 \<noteq> Some ''announce''"
    using assms(5) by (cases path) (auto simp: part_def)
  ultimately show ?thesis
    unfolding mqtt_message_def Let_def topic_split [OF assms(3,4)]
    by (simp add: part_def split: option.splits)
qed

text \<open>Discovery of a known device: its address becomes the reported IPv4 address and
  it is marked connected; nothing is constructed.\<close>

theorem discovery_known:
  assumes "devices a (device_key m) = Some d" "CHR '':'' \<notin> set s" "s \<noteq> []"
  shows "handleDiscovery (JStr m) (JStr s) a
    = Done (a\<lparr>devices := (devices a)(device_key m \<mapsto> d\<lparr>connected := JBool True, address := JStr s\<rparr>)\<rparr>)"
  using assms by (simp add: handleDiscovery_def at_device_def updateFromDiscovery_def connectedNotify_def)

text \<open>C23: Discovery of an unknown device starts a construction and registers nothing until
  it completes; a second discovery of the same MAC before then starts a second
  construction of the same device.\<close>

theorem discovery_twice_constructs_twice:
  assumes "devices a (device_key m) = None"
  shows "final_state (handleDiscovery (JStr m) addr2 (final_state (handleDiscovery (JStr m) addr1 a)))
    = a\<lparr>pending := pending a @ [(m, addr1), (m, addr2)]\<rparr>"
  using assms by (simp add: handleDiscovery_def)

theorem mqtt_message_isolated_witness:
  "''dingz-aabbcc'' = ''dingz-'' @ (case part (split_on (CHR ''/'') ''dingz/aabbcc/online'') 1 of Some s \<Rightarrow> s | None \<Rightarrow> ''undefined'')
    \<or> (\<exists>s. part (split_on (CHR ''/'') ''dingz/aabbcc/online'') 1 = Some s \<and> ''dingz-aabbcc'' = device_key (js_upper s))"
  by (rule mqtt_message_isolated [of "\<lambda>s. Some (JBool False)" _ "''false''" ex_adapter])
    (simp add: mqtt_message_def decode_message_def part_def mqtt_event_def at_device_final connectedNotify_def)

theorem mqtt_message_routes_witness:
  "mqtt_message (\<lambda>s. Some (JBool False)) (join_with (CHR ''/'') [''dingz'', ''aabbcc'', ''online'']) ''false'' ex_adapter
    = at_device (''dingz-'' @ ''aabbcc'') (mqtt_event (join_with (CHR ''/'') [''online'']) (JBool False)) ex_mqtt_dev ex_adapter"
  by (rule mqtt_message_routes) (simp_all add: decode_message_def)

theorem mqtt_message_case_sensitive_witness:
  "mqtt_message (\<lambda>s. Some (JNum 20)) (join_with (CHR ''/'') [''dingz'', ''AABBCC'', ''sensor'', ''light'']) ''20'' ex_adapter
    = Done ex_adapter"
proof (rule mqtt_message_case_sensitive)
  show "\<forall>k d. devices ex_adapter k = Some d \<longrightarrow> (\<exists>m. k = device_key m)"
    by (auto intro: exI [of _ "''aabbcc''"])
qed simp_all

theorem discovery_known_witness:
  "handleDiscovery (JStr ''aabbcc'') (JStr ''10.0.0.9'') ex_adapter
    = Done (ex_adapter\<lparr>devices := (devices ex_adapter)(device_key ''aabbcc'' \<mapsto>
        ex_mqtt_dev\<lparr>connected := JBool True, address := JStr ''10.0.0.9''\<rparr>)\<rparr>)"
  by (rule discovery_known) simp_all

theorem discovery_twice_constructs_twice_witness:
  "final_state (handleDiscovery (JStr ''112233'') (JStr ''10.0.0.8'')
      (final_state (handleDiscovery (JStr ''112233'') (JStr ''10.0.0.7'') ex_adapter)))
    = ex_adapter\<lparr>pending := pending ex_adapter @ [(''112233'', JStr ''10.0.0.7''), (''112233'', JStr ''10.0.0.8'')]\<rparr>"
  by (rule discovery_twice_constructs_twice) simp

end
