(* ===== verification/Poller.thy ===== *)
theory Poller
  imports Prelude
begin

text \<open>
  The poll timer of the HTTP generation, the module-level singleton \<open>DevicePoller\<close>
  (src/index.js lines 80--117).  The adapter adds a device when it is registered
  (\<open>handleDeviceAdded\<close>) and removes it when the gateway removes it; the first device
  starts the timer, after the poll interval has been read from the configuration
  database, and the last one stops it.  The devices are a type variable: the poller only
  keeps them in a \<open>Set\<close> and calls their \<open>poll()\<close>.

  Reading the interval is asynchronous, so its settling is an operation of its own
  (\<open>IntervalReady\<close>, \<open>IntervalFailed\<close>), interleaved with the additions and removals.
  The handles of \<open>setInterval\<close> are numbered; \<open>live\<close> are the intervals created and not
  cleared, each of which calls \<open>notifyDevices()\<close> every period.
\<close>

record 'dev poller =
  timer :: "nat option"
  pdevices :: "'dev list"
  in_flight :: nat
  live :: "nat list"
  next_handle :: nat

definition poller_init :: "'dev poller" where
  "poller_init = \<lparr>timer = None, pdevices = [], in_flight = 0, live = [], next_handle = 0\<rparr>"

text \<open>\<open>Set.prototype.add\<close>: insertion order, no duplicates.\<close>

definition set_add :: "'a \<Rightarrow> 'a list \<Rightarrow> 'a list" where
  "set_add x xs = (if x \<in> set xs then xs else xs @ [x])"

text \<open>\<open>addDevice(device)\<close>: without a timer, a read of the interval is started.\<close>

definition addDevice :: "'dev \<Rightarrow> 'dev poller \<Rightarrow> 'dev poller" where
  "addDevice d p =
     (let p' = p\<lparr>pdevices := set_add d (pdevices p)\<rparr> in
      if timer p = None then p'\<lparr>in_flight := Suc (in_flight p)\<rparr> else p')"

text \<open>The \<open>.then\<close> of \<open>getPollInterval()\<close>: \<open>this.timer = setInterval(...)\<close>, whatever
  \<open>this.timer\<close> held before; and its \<open>.catch(console.error)\<close>.\<close>

definition interval_ready :: "'dev poller \<Rightarrow> 'dev poller" where
  "interval_ready p =
     (if in_flight p = 0 then p
      else p\<lparr>in_flight := in_flight p - 1, timer := Some (next_handle p),
             live := live p @ [next_handle p], next_handle := Suc (next_handle p)\<rparr>)"

definition interval_failed :: "'dev poller \<Rightarrow> 'dev poller" where
  "interval_failed p = p\<lparr>in_flight := in_flight p - 1\<rparr>"

text \<open>\<open>destroy()\<close>: clears the interval \<open>this.timer\<close> holds and empties the set.\<close>

definition destroy :: "'dev poller \<Rightarrow> 'dev poller" where
  "destroy p =
     (let p' = (case timer p of Some t \<Rightarrow> p\<lparr>live := removeAll t (live p), timer := None\<rparr> | None \<Rightarrow> p)
      in p'\<lparr>pdevices := []\<rparr>)"

definition removeDevice :: "'dev \<Rightarrow> 'dev poller \<Rightarrow> 'dev poller" where
  "removeDevice d p =
     (let p' = p\<lparr>pdevices := removeAll d (pdevices p)\<rparr> in
      if pdevices p' = [] then destroy p' else p')"

text \<open>The \<open>poll()\<close> calls of one period: every live interval runs \<open>notifyDevices()\<close>,
  which polls the devices of the set in order.\<close>

definition tick_polls :: "'dev poller \<Rightarrow> 'dev list" where
  "tick_polls p = concat (map (\<lambda>t. pdevices p) (live p))"

datatype 'dev poller_op = AddDevice 'dev | RemoveDevice 'dev | IntervalReady | IntervalFailed

fun poller_do :: "'dev poller_op \<Rightarrow> 'dev poller \<Rightarrow> 'dev poller" where
  "poller_do (AddDevice d) p = addDevice d p"
| "poller_do (RemoveDevice d) p = removeDevice d p"
| "poller_do IntervalReady p = interval_ready p"
| "poller_do IntervalFailed p = interval_failed p"

definition poller_run :: "'dev poller_op list \<Rightarrow> 'dev poller \<Rightarrow> 'dev poller" where
  "poller_run ops p = fold poller_do ops p"

text \<open>The shape of the poller's state: the handles are fresh and distinct, the timer is
  one of the live intervals, and the set has no duplicates.\<close>

definition poller_wf :: "'dev poller \<Rightarrow> bool" where
  "poller_wf p \<longleftrightarrow> distinct (live p) \<and> list_all (\<lambda>t. t < next_handle p) (live p)
     \<and> (case timer p of Some t \<Rightarrow> t \<in> set (live p) | None \<Rightarrow> True) \<and> distinct (pdevices p)"

text \<open>A registered device is polled, or about to be: a timer runs or a read of the interval
  is in flight.\<close>

definition poller_live :: "'dev poller \<Rightarrow> bool" where
  "poller_live p \<longleftrightarrow> pdevices p = [] \<or> timer p \<noteq> None \<or> 0 < in_flight p"

text \<open>The poller after a failed read of the interval: no timer, no live interval, no
  read in flight, and (when \<open>keep\<close>) the device \<open>a\<close> still in the set.\<close>

definition poller_stalled :: "'dev \<Rightarrow> bool \<Rightarrow> 'dev poller \<Rightarrow> bool" where
  "poller_stalled a keep p \<longleftrightarrow>
     timer p = None \<and> live p = [] \<and> in_flight p = 0 \<and> (keep \<longrightarrow> a \<in> set (pdevices p))"

subsection \<open>Lemmas\<close>

lemma fold_invariant:
  "(\<And>x s. x \<in> set xs \<Longrightarrow> P s \<Longrightarrow> P (f x s)) \<Longrightarrow> P s \<Longrightarrow> P (fold f xs s)"
  by (induction xs arbitrary: s) auto

lemma set_add_simps [simp]: "set (set_add x xs) = insert x (set xs)" "distinct (set_add x xs) = distinct xs"
  by (auto simp: set_add_def)

lemma poller_wf_init: "poller_wf poller_init"
  by (simp add: poller_wf_def poller_init_def)

lemma poller_wf_destroy: "poller_wf p \<Longrightarrow> poller_wf (destroy p)"
  by (auto simp: poller_wf_def destroy_def Let_def list_all_iff distinct_removeAll split: option.splits)

lemma poller_wf_do: "poller_wf p \<Longrightarrow> poller_wf (poller_do op p)"
proof (cases op)
  case (RemoveDevice d)
  assume wf: "poller_wf p"
  then have "poller_wf (p\<lparr>pdevices := removeAll d (pdevices p)\<rparr>)" "poller_wf (p\<lparr>pdevices := []\<rparr>)"
    by (auto simp: poller_wf_def distinct_removeAll split: option.splits)
  then show ?thesis using RemoveDevice by (simp add: removeDevice_def Let_def poller_wf_destroy)
next
  case IntervalReady
  assume "poller_wf p"
  then show ?thesis using IntervalReady
    by (auto simp: poller_wf_def interval_ready_def list_all_iff)
qed (auto simp: poller_wf_def addDevice_def interval_failed_def Let_def split: option.splits)

lemma poller_live_do:
  assumes "poller_live p" "op \<noteq> IntervalFailed" shows "poller_live (poller_do op p)"
  using assms
  by (cases op) (auto simp: poller_live_def addDevice_def removeDevice_def interval_ready_def destroy_def Let_def
      split: option.splits)

lemma poller_run_append: "poller_run (xs @ ys) p = poller_run ys (poller_run xs p)"
  by (simp add: poller_run_def)

lemma removeAll_keeps: "a \<in> set xs \<Longrightarrow> a \<noteq> x \<Longrightarrow> removeAll x xs \<noteq> []"
  by (induction xs) auto

lemma poller_stalled_do:
  assumes "poller_stalled a keep p" "\<forall>d. op \<noteq> AddDevice d" "keep \<longrightarrow> op \<noteq> RemoveDevice a"
  shows "poller_stalled a keep (poller_do op p)"
  using assms
  by (cases op) (auto simp: poller_stalled_def removeDevice_def destroy_def interval_ready_def interval_failed_def Let_def
      dest: removeAll_keeps)

lemma tick_polls_set: "timer p = Some t \<Longrightarrow> t \<in> set (live p) \<Longrightarrow> set (pdevices p) \<subseteq> set (tick_polls p)"
  by (auto simp: tick_polls_def)

text \<open>C19: In every state the poller reaches from its initial state, whatever the
  interleaving of additions, removals and settled interval reads, the interval handles
  are distinct and fresh, the timer is one of the live intervals and the device set has
  no duplicates.\<close>

theorem poller_run_wf: "poller_wf (poller_run ops poller_init)"
  unfolding poller_run_def by (rule fold_invariant [where P = poller_wf]) (simp_all add: poller_wf_do poller_wf_init)

text \<open>C20: As long as no read of the poll interval fails, every registered device is
  polled in the next period, or a read of the interval that will start the timer is in
  flight.\<close>

theorem poller_polls_registered:
  assumes "IntervalFailed \<notin> set ops" "d \<in> set (pdevices (poller_run ops poller_init))"
  shows "d \<in> set (tick_polls (poller_run ops poller_init)) \<or> 0 < in_flight (poller_run ops poller_init)"
proof -
  let ?p = "poller_run ops poller_init"
  have live: "poller_live ?p" unfolding poller_run_def
  proof (rule fold_invariant [where P = poller_live])
    fix x and s :: "'a poller" assume "x \<in> set ops" "poller_live s"
    then show "poller_live (poller_do x s)" using assms(1) by (intro poller_live_do) auto
  qed (simp add: poller_live_def poller_init_def)
  have wf: "poller_wf ?p" unfolding poller_run_def
    by (rule fold_invariant [where P = poller_wf]) (simp_all add: poller_wf_do poller_wf_init)
  show ?thesis
  proof (cases "timer ?p")
    case (Some t)
    then have "t \<in> set (live ?p)" using wf by (simp add: poller_wf_def)
    then show ?thesis using tick_polls_set [OF Some] assms(2) by blast
  qed (use live assms(2) in \<open>auto simp: poller_live_def\<close>)
qed

text \<open>C18: Two devices added before the interval has been read start two reads and so two
  intervals, of which \<open>this.timer\<close> keeps the second; removing both devices clears only
  that one, and the first interval runs on for ever.  A device added afterwards starts a
  third interval and is polled twice in every period.\<close>

theorem poller_interval_leak:
  assumes "a \<noteq> b"
  shows "poller_run [AddDevice a, AddDevice b, IntervalReady, IntervalReady, RemoveDevice a, RemoveDevice b] poller_init
      = \<lparr>timer = None, pdevices = [], in_flight = 0, live = [0], next_handle = 2\<rparr>
    \<and> tick_polls (poller_run [AddDevice a, AddDevice b, IntervalReady, IntervalReady, RemoveDevice a, RemoveDevice b,
        AddDevice c, IntervalReady] poller_init) = [c, c]"
  using assms
  by (simp add: poller_run_def poller_init_def addDevice_def interval_ready_def removeDevice_def destroy_def
      set_add_def tick_polls_def)

text \<open>C25: When the read of the poll interval fails, the device that started it is never
  polled until another device is added: whatever removals and settled reads follow, no
  interval runs, and the device stays in the set unless it is removed.\<close>

theorem poller_read_failure:
  assumes "\<forall>op \<in> set ops. \<forall>d. op \<noteq> AddDevice d"
  shows "tick_polls (poller_run ([AddDevice a, IntervalFailed] @ ops) poller_init) = []
    \<and> (RemoveDevice a \<notin> set ops \<longrightarrow> a \<in> set (pdevices (poller_run ([AddDevice a, IntervalFailed] @ ops) poller_init)))"
proof -
  let ?keep = "RemoveDevice a \<notin> set ops"
  have "poller_stalled a ?keep (poller_run [AddDevice a, IntervalFailed] poller_init)"
    by (simp add: poller_stalled_def poller_run_def poller_init_def addDevice_def interval_failed_def set_add_def)
  then have "poller_stalled a ?keep (poller_run ops (poller_run [AddDevice a, IntervalFailed] poller_init))"
    unfolding poller_run_def [of ops]
    by (rule fold_invariant [where P = "poller_stalled a ?keep", rotated]) (use assms in \<open>auto intro: poller_stalled_do\<close>)
  moreover have "poller_run ([AddDevice a, IntervalFailed] @ ops) poller_init
      = poller_run ops (poller_run [AddDevice a, IntervalFailed] poller_init)"
    by (rule poller_run_append)
  ultimately show ?thesis by (simp only:) (simp add: poller_stalled_def tick_polls_def)
qed

theorem poller_polls_registered_witness:
  "1 \<in> set (tick_polls (poller_run [AddDevice (1::nat), IntervalReady] poller_init))
   \<or> 0 < in_flight (poller_run [AddDevice (1::nat), IntervalReady] poller_init)"
  by (rule poller_polls_registered)
    (simp_all add: poller_run_def poller_init_def addDevice_def interval_ready_def set_add_def)

theorem poller_interval_leak_witness:
  "poller_run [AddDevice (1::nat), AddDevice 2, IntervalReady, IntervalReady, RemoveDevice 1, RemoveDevice 2] poller_init
      = \<lparr>timer = None, pdevices = [], in_flight = 0, live = [0], next_handle = 2\<rparr>
    \<and> tick_polls (poller_run [AddDevice (1::nat), AddDevice 2, IntervalReady, IntervalReady, RemoveDevice 1,
        RemoveDevice 2, AddDevice 3, IntervalReady] poller_init) = [3, 3]"
  by (rule poller_interval_leak) simp

theorem poller_read_failure_witness:
  "tick_polls (poller_run ([AddDevice (1::nat), IntervalFailed] @ [IntervalReady, RemoveDevice 2, IntervalFailed]) poller_init) = []
   \<and> 1 \<in> set (pdevices (poller_run ([AddDevice (1::nat), IntervalFailed] @ [IntervalReady, RemoveDevice 2, IntervalFailed]) poller_init))"
  using poller_read_failure [where ops = "[IntervalReady, RemoveDevice 2, IntervalFailed]" and a = "1::nat"] by simp

end
