(* ===== verification/Commands.thy ===== *)
theory Commands
  imports Mqtt Api
begin

text \<open>
  The commands the MQTT generation sends to a unit (src/unnamed/part_000): property
  writes, \<open>DingzProperty.setValue(value)\<close> (lines 163--215), actions,
  \<open>Dingz.performAction(action)\<close> (lines 448--470), and \<open>Dingz.sendMqttEvent(path,
  message)\<close> (lines 616--622), through which both publish.  A command returns the
  settled value of its promise, the device after it (a thermostat write calls
  \<open>apiCall\<close>, which may mark the device disconnected) and the messages published, each
  as \<open>(dingzId, localPath, message)\<close> of \<open>DingzMQTT.sendEvent\<close>.  A message is the
  JSON value \<open>JSON.stringify\<close> writes (\<open>NaN\<close> becomes \<open>null\<close>).  The MQTT client is
  the parameter \<open>publish\<close>, the error of the publish callback or \<open>None\<close>.
\<close>

type_synonym published = "(string \<times> string \<times> jval) list"

text \<open>\<open>sendMqttEvent(path, message)\<close>: nothing is published before the device type is
  known (it is learnt from the first MQTT message of the unit).\<close>

definition sendMqttEvent ::
  "(string \<Rightarrow> string \<Rightarrow> jval \<Rightarrow> js_error option) \<Rightarrow> string \<Rightarrow> jval \<Rightarrow> dingz
     \<Rightarrow> (js_error + jval) \<times> published" where
  "sendMqttEvent publish path msg d =
     (if \<not> js_truthy (deviceType d) then (Inr JUndef, [])
      else (let i = js_lower (mac d); lp = js_str (deviceType d) @ ''/'' @ path in
            (case publish i lp msg of None \<Rightarrow> Inr JUndef | Some e \<Rightarrow> Inl e, [(i, lp, msg)])))"

text \<open>\<open>this.device.getProperty(name)\<close> of the gateway: the property's value, a rejection
  when there is no such property.\<close>

definition get_property :: "string \<Rightarrow> dingz \<Rightarrow> js_error + jval" where
  "get_property n d = (case props d n of Some p \<Rightarrow> Inr (pvalue p) | None \<Rightarrow> Inl (NotFound n))"

text \<open>A channel of a \<open>ledColor\<close> write as \<open>JSON.stringify\<close> writes \<open>parseInt(..., 16)\<close>.\<close>

definition json_int :: "int option \<Rightarrow> jval" where
  "json_int x = (case x of Some i \<Rightarrow> JNum (of_int i) | None \<Rightarrow> JNull)"

text \<open>\<open>value.slice(1, 3)\<close>, \<open>slice(3, 5)\<close>, \<open>slice(5)\<close> and \<open>parseInt(..., 16)\<close>: on a
  string (\<open>led_color_channels\<close>), on an array (\<open>parseInt\<close> reads \<open>String\<close> of the
  slice); other values have no \<open>slice\<close>.\<close>

definition led_write_message :: "jval \<Rightarrow> js_error + jval" where
  "led_write_message v =
     (case v of
        JStr s \<Rightarrow> (case led_color_channels s of (r, g, b) \<Rightarrow>
                    Inr (JObj [(''r'', json_int r), (''g'', json_int g), (''b'', json_int b)]))
      | JArr vs \<Rightarrow>
          Inr (JObj [(''r'', json_int (parse_int 16 (js_str (JArr (take 2 (drop 1 vs)))))),
                     (''g'', json_int (parse_int 16 (js_str (JArr (take 2 (drop 3 vs)))))),
                     (''b'', json_int (parse_int 16 (js_str (JArr (drop 5 vs)))))])
      | _ \<Rightarrow> Inl (TypeError ''slice''))"

text \<open>\<open>return super.setValue(value)\<close>: the gateway's \<open>Property.setValue\<close> stores the value,
  notifies and resolves with it.\<close>

definition base_setValue :: "string \<Rightarrow> jval \<Rightarrow> dingz \<Rightarrow> (js_error + jval) \<times> dingz" where
  "base_setValue n v d = (Inr v, set_cached n v d)"

text \<open>After an awaited send: a rejection propagates, otherwise \<open>super.setValue\<close>.\<close>

definition after_send ::
  "(js_error + jval) \<times> published \<Rightarrow> string \<Rightarrow> jval \<Rightarrow> dingz \<Rightarrow> (js_error + jval) \<times> dingz \<times> published" where
  "after_send r n v d =
     (case fst r of Inl e \<Rightarrow> (Inl e, d, snd r)
      | Inr _ \<Rightarrow> (case base_setValue n v d of (x, d') \<Rightarrow> (x, d', snd r)))"

text \<open>The index of a shade property (\<open>shade1\<close>, \<open>shade1Lamella\<close>) and the companion
  value of a shade write, \<open>100\<close> when \<open>getProperty\<close> rejects.\<close>

definition shade_command ::
  "string \<Rightarrow> jval \<Rightarrow> dingz \<Rightarrow> string \<times> jval" where
  "shade_command n v d =
     (let index = drop 5 n;
          or100 = (\<lambda>x. case x of Inr y \<Rightarrow> y | Inl e \<Rightarrow> JNum 100)
      in if ends_with n ''Lamella'' then
           (''command/motor/'' @ num_tmpl (map_option (\<lambda>i. i - 1) (parse_int 0 (take (length index - 7) index))),
            JObj [(''position'', or100 (get_property (take (length n - 7) n) d)), (''lamella'', v)])
         else
           (''command/motor/'' @ num_tmpl (map_option (\<lambda>i. i - 1) (parse_int 0 index)),
            JObj [(''position'', v), (''lamella'', or100 (get_property (n @ ''Lamella'') d))]))"

text \<open>\<open>DingzProperty.setValue(value)\<close>.\<close>

definition dingz_setValue ::
  "(string \<Rightarrow> jval option) \<Rightarrow> (string \<Rightarrow> string \<Rightarrow> fetch_reply) \<Rightarrow> (string \<Rightarrow> string \<Rightarrow> jval \<Rightarrow> js_error option)
     \<Rightarrow> string \<Rightarrow> jval \<Rightarrow> dingz \<Rightarrow> (js_error + jval) \<times> dingz \<times> published" where
  "dingz_setValue json fetch publish n v d =
     (if n = ''led'' then
        after_send (sendMqttEvent publish ''command/led'' (JObj [(''on'', JNum (if js_truthy v then 1 else 0))]) d) n v d
      else if n = ''ledColor'' then
        (if \<not> js_truthy v then (Inr JUndef, d, [])
         else case led_write_message v of
           Inl e \<Rightarrow> (Inl e, d, [])
         | Inr m \<Rightarrow> after_send (sendMqttEvent publish ''command/led'' m d) n v d)
      else if n = ''targetTemperature'' \<or> n = ''thermostatMode'' then
        (case get_property (if n = ''targetTemperature'' then ''thermostatMode'' else ''targetTemperature'') d of
           Inl e \<Rightarrow> (Inl e, d, [])
         | Inr x \<Rightarrow>
             (let path = (if n = ''targetTemperature'' then ''thermostat/'' @ js_str x @ ''?temp='' @ js_str v
                          else ''thermostat/'' @ (if js_truthy v then ''on'' else ''off'') @ ''?temp='' @ js_str x)
              in case api_call json fetch path ''POST'' d of
                   (Inl e, d') \<Rightarrow> (Inl e, d', [])
                 | (Inr _, d') \<Rightarrow> (case base_setValue n v d' of (r, d'') \<Rightarrow> (r, d'', []))))
      else if take 5 n = ''shade'' then
        (case shade_command n v d of (path, m) \<Rightarrow> after_send (sendMqttEvent publish path m d) n v d)
      else (case base_setValue n v d of (r, d') \<Rightarrow> (r, d', [])))"

text \<open>A write of the gateway (\<open>Device.setProperty\<close>): the properties the adapter creates
  as \<open>DingzProperty\<close> use its \<open>setValue\<close>, the others the gateway's.\<close>

definition property_write ::
  "(string \<Rightarrow> jval option) \<Rightarrow> (string \<Rightarrow> string \<Rightarrow> fetch_reply) \<Rightarrow> (string \<Rightarrow> string \<Rightarrow> jval \<Rightarrow> js_error option)
     \<Rightarrow> string \<Rightarrow> jval \<Rightarrow> dingz \<Rightarrow> (js_error + jval) \<times> dingz \<times> published" where
  "property_write json fetch publish n v d =
     (case props d n of
        None \<Rightarrow> (Inl (NotFound n), d, [])
      | Some p \<Rightarrow> if pclass p = DingzProp then dingz_setValue json fetch publish n v d
                 else (case base_setValue n v d of (r, d') \<Rightarrow> (r, d', [])))"

text \<open>\<open>performAction(action)\<close>: \<open>shade<i>stop|up|down\<close> move motor \<open>i - 1\<close>,
  \<open>dimmer<i>...\<close> toggles light \<open>i - 1\<close>; the index is the one character after the
  prefix.\<close>

definition performAction ::
  "(string \<Rightarrow> string \<Rightarrow> jval \<Rightarrow> js_error option) \<Rightarrow> string \<Rightarrow> dingz \<Rightarrow> (js_error + jval) \<times> published" where
  "performAction publish n d =
     (if take 5 n = ''shade'' then
        (let index = map_option (\<lambda>i. i - 1) (parse_int 0 (take 1 (drop 5 n))); an = drop 6 n;
             motion = (if an = ''stop'' then Some 0 else if an = ''up'' then Some 1
                       else if an = ''down'' then Some 2 else None)
         in case motion of
              None \<Rightarrow> (Inr JUndef, [])
            | Some k \<Rightarrow> sendMqttEvent publish (''command/motor/'' @ num_tmpl index) (JObj [(''motion'', JNum k)]) d)
      else if take 6 n = ''dimmer'' then
        sendMqttEvent publish (''command/light/'' @ num_tmpl (map_option (\<lambda>i. i - 1) (parse_int 0 (take 1 (drop 6 n)))))
          (JObj [(''turn'', JStr ''toggle'')]) d
      else (Inr JUndef, []))"

text \<open>A unit with the base properties and shade 1 whose type is known.\<close>

definition ex_cmd_dev :: dingz where
  "ex_cmd_dev = (let d = dingz_init ''aabbcc'' (JStr ''10.0.0.2'') in
     (base_props (addShade 1 (d\<lparr>dcaps := (dcaps d)\<lparr>shade1 := True\<rparr>\<rparr>)))\<lparr>deviceType := JStr ''dingz''\<rparr>)"

subsection \<open>Lemmas\<close>

lemma sendMqttEvent_sent:
  assumes "(i, lp, m) \<in> set (snd (sendMqttEvent publish path msg d))"
  shows "js_truthy (deviceType d) \<and> i = js_lower (mac d) \<and> lp = js_str (deviceType d) @ ''/'' @ path \<and> m = msg"
  using assms by (simp add: sendMqttEvent_def Let_def split: if_splits)

lemma after_send_sent [simp]: "snd (snd (after_send r n v d)) = snd r"
  by (simp add: after_send_def base_setValue_def split: sum.splits)

lemma sendMqttEvent_ok:
  assumes "deviceType d = JStr dt" "dt \<noteq> []" "publish (js_lower (mac d)) (dt @ ''/'' @ path) msg = None"
  shows "sendMqttEvent publish path msg d = (Inr JUndef, [(js_lower (mac d), dt @ ''/'' @ path, msg)])"
  using assms by (simp add: sendMqttEvent_def)

lemma after_send_ok [simp]: "after_send (Inr x, ms) n v d = (Inr v, set_cached n v d, ms)"
  by (simp add: after_send_def base_setValue_def)

lemma shade_command_path: "shade_command n v d = (path, m) \<Longrightarrow> \<exists>k. path = ''command/motor/'' @ k"
  by (auto simp: shade_command_def Let_def split: if_splits)

lemma after_send_dev: "fst (snd (after_send r n v d)) = d \<or> fst (snd (after_send r n v d)) = set_cached n v d"
  by (simp add: after_send_def base_setValue_def split: sum.splits prod.splits)

text \<open>A relation between devices that holds for the identity, \<open>setCachedValueAndNotify\<close>
  and \<open>apiCall\<close> holds between the device before and after a write.\<close>

lemma dingz_setValue_rel:
  assumes "reflp R" "transp R" "\<And>d n v. R d (set_cached n v d)"
    and "\<And>d path meth. R d (snd (api_call json fetch path meth d))"
  shows "R d (fst (snd (dingz_setValue json fetch publish n v d)))"
proof -
  let ?P = "\<lambda>x. R d (fst (snd x))"
  have refl: "?P (r, d, ms)" for r ms using reflpD [OF assms(1)] by simp
  have base: "?P (case base_setValue n v d of (r, d') \<Rightarrow> (r, d', []))" by (simp add: base_setValue_def assms(3))
  have send: "?P (after_send r n v d)" for r using after_send_dev [of r n v d] refl [of undefined "[]"] assms(3) by auto
  have api: "?P (case api_call json fetch path ''POST'' d of (Inl e, d') \<Rightarrow> (Inl e, d', [])
          | (Inr _, d') \<Rightarrow> (case base_setValue n v d' of (r, d'') \<Rightarrow> (r, d'', [])))" for path
  proof -
    obtain r d' where a: "api_call json fetch path ''POST'' d = (r, d')" by fastforce
    have "R d d'" using assms(4) [of d path "''POST''"] a by simp
    moreover have "R d (set_cached n v d')" using transpD [OF assms(2) calculation assms(3)] .
    ultimately show ?thesis using a by (cases r) (simp_all add: base_setValue_def)
  qed
  show ?thesis
    unfolding dingz_setValue_def Let_def
    by (rule pred_if [where P = ?P] pred_case_sum [where P = ?P] pred_case_prod [where P = ?P]
        refl base send api)+
qed

lemma property_write_rel:
  assumes "reflp R" "transp R" "\<And>d n v. R d (set_cached n v d)"
    and "\<And>d path meth. R d (snd (api_call json fetch path meth d))"
  shows "R d (fst (snd (property_write json fetch publish n v d)))"
  unfolding property_write_def
  by (rule pred_case_option [where P = "\<lambda>x. R d (fst (snd x))"] pred_if [where P = "\<lambda>x. R d (fst (snd x))"]
      pred_case_prod [where P = "\<lambda>x. R d (fst (snd x))"] dingz_setValue_rel [OF assms])+
    (simp_all add: base_setValue_def assms(3) reflpD [OF assms(1)] dingz_setValue_rel [OF assms])

text \<open>Every message a command publishes goes to a \<open>command/\<close> path of the device type.\<close>

lemma commands_sent_paths:
  assumes "(i, lp, m) \<in> set (snd (performAction publish n d)) \<or> (i, lp, m) \<in> set (snd (snd (property_write json fetch publish n' v d)))"
  shows "\<exists>rest. lp = js_str (deviceType d) @ ''/command/'' @ rest"
  using assms
  by (auto simp: performAction_def property_write_def dingz_setValue_def Let_def base_setValue_def
      split: option.splits if_splits sum.splits prod.splits dest!: sendMqttEvent_sent shade_command_path)

lemma mqtt_event_command:
  assumes "deviceType d = JStr dt" "CHR ''/'' \<notin> set dt" "dt \<notin> {''online'', ''announce'', ''last_alive''}"
  shows "mqtt_event (dt @ ''/command/'' @ rest) m d = Done d"
proof -
  have "split_on (CHR ''/'') (dt @ ''/command/'' @ rest) = dt # ''command'' # split_on (CHR ''/'') rest"
    using split_on_sep [OF assms(2)] split_on_sep [of "CHR ''/''" "''command''" rest] by simp
  then show ?thesis using assms by (simp add: mqtt_event_def mqtt_dispatch_def part_def)
qed

lemma parse_int_one_digit [simp]: "parse_int 0 ''1'' = Some 1" "num_tmpl (Some 0) = ''0''"
  by code_simp+

lemma json_int_nat [simp]: "json_int (Some (int n)) = JNum (of_nat n)"
  by (simp add: json_int_def)

lemma ex_cmd_dev_simps [simp]:
  "deviceType ex_cmd_dev = JStr ''dingz''" "js_lower (mac ex_cmd_dev) = ''aabbcc''"
  "props ex_cmd_dev ''led'' = Some (mk_prop DingzProp TBoolean ''LED'' False JUndef JUndef None)"
  "props ex_cmd_dev ''ledColor'' = Some (mk_prop DingzProp TString ''LED Color'' False JUndef JUndef None)"
  "props ex_cmd_dev ''shade1'' = Some (mk_prop DingzProp TInteger ''Shade 1 Position'' False (JNum 0) (JNum 100) None)"
  "props ex_cmd_dev ''shade1Lamella'' = Some (mk_prop DingzProp TInteger ''Shade 1 Lamella'' False (JNum 0) (JNum 100) None)"
  by code_simp+

lemma ex_led_color: "led_color_str (JNum 255) (JNum 0) (JNum 16) = Inr ''#ff0010''"
  by code_simp

text \<open>C5: Commands are not echoed: the adapter subscribes to \<open>dingz/#\<close>, so every
  message an action or a property write publishes comes back to the device's
  \<open>mqttEvent\<close>; whatever its payload, it changes nothing there.\<close>

theorem command_loopback_ignored:
  assumes "deviceType d = JStr dt" "CHR ''/'' \<notin> set dt" "dt \<notin> {''online'', ''announce'', ''last_alive''}"
    and "(i, lp, m) \<in> set (snd (performAction publish n d))
         \<or> (i, lp, m) \<in> set (snd (snd (property_write json fetch publish n v d)))"
  shows "mqtt_event lp m' d = Done d"
proof -
  obtain rest where "lp = dt @ ''/command/'' @ rest" using commands_sent_paths [OF assms(4)] assms(1) by auto
  then show ?thesis using mqtt_event_command [OF assms(1-3)] by simp
qed

text \<open>Writing \<open>led\<close> publishes \<open>{on: 1}\<close> or \<open>{on: 0}\<close>, by the value's truthiness,
  to \<open><type>/command/led\<close> and, once published, stores the value.\<close>

theorem led_write:
  assumes "props d ''led'' = Some p" "pclass p = DingzProp" "deviceType d = JStr dt" "dt \<noteq> []"
    and "\<forall>i lp m. publish i lp m = None"
  shows "property_write json fetch publish ''led'' v d
    = (Inr v, set_cached ''led'' v d,
       [(js_lower (mac d), dt @ ''/command/led'', JObj [(''on'', JNum (if js_truthy v then 1 else 0))])])"
  using assms by (simp add: property_write_def dingz_setValue_def sendMqttEvent_ok)

text \<open>C28: Before the unit's type is known (no MQTT message from it yet), a write of
  \<open>led\<close> or of a shade publishes nothing, yet resolves and stores the value as if the
  command had been sent.\<close>

theorem write_before_type_known:
  assumes "props d n = Some p" "pclass p = DingzProp" "\<not> js_truthy (deviceType d)"
    and "n = ''led'' \<or> take 5 n = ''shade''"
  shows "property_write json fetch publish n v d = (Inr v, set_cached n v d, [])"
proof -
  have send: "sendMqttEvent publish path m d = (Inr JUndef, [])" for path m
    using assms(3) by (simp add: sendMqttEvent_def)
  from assms(4) consider "n = ''led''" | "take 5 n = ''shade''" by blast
  then show ?thesis
  proof cases
    case 2
    then have "n \<noteq> ''led'' \<and> n \<noteq> ''ledColor'' \<and> n \<noteq> ''targetTemperature'' \<and> n \<noteq> ''thermostatMode''"
      by auto
    then show ?thesis using 2 assms(1,2) by (simp add: property_write_def dingz_setValue_def send case_prod_beta)
  qed (use assms(1,2) in \<open>simp add: property_write_def dingz_setValue_def send\<close>)
qed

text \<open>C27: The colour the device reports is the colour it writes back: for byte channels
  \<open>r, g, b\<close>, writing the \<open>#rrggbb\<close> string a \<open>state/led\<close> message produced publishes
  \<open>{r, g, b}\<close> with the same channels.\<close>

theorem led_color_write_back:
  assumes "r < 256" "g < 256" "b < 256"
    and "led_color_str (JNum (of_nat r)) (JNum (of_nat g)) (JNum (of_nat b)) = Inr s"
    and "props d ''ledColor'' = Some p" "pclass p = DingzProp" "deviceType d = JStr dt" "dt \<noteq> []"
    and "\<forall>i lp m. publish i lp m = None"
  shows "property_write json fetch publish ''ledColor'' (JStr s) d
    = (Inr (JStr s), set_cached ''ledColor'' (JStr s) d,
       [(js_lower (mac d), dt @ ''/command/led'',
         JObj [(''r'', JNum (of_nat r)), (''g'', JNum (of_nat g)), (''b'', JNum (of_nat b))])])"
proof -
  have s: "s = CHR ''#'' # pad_start 2 (CHR ''0'') (hex_str r) @ pad_start 2 (CHR ''0'') (hex_str g)
      @ pad_start 2 (CHR ''0'') (hex_str b)"
    using assms(4) by (simp add: led_color_str_nat)
  have "led_write_message (JStr s) = Inr (JObj [(''r'', JNum (of_nat r)), (''g'', JNum (of_nat g)), (''b'', JNum (of_nat b))])"
    using led_color_str_channels [OF assms(1-3)] s by (simp add: led_write_message_def)
  then show ?thesis using assms(5-9) s by (simp add: property_write_def dingz_setValue_def sendMqttEvent_ok)
qed

text \<open>C26: The action table: \<open>shade<i>stop\<close>, \<open>up\<close> and \<open>down\<close> publish the motions 0, 1 and
  2 to motor \<open>i - 1\<close>, another shade action publishes nothing, and \<open>dimmer<i>...\<close>
  publishes a toggle to light \<open>i - 1\<close>.\<close>

theorem performAction_table:
  assumes "1 \<le> i" "i < 10"
  shows "performAction publish (''shade'' @ nat_str i @ a) d
      = (if a = ''stop'' \<or> a = ''up'' \<or> a = ''down'' then
           sendMqttEvent publish (''command/motor/'' @ nat_str (i - 1))
             (JObj [(''motion'', JNum (if a = ''stop'' then 0 else if a = ''up'' then 1 else 2))]) d
         else (Inr JUndef, []))
    \<and> performAction publish (''dimmer'' @ nat_str i @ a) d
      = sendMqttEvent publish (''command/light/'' @ nat_str (i - 1)) (JObj [(''turn'', JStr ''toggle'')]) d"
proof -
  have n: "nat_str i = [digit_char i]" using assms(2) by (rule nat_str_digit)
  have p: "parse_int 0 [digit_char i] = Some (int i)" using parse_int_auto_nat_str [of i] n by simp
  have t: "num_tmpl (Some (int i - 1)) = nat_str (i - 1)"
    using assms(1) num_tmpl_nat [of "i - 1"] by (simp add: of_nat_diff)
  show ?thesis using p t by (simp add: performAction_def n)
qed

theorem command_loopback_ignored_witness:
  "mqtt_event ''dingz/command/motor/0'' (JBool True) ex_cmd_dev = Done ex_cmd_dev"
  by (rule command_loopback_ignored [where dt = "''dingz''" and i = "''aabbcc''" and m = "JObj [(''motion'', JNum 1)]"
      and publish = "\<lambda>i lp m. None" and n = "''shade1up''" and json = "\<lambda>s. None" and fetch = "\<lambda>u m. NetFail [] []"
      and v = JUndef])
    (simp_all add: performAction_def sendMqttEvent_def)

theorem led_write_witness:
  "property_write (\<lambda>s. None) (\<lambda>u m. NetFail [] []) (\<lambda>i lp m. None) ''led'' (JBool True) ex_cmd_dev
    = (Inr (JBool True), set_cached ''led'' (JBool True) ex_cmd_dev,
       [(''aabbcc'', ''dingz/command/led'', JObj [(''on'', JNum 1)])])"
  using led_write [of ex_cmd_dev _ "''dingz''" "\<lambda>i lp m. None" "\<lambda>s. None" "\<lambda>u m. NetFail [] []" "JBool True"]
  by (simp add: mk_prop_def)

theorem write_before_type_known_witness:
  "property_write (\<lambda>s. None) (\<lambda>u m. NetFail [] []) (\<lambda>i lp m. None) ''led'' (JBool True) (ex_cmd_dev\<lparr>deviceType := JUndef\<rparr>)
    = (Inr (JBool True), set_cached ''led'' (JBool True) (ex_cmd_dev\<lparr>deviceType := JUndef\<rparr>), [])"
  using write_before_type_known [of "ex_cmd_dev\<lparr>deviceType := JUndef\<rparr>" "''led''" _ "\<lambda>s. None" "\<lambda>u m. NetFail [] []"
      "\<lambda>i lp m. None" "JBool True"]
  by (simp add: mk_prop_def)

theorem led_color_write_back_witness:
  "property_write (\<lambda>s. None) (\<lambda>u m. NetFail [] []) (\<lambda>i lp m. None) ''ledColor'' (JStr ''#ff0010'') ex_cmd_dev
    = (Inr (JStr ''#ff0010''), set_cached ''ledColor'' (JStr ''#ff0010'') ex_cmd_dev,
       [(''aabbcc'', ''dingz/command/led'', JObj [(''r'', JNum 255), (''g'', JNum 0), (''b'', JNum 16)])])"
  using led_color_write_back [of 255 0 16 "''#ff0010''" ex_cmd_dev _ "''dingz''" "\<lambda>i lp m. None"
      "\<lambda>s. None" "\<lambda>u m. NetFail [] []"] ex_led_color
  by (simp add: mk_prop_def)

theorem performAction_table_witness:
  "performAction (\<lambda>i lp m. None) (''shade'' @ nat_str 1 @ ''up'') ex_cmd_dev
      = (if ''up'' = ''stop'' \<or> ''up'' = ''up'' \<or> ''up'' = ''down'' then
           sendMqttEvent (\<lambda>i lp m. None) (''command/motor/'' @ nat_str (1 - 1))
             (JObj [(''motion'', JNum (if ''up'' = ''stop'' then 0 else if ''up'' = ''up'' then 1 else 2))]) ex_cmd_dev
         else (Inr JUndef, []))
    \<and> performAction (\<lambda>i lp m. None) (''dimmer'' @ nat_str 1 @ ''up'') ex_cmd_dev
      = sendMqttEvent (\<lambda>i lp m. None) (''command/light/'' @ nat_str (1 - 1)) (JObj [(''turn'', JStr ''toggle'')]) ex_cmd_dev"
  by (rule performAction_table) simp_all

end
