(* ===== verification/HttpCommands.thy ===== *)
theory HttpCommands
  imports Commands
begin

text \<open>
  The commands of the HTTP generation (src/index.js): property writes,
  \<open>DingzProperty.setValue(value)\<close> (lines 132--184), actions,
  \<open>Dingz.performAction(action)\<close> (lines 410--419), and the registration of the push
  channel, \<open>Dingz.registerEventListener()\<close> (lines 597--610).  They reach the unit through
  \<open>apiCall\<close> (Api.thy) only.  A command returns the settled value of its promise, the
  device after it and the requests sent, each as the path and the body of the
  \<open>fetch\<close>; \<open>fetch\<close> answers from the URL and the method, as in Api.thy, so the bodies
  are recorded but do not influence the reply.
\<close>

text \<open>The body of a request: none, a \<open>URLSearchParams\<close> form (its entries in order), or a
  string.\<close>

datatype req_body = NoBody | Form "(string \<times> string) list" | Text string

type_synonym requests = "(string \<times> req_body) list"

text \<open>\<open>this.device.apiCall(path, 'POST', body)\<close>: no request leaves without an address.\<close>

definition http_post ::
  "(string \<Rightarrow> jval option) \<Rightarrow> (string \<Rightarrow> string \<Rightarrow> fetch_reply) \<Rightarrow> string \<Rightarrow> req_body \<Rightarrow> dingz
     \<Rightarrow> (js_error + jval) \<times> dingz \<times> requests" where
  "http_post json fetch path body d =
     (case api_call json fetch path ''POST'' d of
        (r, d') \<Rightarrow> (r, d', if js_truthy (address d) then [(path, body)] else []))"

text \<open>After the awaited call: a rejection propagates, otherwise \<open>super.setValue\<close>.\<close>

definition after_post ::
  "(js_error + jval) \<times> dingz \<times> requests \<Rightarrow> string \<Rightarrow> jval \<Rightarrow> (js_error + jval) \<times> dingz \<times> requests" where
  "after_post r n v =
     (case r of (Inl e, d', rq) \<Rightarrow> (Inl e, d', rq)
      | (Inr _, d', rq) \<Rightarrow> (case base_setValue n v d' of (x, d'') \<Rightarrow> (x, d'', rq)))"

text \<open>\<open>value.slice(1).toUpperCase()\<close>: only a string has both; an array's \<open>slice\<close> is an
  array, without \<open>toUpperCase\<close>.\<close>

definition color_param :: "jval \<Rightarrow> js_error + string" where
  "color_param v = (case v of JStr s \<Rightarrow> Inr (js_upper (drop 1 s))
                    | JArr _ \<Rightarrow> Inl (TypeError ''toUpperCase'') | _ \<Rightarrow> Inl (TypeError ''slice''))"

text \<open>A boolean in a template literal.\<close>

definition bool_str :: "bool \<Rightarrow> string" where
  "bool_str b = (if b then ''true'' else ''false'')"

text \<open>The shade branch: the index, blind and lamella values (\<open>100\<close> when \<open>getProperty\<close>
  rejects), and \<open>shade/${indexNumber - 1}?blind=..&lamella=..\<close> with the index read by
  \<open>parseInt\<close> without a radix.\<close>

definition http_shade_path :: "string \<Rightarrow> jval \<Rightarrow> dingz \<Rightarrow> string" where
  "http_shade_path n v d =
     (let index = drop 5 n;
          or100 = (\<lambda>x. case x of Inr y \<Rightarrow> y | Inl e \<Rightarrow> JNum 100);
          (index, blindValue, lamellaValue) =
            (if ends_with n ''Lamella'' then (take (length index - 7) index, or100 (get_property (take (length n - 7) n) d), v)
             else (index, v, or100 (get_property (n @ ''Lamella'') d)))
      in ''shade/'' @ num_tmpl (map_option (\<lambda>i. i - 1) (parse_int 0 index))
           @ ''?blind='' @ js_str blindValue @ ''&lamella='' @ js_str lamellaValue)"

text \<open>\<open>DingzProperty.setValue(value)\<close> of the HTTP generation; a \<open>dimmer\<close> write and any
  other property only calls \<open>super.setValue\<close>.\<close>

definition http_setValue ::
  "(string \<Rightarrow> jval option) \<Rightarrow> (string \<Rightarrow> string \<Rightarrow> fetch_reply) \<Rightarrow> string \<Rightarrow> jval \<Rightarrow> dingz
     \<Rightarrow> (js_error + jval) \<times> dingz \<times> requests" where
  "http_setValue json fetch n v d =
     (if n = ''led'' then
        after_post (http_post json fetch ''led/set'' (Form [(''action'', if js_truthy v then ''on'' else ''off'')]) d) n v
      else if n = ''ledColor'' then
        (case color_param v of
           Inl e \<Rightarrow> (Inl e, d, [])
         | Inr c \<Rightarrow> after_post (http_post json fetch ''led/set'' (Form [(''color'', c), (''mode'', ''rgb'')]) d) n v)
      else if n = ''targetTemperature'' then
        (case get_property ''thermostatMode'' d of
           Inl e \<Rightarrow> (Inl e, d, [])
         | Inr m \<Rightarrow> after_post (http_post json fetch
               (''thermostat?target_temp='' @ js_str v @ ''&enable='' @ bool_str (m \<noteq> JStr ''off'')) NoBody d) n v)
      else if n = ''thermostatMode'' then
        (case get_property ''targetTemperature'' d of
           Inl e \<Rightarrow> (Inl e, d, [])
         | Inr t \<Rightarrow> after_post (http_post json fetch
               (''thermostat?target_temp='' @ js_str t @ ''&enable='' @ bool_str (v \<noteq> JStr ''off'')) NoBody d) n v)
      else if take 5 n = ''shade'' then
        after_post (http_post json fetch (http_shade_path n v d) NoBody d) n v
      else (case base_setValue n v d of (r, d') \<Rightarrow> (r, d', [])))"

text \<open>A write of the gateway to a property of an HTTP-fed device.\<close>

definition http_property_write ::
  "(string \<Rightarrow> jval option) \<Rightarrow> (string \<Rightarrow> string \<Rightarrow> fetch_reply) \<Rightarrow> string \<Rightarrow> jval \<Rightarrow> dingz
     \<Rightarrow> (js_error + jval) \<times> dingz \<times> requests" where
  "http_property_write json fetch n v d =
     (case props d n of
        None \<Rightarrow> (Inl (NotFound n), d, [])
      | Some p \<Rightarrow> if pclass p = DingzProp then http_setValue json fetch n v d
                 else (case base_setValue n v d of (r, d') \<Rightarrow> (r, d', [])))"

text \<open>\<open>performAction(action)\<close>: \<open>shade/${index}/${actionName}\<close> with the action name
  unchecked; a dimmer action does nothing.\<close>

definition http_performAction ::
  "(string \<Rightarrow> jval option) \<Rightarrow> (string \<Rightarrow> string \<Rightarrow> fetch_reply) \<Rightarrow> string \<Rightarrow> dingz
     \<Rightarrow> (js_error + jval) \<times> dingz \<times> requests" where
  "http_performAction json fetch n d =
     (if take 5 n = ''shade'' then
        http_post json fetch
          (''shade/'' @ num_tmpl (map_option (\<lambda>i. i - 1) (parse_int 0 (take 1 (drop 5 n)))) @ ''/'' @ drop 6 n) NoBody d
      else (Inr JUndef, d, []))"

text \<open>The calls of \<open>registerEventListener\<close>, for the callback URL the endpoint module
  returns: the generic action, then \<open>begin\<close> and \<open>end\<close> of the buttons 1 to 4.\<close>

definition listener_calls :: "string \<Rightarrow> string \<Rightarrow> (string \<times> string) list" where
  "listener_calls url m =
     (''action/generic/generic'', url)
     # concat (map (\<lambda>i. [(''action/btn'' @ nat_str i @ ''/begin'', url @ ''?index='' @ nat_str i @ ''&action=begin&mac='' @ m),
                         (''action/btn'' @ nat_str i @ ''/end'', url @ ''?index='' @ nat_str i @ ''&action=end&mac='' @ m)])
                [1, 2, 3, 4])"

text \<open>A sequence of awaited calls: the first rejection ends it.\<close>

fun post_all ::
  "(string \<Rightarrow> jval option) \<Rightarrow> (string \<Rightarrow> string \<Rightarrow> fetch_reply) \<Rightarrow> (string \<times> string) list \<Rightarrow> dingz
     \<Rightarrow> (js_error + jval) \<times> dingz \<times> requests" where
  "post_all json fetch [] d = (Inr JUndef, d, [])"
| "post_all json fetch ((p, b) # cs) d =
     (case http_post json fetch p (Text b) d of
        (Inl e, d', rq) \<Rightarrow> (Inl e, d', rq)
      | (Inr _, d', rq) \<Rightarrow> (case post_all json fetch cs d' of (r, d'', rq') \<Rightarrow> (r, d'', rq @ rq')))"

definition registerEventListener ::
  "(string \<Rightarrow> jval option) \<Rightarrow> (string \<Rightarrow> string \<Rightarrow> fetch_reply) \<Rightarrow> string \<Rightarrow> dingz
     \<Rightarrow> (js_error + jval) \<times> dingz \<times> requests" where
  "registerEventListener json fetch url d = post_all json fetch (listener_calls url (mac d)) d"

text \<open>A unit that refuses the registration of button 2's \<open>begin\<close>.\<close>

definition ex_fetch :: "string \<Rightarrow> string \<Rightarrow> fetch_reply" where
  "ex_fetch u m = (if u = ''http://10.0.0.2/api/v1/action/btn2/begin'' then Reply 500 ''busy'' else Reply 200 [])"

subsection \<open>Lemmas\<close>

lemma ex_cmd_dev_address: "address ex_cmd_dev = JStr ''10.0.0.2''" "mac ex_cmd_dev = ''AABBCC''"
  by code_simp+

lemma api_call_address [simp]: "address (snd (api_call json fetch p m d)) = address d"
  using api_call_state [of json fetch p m d] by (auto simp: connectedNotify_def)

lemma api_call_fst_address:
  "address d' = address d \<Longrightarrow> fst (api_call json fetch p m d') = fst (api_call json fetch p m d)"
  by (simp add: api_call_def split: fetch_reply.splits)

lemma http_post_eq:
  "http_post json fetch p b d = (fst (api_call json fetch p ''POST'' d), snd (api_call json fetch p ''POST'' d),
     if js_truthy (address d) then [(p, b)] else [])"
  by (simp add: http_post_def split: prod.split)

lemma post_all_sent:
  assumes "js_truthy (address d)"
  shows "snd (snd (post_all json fetch cs d))
      = map (\<lambda>(p, b). (p, Text b)) (take (Suc (length (takeWhile (\<lambda>(p, b). api_error (api_call json fetch p ''POST'' d) = None) cs))) cs)
    \<and> (isl (fst (post_all json fetch cs d)) \<longleftrightarrow> (\<exists>(p, b) \<in> set cs. api_error (api_call json fetch p ''POST'' d) \<noteq> None))"
  using assms
proof (induction cs arbitrary: d)
  case (Cons c cs)
  obtain p b where c: "c = (p, b)" by fastforce
  obtain r d' where a: "api_call json fetch p ''POST'' d = (r, d')" by fastforce
  have ad: "address d' = address d" using api_call_address [of json fetch p "''POST''" d] a by simp
  have same: "api_error (api_call json fetch q ''POST'' d') = api_error (api_call json fetch q ''POST'' d)" for q
    using api_call_fst_address [OF ad] by (simp add: api_error_def)
  have ih: "snd (snd (post_all json fetch cs d'))
      = map (\<lambda>(p, b). (p, Text b)) (take (Suc (length (takeWhile (\<lambda>(p, b). api_error (api_call json fetch p ''POST'' d) = None) cs))) cs)
    \<and> (isl (fst (post_all json fetch cs d')) \<longleftrightarrow> (\<exists>(p, b) \<in> set cs. api_error (api_call json fetch p ''POST'' d) \<noteq> None))"
    using Cons.IH [of d'] Cons.prems ad by (simp add: same)
  show ?case
  proof (cases r)
    case (Inl e)
    then show ?thesis using a c Cons.prems by (simp add: http_post_eq api_error_def)
  next
    case (Inr x)
    obtain r' d'' rq' where pa: "post_all json fetch cs d' = (r', d'', rq')" by (cases "post_all json fetch cs d'") auto
    have "api_error (api_call json fetch p ''POST'' d) = None" using a Inr by (simp add: api_error_def)
    then show ?thesis using a c Cons.prems ih pa Inr by (simp add: http_post_eq)
  qed
qed simp

text \<open>C7: The two generations agree on a shade position write: for a shade property of the
  adapter's class on a unit with an address and a known type, when the unit and the
  broker accept, the HTTP generation sends \<open>shade/<i-1>?blind=<v>&lamella=<l>\<close> and the
  MQTT generation publishes \<open>{position: v, lamella: l}\<close> to motor \<open>i - 1\<close>, with the same
  lamella value \<open>l\<close> (the current one, \<open>100\<close> without a lamella property), and both
  store the value.\<close>

theorem http_shade_agrees:
  assumes "1 \<le> i" "i < 10" "props d (''shade'' @ nat_str i) = Some p" "pclass p = DingzProp"
    and "js_truthy (address d)" "\<forall>u. fetch u ''POST'' = Reply 200 []"
    and "deviceType d = JStr dt" "dt \<noteq> []" "\<forall>i lp m. publish i lp m = None"
    and "l = (case props d (''shade'' @ nat_str i @ ''Lamella'') of Some q \<Rightarrow> pvalue q | None \<Rightarrow> JNum 100)"
  shows "http_property_write json fetch (''shade'' @ nat_str i) v d
      = (Inr v, set_cached (''shade'' @ nat_str i) v d,
         [(''shade/'' @ nat_str (i - 1) @ ''?blind='' @ js_str v @ ''&lamella='' @ js_str l, NoBody)])
    \<and> property_write json fetch publish (''shade'' @ nat_str i) v d
      = (Inr v, set_cached (''shade'' @ nat_str i) v d,
         [(js_lower (mac d), dt @ ''/command/motor/'' @ nat_str (i - 1), JObj [(''position'', v), (''lamella'', l)])])"
proof -
  have n: "nat_str i = [digit_char i]" using assms(2) by (rule nat_str_digit)
  have pi: "parse_int 0 [digit_char i] = Some (int i)" using parse_int_auto_nat_str [of i] n by simp
  have t: "num_tmpl (Some (int i - 1)) = nat_str (i - 1)"
    using assms(1) num_tmpl_nat [of "i - 1"] by (simp add: of_nat_diff)
  have e: "\<not> ends_with (''shade'' @ [digit_char i]) ''Lamella''" by (simp add: ends_with_def)
  have ok: "reply_ok 200" by (simp add: reply_ok_def)
  show ?thesis
    using assms(3-10) pi t e ok unfolding n
    by (simp add: http_property_write_def http_setValue_def http_shade_path_def http_post_def api_call_def Let_def
        property_write_def dingz_setValue_def shade_command_def sendMqttEvent_ok get_property_def after_post_def
        base_setValue_def split: option.splits)
qed
text \<open>C29: A falsy \<open>ledColor\<close> write other than the empty string (\<open>null\<close>,
  \<open>undefined\<close>, \<open>false\<close>, \<open>0\<close>, \<open>NaN\<close>) makes the HTTP generation throw a
  \<open>TypeError\<close> on \<open>value.slice\<close>, sending nothing and storing nothing, while the MQTT
  generation ignores it and resolves with \<open>undefined\<close>.\<close>

theorem http_led_color_falsy:
  assumes "props d ''ledColor'' = Some p" "pclass p = DingzProp" "\<not> js_truthy v" "v \<noteq> JStr []"
  shows "http_property_write json fetch ''ledColor'' v d = (Inl (TypeError ''slice''), d, [])
    \<and> property_write json fetch publish ''ledColor'' v d = (Inr JUndef, d, [])"
  using assms
  by (cases v) (simp_all add: http_property_write_def http_setValue_def color_param_def property_write_def dingz_setValue_def)

text \<open>C30: \<open>registerEventListener\<close> sends its nine registrations in order and stops at the
  first one that rejects: the requests sent are the calls up to and including the first
  rejected one, and the promise rejects exactly when one of the calls rejects.  A timeout
  does not stop it (the call fulfils with \<open>undefined\<close>).\<close>

theorem register_listener_sequence:
  assumes "js_truthy (address d)"
  shows "snd (snd (registerEventListener json fetch url d))
      = map (\<lambda>(p, b). (p, Text b)) (take (Suc (length (takeWhile (\<lambda>(p, b). api_error (api_call json fetch p ''POST'' d) = None)
          (listener_calls url (mac d))))) (listener_calls url (mac d)))
    \<and> (isl (fst (registerEventListener json fetch url d))
       \<longleftrightarrow> (\<exists>(p, b) \<in> set (listener_calls url (mac d)). api_error (api_call json fetch p ''POST'' d) \<noteq> None))"
  unfolding registerEventListener_def using post_all_sent [OF assms] .

theorem register_listener_sequence_witness:
  "snd (snd (registerEventListener (\<lambda>s. None) ex_fetch ''http://gw/'' ex_cmd_dev))
     = [(''action/generic/generic'', Text ''http://gw/''),
        (''action/btn1/begin'', Text ''http://gw/?index=1&action=begin&mac=AABBCC''),
        (''action/btn1/end'', Text ''http://gw/?index=1&action=end&mac=AABBCC''),
        (''action/btn2/begin'', Text ''http://gw/?index=2&action=begin&mac=AABBCC'')]
   \<and> isl (fst (registerEventListener (\<lambda>s. None) ex_fetch ''http://gw/'' ex_cmd_dev))"
  using register_listener_sequence [where d = ex_cmd_dev and json = "\<lambda>s. None" and fetch = ex_fetch and url = "''http://gw/''"]
  by (simp add: ex_cmd_dev_address listener_calls_def ex_fetch_def api_call_def api_url_def reply_ok_def api_error_def
      nat_str_digit)
theorem http_led_color_falsy_witness:
  "http_property_write (\<lambda>s. None) ex_fetch ''ledColor'' JNull ex_cmd_dev = (Inl (TypeError ''slice''), ex_cmd_dev, [])
   \<and> property_write (\<lambda>s. None) ex_fetch (\<lambda>i lp m. None) ''ledColor'' JNull ex_cmd_dev = (Inr JUndef, ex_cmd_dev, [])"
  by (rule http_led_color_falsy [where p = "mk_prop DingzProp TString ''LED Color'' False JUndef JUndef None"])
    (simp_all add: mk_prop_def)

theorem http_shade_agrees_witness:
  "http_property_write (\<lambda>s. None) (\<lambda>u m. Reply 200 []) (''shade'' @ nat_str 1) (JNum 40) ex_cmd_dev
      = (Inr (JNum 40), set_cached (''shade'' @ nat_str 1) (JNum 40) ex_cmd_dev,
         [(''shade/'' @ nat_str (1 - 1) @ ''?blind='' @ js_str (JNum 40) @ ''&lamella='' @ js_str JUndef, NoBody)])
    \<and> property_write (\<lambda>s. None) (\<lambda>u m. Reply 200 []) (\<lambda>i lp m. None) (''shade'' @ nat_str 1) (JNum 40) ex_cmd_dev
      = (Inr (JNum 40), set_cached (''shade'' @ nat_str 1) (JNum 40) ex_cmd_dev,
         [(js_lower (mac ex_cmd_dev), ''dingz'' @ ''/command/motor/'' @ nat_str (1 - 1),
           JObj [(''position'', JNum 40), (''lamella'', JUndef)])])"
  by (rule http_shade_agrees [where p = "mk_prop DingzProp TInteger ''Shade 1 Position'' False (JNum 0) (JNum 100) None"])
    (simp_all add: mk_prop_def ex_cmd_dev_address)

end
