(* ===== verification/HttpDevice.thy ===== *)
theory HttpDevice
  imports HttpCommands
begin

text \<open>
  The constructor of the HTTP generation (src/index.js lines 188--373).  Its schema code
  is the MQTT generation's (Device.thy, \<open>build_schema\<close>); it differs in four places:
  three capability queries instead of four, the valve output taken from the
  \<open>thermostat\<close> answer's \<open>out\<close>; \<open>BasicDingzProperty\<close> (lines 119--123), from which
  every property class derives, sets \<open>this.visible = true\<close> whatever the spec says;
  \<open>setShadeConfig\<close> and \<open>setDimmerConfig\<close> test \<open>lamella_90\<close> and \<open>not_connected\<close>; and the
  detail fetch awaits \<open>registerEventListener()\<close> (HttpCommands.thy) beside the blind and
  dimmer configurations, so a rejected registration leaves the device unannounced.
\<close>

text \<open>The \<open>thermostat\<close> handler: \<open>this.thermostat = thermostatState.active;
  this.thermostatOutput = thermostatState.out\<close>.\<close>

definition http_on_thermostat :: "jval \<Rightarrow> dingz \<Rightarrow> js_error + dingz" where
  "http_on_thermostat ts d =
     ebind (js_get ts ''active'') (\<lambda>a. ebind (js_get ts ''out'') (\<lambda>out.
       Inr (d\<lparr>dcaps := (dcaps d)\<lparr>thermostat := js_truthy a, thermostatOutput := out\<rparr>\<rparr>)))"

definition http_resolve_caps :: "jval \<Rightarrow> jval \<Rightarrow> jval \<Rightarrow> dingz \<Rightarrow> js_error + dingz" where
  "http_resolve_caps sc info ts d =
     ebind (on_system_config sc d) (\<lambda>d. ebind (on_device_info info d) (http_on_thermostat ts))"

text \<open>\<open>super(...args); this.visible = true\<close>: every property the schema registers is
  visible, the \<open>visible\<close> of its spec being ignored.  The schema code never reads a
  visibility, so registering each property visible is setting them all visible after
  the schema.\<close>

definition all_visible :: "dingz \<Rightarrow> dingz" where
  "all_visible d = d\<lparr>props := (\<lambda>n. map_option (\<lambda>p. p\<lparr>pvisible := JBool True\<rparr>) (props d n))\<rparr>"

definition http_build_schema :: "dingz \<Rightarrow> dingz" where
  "http_build_schema d = all_visible (build_schema d)"

text \<open>\<open>setShadeConfig(index, config)\<close>: the lamella is visible for the type
  \<open>lamella_90\<close>.\<close>

definition http_setShadeConfig :: "nat \<Rightarrow> jval \<Rightarrow> dingz \<Rightarrow> js_error + dingz" where
  "http_setShadeConfig i cfg d =
     (let s = shade_id i in
      ebind (ebind (js_get cfg ''blinds'') (\<lambda>bl. js_index bl (i - 1))) (\<lambda>sc.
      ebind (js_get sc ''type'') (\<lambda>ty.
      ebind (set_prop (s @ ''Lamella'') (\<lambda>p. p\<lparr>pvisible := JBool (ty = JStr ''lamella_90'')\<rparr>) d) (\<lambda>d.
      ebind (js_get sc ''min_value'') (\<lambda>mn. ebind (js_get sc ''max_value'') (\<lambda>mx.
      ebind (set_prop s (\<lambda>p. p\<lparr>pminimum := mn, pmaximum := mx\<rparr>) d) (\<lambda>d.
      ebind (js_get sc ''name'') (\<lambda>nm.
        if js_truthy nm then shade_titles s nm d else Inr d))))))))"

text \<open>\<open>setDimmerConfig(index, dimmerConfig)\<close>: a channel is visible unless its output is
  \<open>not_connected\<close>.\<close>

definition http_setDimmerConfig :: "nat \<Rightarrow> jval \<Rightarrow> dingz \<Rightarrow> js_error + dingz" where
  "http_setDimmerConfig i dc d =
     (if \<not> dimmer_visible (dcaps d) i then Inr d
      else
        (let di = dimmer_id i in
         ebind (ebind (js_get dc ''dimmers'') (\<lambda>ds. js_index ds (i - 1))) (\<lambda>cfg.
         ebind (js_get cfg ''output'') (\<lambda>out.
         (let vis = JBool (out \<noteq> JStr ''not_connected'') in
          ebind (dimmer_visibility di vis d) (\<lambda>d.
          ebind (js_get cfg ''name'') (\<lambda>nm.
          ebind (if js_truthy nm then dimmer_titles di nm d else Inr d) (\<lambda>d.
          Inr (if js_truthy vis then d
               else d\<lparr>actions := (actions d)(di @ ''toggle'' := None)\<rparr>)))))))))"

definition http_apply_details :: "jval \<Rightarrow> jval \<Rightarrow> dingz \<Rightarrow> js_error + dingz" where
  "http_apply_details bc dc d =
     (let c = dcaps d in
      ebind (if \<not> js_truthy bc then Inr d
             else ebind (if shade1 c then http_setShadeConfig 1 bc d else Inr d) (\<lambda>d.
                  if shade2 c then http_setShadeConfig 2 bc d else Inr d)) (\<lambda>d.
      if \<not> js_truthy dc then Inr d
      else ebind (if dimmerGroup1 c then ebind (http_setDimmerConfig 1 dc d) (http_setDimmerConfig 2 dc) else Inr d)
             (\<lambda>d. if dimmerGroup2 c then ebind (http_setDimmerConfig 3 dc d) (http_setDimmerConfig 4 dc) else Inr d)))"

text \<open>The whole constructor.  The three capability queries and the two detail fetches are
  settled values as in \<open>construct\<close>; the registration runs on the device as the schema
  left it, with the callback URL \<open>url\<close> of the endpoint module, and its rejection rejects
  the \<open>Promise.all\<close> of the detail fetch.\<close>

definition http_construct ::
  "(string \<Rightarrow> jval option) \<Rightarrow> (string \<Rightarrow> string \<Rightarrow> fetch_reply) \<Rightarrow> string \<Rightarrow> string \<Rightarrow> jval
     \<Rightarrow> js_error + jval \<Rightarrow> js_error + jval \<Rightarrow> js_error + jval \<Rightarrow> js_error + jval \<Rightarrow> js_error + jval
     \<Rightarrow> js_error + dingz" where
  "http_construct json fetch url m addr qsc qinfo qts qbc qdc =
     ebind qsc (\<lambda>sc. ebind qinfo (\<lambda>info. ebind qts (\<lambda>ts.
     ebind (http_resolve_caps sc info ts (dingz_init m addr)) (\<lambda>d.
       (let d' = http_build_schema d; (rb, rd) = detail_requests (dcaps d') in
        ebind (if rb then qbc else Inr JUndef) (\<lambda>bc.
        ebind (if rd then qdc else Inr JUndef) (\<lambda>dc.
        (case registerEventListener json fetch url d' of
           (r, d'', rq) \<Rightarrow> ebind r (\<lambda>_. http_apply_details bc dc d'')))))))))"

text \<open>A unit answering as the example of Device.thy, whose \<open>thermostat\<close> answer names
  output 1, that is dimmer 2, as the valve output; every call to it succeeds.\<close>

definition ex_http_thermostat :: jval where
  "ex_http_thermostat = JObj [(''active'', JBool True), (''out'', JNum 1)]"

definition ex_http_construct :: "js_error + dingz" where
  "ex_http_construct = http_construct (\<lambda>s. None) (\<lambda>u m. Reply 200 []) ''http://gw/'' ''aabbcc'' (JStr ''10.0.0.2'')
     (Inr ex_system_config) (Inr ex_device_info) (Inr ex_http_thermostat) (Inr JUndef) (Inr JUndef)"

subsection \<open>Lemmas\<close>

lemma http_setDimmerConfig_frame:
  assumes "http_setDimmerConfig i dc d = Inr d'"
  shows "frame_on (if dimmer_visible (dcaps d) i then dimmer_names i else {}) d d'"
proof (cases "dimmer_visible (dcaps d) i")
  case False
  with assms show ?thesis by (simp add: http_setDimmerConfig_def)
next
  case True
  let ?di = "dimmer_id i"
  from assms True obtain vis d1 nm d2 where
    d1: "dimmer_visibility ?di vis d = Inr d1"
    and d2: "(if js_truthy nm then dimmer_titles ?di nm d1 else Inr d1) = Inr d2"
    and d': "d' = (if js_truthy vis then d2 else d2\<lparr>actions := (actions d2)(?di @ ''toggle'' := None)\<rparr>)"
    by (auto simp: http_setDimmerConfig_def Let_def ebind_eq_Inr)
  have "frame_on (dimmer_names i) d d1"
    using dimmer_visibility_frame [OF d1] by (simp add: dimmer_names_def)
  moreover have "frame_on (dimmer_names i) d1 d2"
    using d2 dimmer_titles_frame by (auto simp: dimmer_names_def split: if_splits)
  moreover have "frame_on (dimmer_names i) d2 d'"
    using d' by (auto simp: frame_on_def dimmer_names_def)
  ultimately show ?thesis
    using True by (auto intro: frame_on_trans_same)
qed

lemma http_setShadeConfig_frame:
  assumes "http_setShadeConfig i cfg d = Inr d'"
  shows "frame_on (shade_names i) d d'"
proof -
  let ?s = "shade_id i"
  from assms obtain ty d1 mn mx d2 nm where
    d1: "set_prop (?s @ ''Lamella'') (\<lambda>p. p\<lparr>pvisible := JBool (ty = JStr ''lamella_90'')\<rparr>) d = Inr d1"
    and d2: "set_prop ?s (\<lambda>p. p\<lparr>pminimum := mn, pmaximum := mx\<rparr>) d1 = Inr d2"
    and d': "(if js_truthy nm then shade_titles ?s nm d2 else Inr d2) = Inr d'"
    unfolding http_setShadeConfig_def Let_def ebind_eq_Inr by blast
  have "frame_on (shade_names i) d d1" "frame_on (shade_names i) d1 d2"
    using d1 d2 by (auto simp: frame_on_def shade_names_def)
  moreover have "frame_on (shade_names i) d2 d'"
    using d' shade_titles_frame by (auto simp: shade_names_def split: if_splits)
  ultimately show ?thesis by (auto intro: frame_on_trans_same)
qed

lemma http_keeps_scope:
  "keeps_scope (http_setDimmerConfig i dc)" "i \<in> {1, 2} \<Longrightarrow> keeps_scope (http_setShadeConfig i cfg)"
proof -
  have "http_setDimmerConfig i dc d = Inr d' \<Longrightarrow> frame_on (refine_scope (dcaps d)) d d'" for d d'
    by (rule frame_on_mono [OF http_setDimmerConfig_frame]) (auto simp: refine_scope_def)
  then show "keeps_scope (http_setDimmerConfig i dc)" by (simp add: keeps_scope_def)
  assume i: "i \<in> {1, 2}"
  have "http_setShadeConfig i cfg d = Inr d' \<Longrightarrow> frame_on (refine_scope (dcaps d)) d d'" for d d'
    by (rule frame_on_mono [OF http_setShadeConfig_frame]) (use i in \<open>auto simp: refine_scope_def\<close>)
  then show "keeps_scope (http_setShadeConfig i cfg)" by (simp add: keeps_scope_def)
qed

lemma http_apply_details_frame:
  assumes "http_apply_details bc dc d = Inr d'"
  shows "frame_on (refine_scope (dcaps d)) d d'"
proof -
  let ?c = "dcaps d"
  let ?B = "\<lambda>x. if \<not> js_truthy bc then Inr x
             else ebind (if shade1 ?c then http_setShadeConfig 1 bc x else Inr x)
                    (\<lambda>x. if shade2 ?c then http_setShadeConfig 2 bc x else Inr x)"
  let ?D = "\<lambda>x. if \<not> js_truthy dc then Inr x
             else ebind (if dimmerGroup1 ?c then ebind (http_setDimmerConfig 1 dc x) (http_setDimmerConfig 2 dc) else Inr x)
                    (\<lambda>x. if dimmerGroup2 ?c then ebind (http_setDimmerConfig 3 dc x) (http_setDimmerConfig 4 dc) else Inr x)"
  have "keeps_scope (\<lambda>x. ebind (?B x) ?D)"
    by (intro keeps_scope_seq keeps_scope_if' keeps_scope_if http_keeps_scope) auto
  moreover have "(\<lambda>x. ebind (?B x) ?D) d = Inr d'"
    using assms by (simp add: http_apply_details_def Let_def)
  ultimately show ?thesis by (simp add: keeps_scope_def)
qed

lemma http_resolve_caps_schema:
  assumes "http_resolve_caps sc info ts d = Inr d'"
  shows "props d' = props d \<and> actions d' = actions d \<and> address d' = address d \<and> mac d' = mac d"
  using assms
  by (auto simp: http_resolve_caps_def http_on_thermostat_def on_system_config_def on_device_info_def
      ebind_eq_Inr case_prod_beta)

lemma all_visible_simps [simp]:
  "actions (all_visible d) = actions d" "dcaps (all_visible d) = dcaps d" "address (all_visible d) = address d"
  "mac (all_visible d) = mac d" "props (all_visible d) n = map_option (\<lambda>p. p\<lparr>pvisible := JBool True\<rparr>) (props d n)"
  by (simp_all add: all_visible_def)

lemma schema_step_ids [simp]:
  "address (add_prop n p d) = address d" "mac (add_prop n p d) = mac d"
  "address (add_action n t d) = address d" "mac (add_action n t d) = mac d"
  "address (add_event n t d) = address d" "mac (add_event n t d) = mac d"
  by (simp_all add: add_prop_def add_action_def add_event_def)

lemma schema_unit_ids [simp]:
  "address (addKey i d) = address d" "mac (addKey i d) = mac d"
  "address (addShade i d) = address d" "mac (addShade i d) = mac d"
  "address (addDimmer i d) = address d" "mac (addDimmer i d) = mac d"
  "address (base_props d) = address d" "mac (base_props d) = mac d"
  by (simp_all add: addKey_def addShade_def addDimmer_def base_props_def Let_def)

lemma build_schema_ids [simp]: "address (build_schema d) = address d" "mac (build_schema d) = mac d"
proof -
  have "address (schema_base d) = address d" "mac (schema_base d) = mac d"
    by (simp_all add: schema_base_def Let_def when_do_def)
  moreover have "address (add_thermostat x) = address x" "mac (add_thermostat x) = mac x" for x
    by (simp_all add: add_thermostat_def Let_def split: option.split)
  ultimately show "address (build_schema d) = address d" "mac (build_schema d) = mac d"
    by (simp_all add: build_schema_def when_do_def)
qed

lemma post_all_dev:
  "props (fst (snd (post_all json fetch cs d))) = props d \<and> actions (fst (snd (post_all json fetch cs d))) = actions d
   \<and> dcaps (fst (snd (post_all json fetch cs d))) = dcaps d"
proof (induction cs arbitrary: d)
  case (Cons c cs)
  obtain p b where c: "c = (p, b)" by fastforce
  have s: "props (snd (api_call json fetch p ''POST'' d)) = props d \<and> actions (snd (api_call json fetch p ''POST'' d)) = actions d
      \<and> dcaps (snd (api_call json fetch p ''POST'' d)) = dcaps d"
    using api_call_state [of json fetch p "''POST''" d] by (auto simp: connectedNotify_def)
  show ?case
    using Cons.IH [of "snd (api_call json fetch p ''POST'' d)"] s c
    by (auto simp: http_post_eq split: sum.split prod.split)
qed simp

lemma http_construct_Inr:
  assumes "http_construct json fetch url m addr qsc qinfo qts qbc qdc = Inr d"
  obtains sc info ts d0 bc dc x d'' rq where
    "http_resolve_caps sc info ts (dingz_init m addr) = Inr d0"
    "registerEventListener json fetch url (http_build_schema d0) = (Inr x, d'', rq)"
    "http_apply_details bc dc d'' = Inr d"
proof -
  from assms obtain sc info ts d0 bc dc where
    d0: "http_resolve_caps sc info ts (dingz_init m addr) = Inr d0"
    and r: "(case registerEventListener json fetch url (http_build_schema d0) of
               (r, d'', rq) \<Rightarrow> ebind r (\<lambda>_. http_apply_details bc dc d'')) = Inr d"
    unfolding http_construct_def Let_def case_prod_beta ebind_eq_Inr by blast
  obtain r d'' rq where reg: "registerEventListener json fetch url (http_build_schema d0) = (r, d'', rq)"
    by (cases "registerEventListener json fetch url (http_build_schema d0)") auto
  then obtain x where "r = Inr x" "http_apply_details bc dc d'' = Inr d"
    using r by (auto simp: ebind_eq_Inr)
  then show ?thesis using that d0 reg by blast
qed

lemma ex_http_resolve:
  "case http_resolve_caps ex_system_config ex_device_info ex_http_thermostat (dingz_init ''aabbcc'' (JStr ''10.0.0.2'')) of
     Inr d \<Rightarrow> thermostat (dcaps d) \<and> thermostatOutput (dcaps d) = JNum 1
              \<and> props (http_build_schema d) (dimmer_id 2) \<noteq> None
   | Inl e \<Rightarrow> False"
  by code_simp

lemma http_apply_details_undefined [simp]: "http_apply_details JUndef JUndef d = Inr d"
  by (simp add: http_apply_details_def)

lemma ex_http_construct_Inr:
  "\<exists>d. ex_http_construct = Inr d \<and> thermostat (dcaps d) \<and> thermostatOutput (dcaps d) = JNum 1
     \<and> props d (dimmer_id 2) \<noteq> None"
proof -
  obtain d0 where d0: "http_resolve_caps ex_system_config ex_device_info ex_http_thermostat
      (dingz_init ''aabbcc'' (JStr ''10.0.0.2'')) = Inr d0"
    and th: "thermostat (dcaps d0)" and o: "thermostatOutput (dcaps d0) = JNum 1"
    and p: "props (http_build_schema d0) (dimmer_id 2) \<noteq> None"
    using ex_http_resolve by (auto split: sum.splits)
  let ?d1 = "http_build_schema d0"
  let ?r = "registerEventListener (\<lambda>s. None) (\<lambda>u m. Reply 200 []) ''http://gw/'' ?d1"
  have a: "address ?d1 = JStr ''10.0.0.2''"
    using http_resolve_caps_schema [OF d0] by (simp add: http_build_schema_def dingz_init_def)
  have "\<not> isl (fst ?r)"
    using post_all_sent [of ?d1 "\<lambda>s. None" "\<lambda>u m. Reply 200 []" "listener_calls ''http://gw/'' (mac ?d1)"] a
    by (simp add: registerEventListener_def api_call_def reply_ok_def api_error_def)
  moreover obtain r d'' rq where reg0: "?r = (r, d'', rq)" by (cases ?r) auto
  ultimately obtain x where "r = Inr x" by (cases r) auto
  with reg0 have reg: "?r = (Inr x, d'', rq)" by simp
  have same: "props d'' = props ?d1" "dcaps d'' = dcaps ?d1"
    using post_all_dev [of "\<lambda>s. None" "\<lambda>u m. Reply 200 []" "listener_calls ''http://gw/'' (mac ?d1)" ?d1] reg
    by (simp_all add: registerEventListener_def)
  have "ex_http_construct = Inr d''"
    unfolding ex_http_construct_def http_construct_def using d0 reg
    by (simp add: Let_def case_prod_beta)
  moreover have "props d'' (dimmer_id 2) \<noteq> None" using same(1) p by (simp add: http_build_schema_def)
  ultimately show ?thesis using same(2) th o by (auto simp: http_build_schema_def)
qed

lemma ex_listener_call:
  "(''action/btn2/begin'', ''http://gw/?index=2&action=begin&mac=AABBCC'') \<in> set (listener_calls ''http://gw/'' (js_upper ''aabbcc''))"
  by code_simp

text \<open>C8: The HTTP generation does not hide the thermostat valve channel: when the thermostat
  is present with its valve on output \<open>k\<close>, the announced device has no toggle action for
  dimmer \<open>k + 1\<close>, as in the MQTT generation, but its switch and brightness properties are
  listed visible, \<open>BasicDingzProperty\<close> ignoring the \<open>visible\<close> of their spec.\<close>

theorem http_construct_valve_visible:
  assumes "http_construct json fetch url m addr qsc qinfo qts qbc qdc = Inr d"
    and "thermostat (dcaps d)" and "thermostatOutput (dcaps d) = JNum (of_nat k)"
  shows "actions d (dimmer_id (Suc k) @ ''toggle'') = None
    \<and> (case props d (dimmer_id (Suc k)) of None \<Rightarrow> True | Some p \<Rightarrow> pvisible p = JBool True)
    \<and> (case props d (dimmer_id (Suc k) @ ''Brightness'') of None \<Rightarrow> True | Some p \<Rightarrow> pvisible p = JBool True)"
proof -
  obtain sc info ts d0 bc dc x d'' rq where
    d0: "http_resolve_caps sc info ts (dingz_init m addr) = Inr d0"
    and reg: "registerEventListener json fetch url (http_build_schema d0) = (Inr x, d'', rq)"
    and d: "http_apply_details bc dc d'' = Inr d"
    using http_construct_Inr [OF assms(1)] .
  have same: "props d'' = props (http_build_schema d0)" "actions d'' = actions (http_build_schema d0)"
    "dcaps d'' = dcaps (http_build_schema d0)"
    using post_all_dev [of json fetch "listener_calls url (mac (http_build_schema d0))" "http_build_schema d0"] reg
    by (simp_all add: registerEventListener_def)
  have fr: "frame_on (refine_scope (dcaps d'')) d'' d" by (rule http_apply_details_frame [OF d])
  have caps: "dcaps d = dcaps d0" using frame_on_caps [OF fr] same(3) by (simp add: http_build_schema_def)
  have empty: "props d0 = Map.empty" "actions d0 = Map.empty"
    using http_resolve_caps_schema [OF d0] by simp_all
  have vh: "valve_hidden k (build_schema d0)"
    using build_schema_valve [of d0 k] assms(2,3) caps empty by simp
  have out: "dimmer_names (Suc k) \<inter> refine_scope (dcaps d'') = {}"
    using valve_outside_scope [of "dcaps d0" k] assms(3) caps same(3) by (simp add: http_build_schema_def)
  have "n \<in> dimmer_names (Suc k) \<Longrightarrow> props d n = props d'' n \<and> actions d n = actions d'' n" for n
    using fr out by (auto simp: frame_on_def)
  then show ?thesis
    using vh same by (auto simp: dimmer_names_def valve_hidden_def http_build_schema_def split: option.splits)
qed

text \<open>C31: A unit that refuses one of the registration calls of the push channel is never
  announced: whatever the capability and detail answers, the construction rejects, so
  \<open>handleDeviceAdded\<close> is not called.\<close>

theorem http_construct_listener_refused:
  assumes "js_truthy addr" "(p, b) \<in> set (listener_calls url (js_upper m))"
    and "api_error (api_call json fetch p ''POST'' (dingz_init m addr)) \<noteq> None"
  shows "isl (http_construct json fetch url m addr qsc qinfo qts qbc qdc)"
proof (rule ccontr)
  assume "\<not> ?thesis"
  then obtain d where "http_construct json fetch url m addr qsc qinfo qts qbc qdc = Inr d"
    by (cases "http_construct json fetch url m addr qsc qinfo qts qbc qdc") auto
  then obtain sc info ts d0 bc dc x d'' rq where
    d0: "http_resolve_caps sc info ts (dingz_init m addr) = Inr d0"
    and reg: "registerEventListener json fetch url (http_build_schema d0) = (Inr x, d'', rq)"
    using http_construct_Inr by metis
  let ?d1 = "http_build_schema d0"
  have ids: "address ?d1 = addr" "mac ?d1 = js_upper m"
    using http_resolve_caps_schema [OF d0] by (simp_all add: http_build_schema_def dingz_init_def)
  have "api_error (api_call json fetch p ''POST'' ?d1) \<noteq> None"
    using assms(3) api_call_fst_address [of ?d1 "dingz_init m addr" json fetch p "''POST''"] ids
    by (simp add: api_error_def dingz_init_def)
  then have "isl (fst (registerEventListener json fetch url ?d1))"
    using post_all_sent [of ?d1 json fetch "listener_calls url (mac ?d1)"] assms(1,2) ids
    by (auto simp: registerEventListener_def)
  then show False using reg by simp
qed
theorem http_construct_valve_visible_witness:
  "\<exists>d. ex_http_construct = Inr d \<and> thermostat (dcaps d) \<and> thermostatOutput (dcaps d) = JNum (of_nat 1)
     \<and> props d (dimmer_id 2) \<noteq> None
     \<and> actions d (dimmer_id (Suc 1) @ ''toggle'') = None
     \<and> (case props d (dimmer_id (Suc 1)) of None \<Rightarrow> True | Some p \<Rightarrow> pvisible p = JBool True)
     \<and> (case props d (dimmer_id (Suc 1) @ ''Brightness'') of None \<Rightarrow> True | Some p \<Rightarrow> pvisible p = JBool True)"
proof -
  obtain d where c: "ex_http_construct = Inr d" and th: "thermostat (dcaps d)" and o: "thermostatOutput (dcaps d) = JNum 1"
    and p: "props d (dimmer_id 2) \<noteq> None"
    using ex_http_construct_Inr by blast
  have "thermostatOutput (dcaps d) = JNum (of_nat 1)" using o by simp
  then show ?thesis
    using http_construct_valve_visible [OF c [unfolded ex_http_construct_def] th] c th p by auto
qed

theorem http_construct_listener_refused_witness:
  "isl (http_construct (\<lambda>s. None) ex_fetch ''http://gw/'' ''aabbcc'' (JStr ''10.0.0.2'')
     (Inr ex_system_config) (Inr ex_device_info) (Inr ex_http_thermostat) (Inr JUndef) (Inr JUndef))"
  by (rule http_construct_listener_refused [OF _ ex_listener_call])
    (simp_all add: api_call_def api_url_def dingz_init_def ex_fetch_def reply_ok_def api_error_def)

end
