(* ===== verification/Spec2Isabelle.thy ===== *)
theory Spec2Isabelle
  imports Poll Webhook Adapter Poller HttpDevice
begin

text \<open>
  \<^bold>\<open>A verification model of the dingz WebThings adapter.\<close>

  The adapter (\<open>src/unnamed/part_000\<close>, the MQTT generation, and \<open>src/index.js\<close>, the
  HTTP/webhook generation) announces one WebThings device per dingz unit.  The device is
  built by the \<open>Dingz\<close> constructor from four capability queries (\<open>system_config\<close>,
  \<open>device\<close>, \<open>thermostat\<close>, \<open>outputs\<close>), registers a schema of properties, actions and
  events, and refines it with the \<open>blind_config\<close> and \<open>dimmer_config\<close> answers.  Later it
  is kept up to date by MQTT messages or by a poll of the \<open>state\<close> snapshot, and it
  forwards property writes and actions to the unit.

  \<^bold>\<open>Theories.\<close>
  \<^item> \<open>Prelude\<close>: the property store \<open>string \<rightharpoonup> 'v\<close> that models each
    \<open>Map\<close> of the device, \<open>opt_modify\<close> for the idiom \<open>findProperty(id)?.f()\<close>,
    \<open>filter_store\<close> for \<open>asDict\<close>, and \<open>ebind\<close>/\<open>efold\<close>: sequencing of code
    that may throw, an exception being the left injection of a sum.
  \<^item> \<open>JsRuntime\<close>: the JavaScript values (\<open>jval\<close>) and the built-ins the adapter uses:
    property access \<open>v.k\<close> (\<open>js_get\<close>: \<open>TypeError\<close> on \<open>undefined\<close>/\<open>null\<close>), truthiness,
    \<open>String(n)\<close>, \<open>n.toString(16)\<close>, \<open>padStart\<close>, \<open>toUpperCase\<close>, \<open>split\<close>,
    \<open>parseInt\<close> with a radix, \<open>Number()\<close>, loose equality with a string, the template
    \<open>`${v + 1}`\<close>, and arithmetic with \<open>NaN\<close> (\<open>jsnum\<close>).  Numbers are exact
    rationals: every number the adapter handles (percentages, bytes, indices, watts) is
    an integer or a short decimal, and the properties below do not depend on rounding.
  \<^item> \<open>Color\<close>: \<open>hsv2rgb\<close> (identical in both generations), the \<open>#rrggbb\<close> formatting
    of a \<open>state/led\<close> message and the \<open>parseInt\<close> slices of a \<open>ledColor\<close> write.
  \<^item> \<open>Device\<close>: the device record (\<open>dingz\<close>, with the capability fields as \<open>caps\<close>),
    the constructor of the MQTT generation (part_000 lines 219--415) as
    \<open>construct\<close> = \<open>resolve_caps\<close> (the four queries and their handlers),
    \<open>build_schema\<close> (\<open>schema_base\<close>: base properties, \<open>addKey\<close>, \<open>addDimmer\<close>,
    \<open>addShade\<close>, motion; then \<open>add_thermostat\<close>), and \<open>apply_details\<close>
    (\<open>setShadeConfig\<close>, \<open>setDimmerConfig\<close>), with \<open>dict_props\<close>/\<open>dict_actions\<close> for
    \<open>asDict\<close>.  Each query result is the settled value of its \<open>apiCall\<close> promise, so every
    rejection and every \<open>TypeError\<close> of a handler is a branch of the model.

  \<^item> \<open>Mqtt\<close>: the MQTT generation's \<open>mqttEvent(path, message)\<close> (part_000 lines
    483--610) as \<open>mqtt_event\<close>: the topic is split at \<open>/\<close> and dispatched
    (\<open>mqtt_dispatch\<close>) to \<open>mqtt_sensor\<close>, \<open>mqtt_power\<close>, \<open>mqtt_state\<close> (light, blind, led,
    thermostat), \<open>mqtt_button\<close> and \<open>mqtt_pir\<close>; a property update is \<open>notify\<close>
    (\<open>findProperty(id)?.setCachedValueAndNotify(v)\<close>), an event is \<open>fire\<close>.  The raw
    message is decoded by \<open>decode_message\<close> with \<open>JSON.parse\<close> as a parameter.
  \<^item> \<open>Api\<close>: \<open>apiCall(path, method)\<close> (identical in both generations) as \<open>api_call\<close>,
    with \<open>fetch\<close> and \<open>response.json()\<close> as parameters.  Its result is the settled value
    of the promise with the device after the call: a timeout calls
    \<open>connectedNotify(false)\<close> and fulfils with \<open>undefined\<close>.
  \<^item> \<open>Poll\<close>: \<open>poll()\<close> of both generations (\<open>poll_mqtt\<close>, part_000 lines 812--862;
    \<open>poll_http\<close>, index.js lines 663--711).  Both call \<open>poll_body\<close>, which is
    \<open>poll_updates\<close> (sensors, LED, the loops over dimmers and blinds) followed by
    \<open>poll_thermostat\<close>; they differ in the falsy-snapshot return and in where the
    valve output is read (\<open>outsel_device\<close> or \<open>outsel_state\<close>).
  \<^item> \<open>Webhook\<close>: the push channel of the HTTP generation, \<open>handleGenericEvent(index,
    action)\<close> (index.js lines 612--648), as \<open>handleGenericEvent\<close>; the specification's
    canonical update records of the generic form are \<open>generic_spec\<close> and \<open>apply_update\<close>.
  \<^item> \<open>Adapter\<close>: the adapter of the MQTT generation: the registry of devices (record
    \<open>adapter\<close>: \<open>devices\<close>, and the constructions started by \<open>new Dingz\<close> and not yet
    completed, \<open>pending\<close>), \<open>handleDiscovery\<close> (part_000 lines 872--880), the completion
    of a construction (\<open>device_added\<close>, the \<open>handleDeviceAdded\<close> call) and the MQTT
    listener (\<open>mqtt_message\<close>, lines 91--128) routing a topic to its device's
    \<open>mqtt_event\<close>.
  \<^item> \<open>Poller\<close>: the poll timer of index.js, \<open>DevicePoller\<close> (lines 80--117), over a type
    variable of devices; the settling of the asynchronous interval read is an operation of
    its own (\<open>poller_op\<close>), and a run is a fold of \<open>poller_do\<close> over a list of operations.
  \<^item> \<open>Commands\<close>: the commands of the MQTT generation: \<open>DingzProperty.setValue\<close>
    (part_000 lines 163--215) as \<open>dingz_setValue\<close>, with the gateway's dispatch of a write
    by property class as \<open>property_write\<close>, \<open>performAction\<close> (lines 447--469) and
    \<open>sendMqttEvent\<close> (lines 616--622).  A command returns the settled value, the device
    after it and the list of messages published; the MQTT client is the parameter
    \<open>publish\<close>.
  \<^item> \<open>HttpCommands\<close>: the same commands of the HTTP generation (index.js lines 132--184
    and 410--419: \<open>http_setValue\<close>, \<open>http_property_write\<close>, \<open>http_performAction\<close>),
    which go through \<open>apiCall\<close> and return the requests sent with their bodies, and
    \<open>registerEventListener\<close> (lines 597--610) as the awaited sequence \<open>post_all\<close> of its
    nine registration calls.
  \<^item> \<open>HttpDevice\<close>: the constructor of the HTTP generation (index.js lines 188--373) as
    \<open>http_construct\<close>: three capability queries (\<open>http_resolve_caps\<close>, the valve output
    read from the \<open>thermostat\<close> answer), the shared schema code with every property made
    visible by index.js's \<open>BasicDingzProperty\<close> (\<open>http_build_schema\<close>), the detail fetch
    awaiting \<open>registerEventListener\<close>, and \<open>http_apply_details\<close> with the
    \<open>lamella_90\<close>/\<open>not_connected\<close> tests of its \<open>setShadeConfig\<close>/\<open>setDimmerConfig\<close>.
  \<^item> This theory: \<open>mqtt_run d0\<close>, the inductive step relation of the states an announced
    device of the MQTT generation reaches by messages, polls, discovery records and
    property writes; and \<open>echo_round\<close>, the delivery of the published messages back to
    the adapter's listener through its \<open>dingz/#\<close> subscription.

  Handlers that act on the live device return an \<open>outcome\<close> (Prelude): \<open>Done s\<close>, or
  \<open>Threw e s\<close> with the state reached at the throw, because JavaScript keeps the updates
  made before an exception.  The constructor, whose exceptions reject the construction,
  uses the sum \<open>error + 'a\<close> instead.  \<open>keeps R f\<close> says that every run of \<open>f\<close>, also a
  throwing one, relates its start and end states by \<open>R\<close>; its combinators
  (\<open>keeps_obind\<close>, \<open>keeps_if\<close>, \<open>keeps_ofold\<close>, ...) carry the invariant proofs.

  \<^bold>\<open>What is proved.\<close>
  \<^item> The thermostat valve: whatever the valve output \<open>k\<close>, the announced device hides
    dimmer channel \<open>k + 1\<close> and keeps a visible \<open>Thermostat Valve Power\<close>, also after the
    late dimmer configuration (\<open>Device.construct_valve_hidden\<close>).  The proof is a frame
    argument: each refinement step changes only the ids of \<open>refine_scope\<close>, which the valve
    channel is outside of.
  \<^item> MQTT: no message changes the schema (\<open>Mqtt.mqtt_event_keeps_schema\<close>); presses
    fire the event of key \<open>i + 1\<close> (\<open>Mqtt.mqtt_button_press\<close>); no message fires a
    quadruple press; a non-numeric index names \<open>keyNaN\<close>; a light reported on is stored
    as off.
  \<^item> Poll: a poll of either generation keeps the property kinds, actions, events and
    capabilities (\<open>Poll.poll_keeps_kinds\<close>); on a timeout the MQTT generation returns
    and the HTTP one throws; an undefined valve output makes the MQTT poll throw; the
    shade power is \<open>motor1 || motor2\<close>.
  \<^item> Across components: by rule induction on \<open>mqtt_run\<close> every reachable state has the
    property kinds, actions, events and capabilities of the announced device, so the
    hidden valve channel stays hidden (\<open>valve_hidden_forever\<close>); after a timeout,
    polls are no-ops until a discovery record reconnects the device at its new address
    (\<open>reconnect_after_discovery\<close>).
  \<^item> Adapter: a message touches only the device its topic names (\<open>Adapter.mqtt_message_isolated\<close>) and reaches it
    (\<open>Adapter.mqtt_message_routes\<close>); a topic id with an upper-case letter reaches no
    device; a known MAC updates the device, and an unknown MAC discovered twice before its
    construction completes is constructed twice.
  \<^item> Poller: every reachable state is well formed (\<open>Poller.poller_run_wf\<close>); without a
    failed read every registered device is polled; but two devices added before the first
    read settles leak an interval that is never cleared (\<open>Poller.poller_interval_leak\<close>);
    after a failed read no device is polled until another one is added, whatever
    removals and reads follow (\<open>Poller.poller_read_failure\<close>, by an invariant carried
    through the fold of operations).
  \<^item> Webhook: for a button 1..4 whose key exists, the handler
    refines the abstract update table of the generic form
    (\<open>Webhook.webhook_refines_spec\<close>); it departs from the specification on index 0 and
    on the motion sensor's \<open>begin\<close>/\<open>end\<close> (\<open>Webhook.webhook_index_divergence\<close>).
  \<^item> Commands: the LED, LED colour and shade writes and the action table publish the
    documented messages (\<open>Commands.led_color_write_back\<close>, a round trip with the
    \<open>state/led\<close> formatting, \<open>Commands.performAction_table\<close>); a write before the device type is known publishes
    nothing but stores the value; every published message comes back to the device as a
    no-op (\<open>Commands.command_loopback_ignored\<close>), so the echo of a command through the
    broker ends and leaves the registry as it was (\<open>command_echo_terminates\<close>).
  \<^item> HTTP commands: a shade write sends the same position and lamella values as the MQTT
    generation publishes (\<open>HttpCommands.http_shade_agrees\<close>); a falsy colour throws
    there and is ignored by the MQTT generation; \<open>registerEventListener\<close> sends its calls
    in order up to the first rejection (\<open>HttpCommands.register_listener_sequence\<close>, by
    induction on the list of calls).
  \<^item> A valve output reported as a string defeats the valve hiding
    (\<open>Device.valve_output_type\<close>).
  \<^item> HTTP constructor: the valve channel gets no toggle action but its switch and
    brightness stay listed visible (\<open>HttpDevice.http_construct_valve_visible\<close>, by the
    frame argument of Device.thy over the HTTP refinement steps); a unit refusing one
    registration call is never announced (\<open>HttpDevice.http_construct_listener_refused\<close>).
  \<^item> \<open>apiCall\<close> rejects exactly on a bad status, a non-JSON body or a network failure
    other than a timeout (\<open>Api.api_call_error\<close>).
  \<^item> The DIP code drives each output pair by exactly one of a shade motor and a dimmer
    group, exactly for the codes 0..3 (\<open>Device.dip_caps_table\<close>).
  \<^item> \<open>hsv2rgb\<close> yields six upper-case hex digits for inputs in range, and the expected
    colours at the sextant boundaries; the LED colour formatting parses back to its channels (\<open>Color.led_color_str_channels\<close>).

  \<^bold>\<open>Bounds and fuel.\<close>  No loop of the modelled code is unbounded: the loops over
  the dimmers, the blinds and the path segments run over finite lists and are structural
  recursions (\<open>ofold\<close>, \<open>efold\<close>), the registration calls and the echo of published
  messages are folds over finite lists (\<open>post_all\<close>, \<open>echo_round\<close>), \<open>to_digits\<close>
  recurses on a \<open>measure\<close>, so no fuel is used and every modelled operation is total.

  \<^bold>\<open>Not modelled.\<close>  The webhook endpoint module (\<open>./events\<close>) is not part of the
  sources: its callback URL is a parameter of \<open>registerEventListener\<close> and its server's
  calls are \<open>handleGenericEvent\<close>.  The MQTT client (\<open>DingzMQTT.connect\<close>, its
  subscription and \<open>client.publish\<close>), the mDNS and UDP browsers, the configuration
  database and the clock of \<open>setInterval\<close> are I/O only: they appear as the parameters
  \<open>publish\<close>, \<open>fetch\<close> and \<open>json\<close> and as the operations of the step relations.  The bodies
  of HTTP requests are recorded but \<open>fetch\<close> answers from URL and method only.
  \<open>configureMqtt\<close> is a fire-and-forget request at construction whose result is
  ignored.  The \<open>links\<close> getter, logging, and the adapter's \<open>unload\<close> and
  \<open>handleDeviceRemoved\<close> (which only call the I/O modules and the poller's
  \<open>removeDevice\<close>, modelled in Poller) are not modelled separately.  \<open>.github/workflows/release.yml\<close> is CI configuration.
\<close>

section \<open>The device after its announcement\<close>

text \<open>The states an announced device of the MQTT generation goes through: from the
  device \<open>d0\<close> the constructor announced, any sequence of MQTT messages
  (\<open>mqttEvent\<close>), polls (\<open>poll\<close>), discovery records (\<open>updateFromDiscovery\<close>) and
  property writes of the gateway (\<open>setValue\<close>), each
  taken to its end, also when the handler throws.\<close>

inductive mqtt_run :: "dingz \<Rightarrow> dingz \<Rightarrow> bool" for d0 :: dingz where
  announced: "mqtt_run d0 d0"
| message: "mqtt_run d0 d \<Longrightarrow> mqtt_run d0 (final_state (mqtt_event path msg d))"
| poll: "mqtt_run d0 d \<Longrightarrow> mqtt_run d0 (final_state (poll_mqtt json fetch d))"
| discovery: "mqtt_run d0 d \<Longrightarrow> mqtt_run d0 (final_state (updateFromDiscovery a d))"
| prop_write: "mqtt_run d0 d \<Longrightarrow> mqtt_run d0 (fst (snd (property_write json fetch publish n v d)))"

text \<open>The echoes of a command: the adapter subscribes to \<open>dingz/#\<close>, so every message
  \<open>(id, localPath, message)\<close> a command publishes is delivered back to its listener on
  \<open>dingz/<id>/<localPath>\<close>, as the text \<open>enc message\<close> that \<open>JSON.stringify\<close> wrote.\<close>

definition echo_round ::
  "(string \<Rightarrow> jval option) \<Rightarrow> (jval \<Rightarrow> string) \<Rightarrow> published \<Rightarrow> adapter \<Rightarrow> adapter" where
  "echo_round json enc ms a =
     fold (\<lambda>(i, lp, m) a. final_state (mqtt_message json (''dingz/'' @ i @ ''/'' @ lp) (enc m) a)) ms a"

text \<open>A registry holding the unit of \<open>ex_cmd_dev\<close>, whose type is known.\<close>

definition ex_cmd_adapter :: adapter where
  "ex_cmd_adapter = \<lparr>devices = [''dingz-aabbcc'' \<mapsto> ex_cmd_dev], pending = []\<rparr>"

text \<open>A device with a thermostat whose valve is wired to output 0.\<close>

definition ex_valve0_dev :: dingz where
  "ex_valve0_dev = (let d = dingz_init ''aabbcc'' (JStr ''10.0.0.2'') in
     add_thermostat (d\<lparr>dcaps := (dcaps d)\<lparr>thermostat := True, thermostatOutput := JNum 0\<rparr>\<rparr>))"

subsection \<open>Lemmas\<close>

lemma prop_kind_shape [simp]: "prop_kind (prop_shape p) = prop_kind p"
  by (simp add: prop_kind_def prop_shape_def)

lemma same_schema_kinds:
  assumes "same_schema d d'" shows "same_kinds d d'"
proof -
  have "map_option prop_kind (props d' n) = map_option prop_kind (props d n)" for n
  proof -
    have "map_option prop_kind (map_option prop_shape (props d' n))
        = map_option prop_kind (map_option prop_shape (props d n))"
      using assms by (simp add: same_schema_def)
    then show ?thesis by (simp add: option.map_comp comp_def)
  qed
  then show ?thesis using assms by (simp add: same_kinds_def same_schema_def)
qed

lemma discovery_kinds: "same_kinds d (final_state (updateFromDiscovery a d))"
  by (auto simp: updateFromDiscovery_def Let_def same_kinds_def connectedNotify_def split: jval.splits)

lemma valve_hidden_kinds:
  assumes "same_kinds d d'" "valve_hidden k d" shows "valve_hidden k d'"
proof -
  have k: "map_option prop_kind (props d' n) = map_option prop_kind (props d n)" for n
    using assms(1) by (simp add: same_kinds_def)
  have a: "actions d' = actions d" using assms(1) by (simp add: same_kinds_def)
  show ?thesis
    using assms(2) a k [of "dimmer_id (Suc k) @ ''Power''"] k [of "dimmer_id (Suc k)"]
      k [of "dimmer_id (Suc k) @ ''Brightness''"]
    by (auto simp: valve_hidden_def prop_kind_def split: option.splits)
qed

lemma property_write_kinds: "same_kinds d (fst (snd (property_write json fetch publish n v d)))"
  using property_write_rel [OF same_kinds_rel same_kinds_updates(1) api_call_kinds] .

lemma mqtt_run_same_kinds: "mqtt_run d0 d \<Longrightarrow> same_kinds d0 d"
proof (induction rule: mqtt_run.induct)
  case announced then show ?case by (rule reflpD [OF same_kinds_rel(1)])
next
  case (message d path msg)
  have "same_kinds d (final_state (mqtt_event path msg d))"
    using keepsD [OF mqtt_event_same_schema] by (rule same_schema_kinds)
  with message.IH show ?case by (rule transpD [OF same_kinds_rel(2)])
next
  case (poll d json fetch)
  have "same_kinds d (final_state (poll_mqtt json fetch d))"
    unfolding poll_mqtt_poll_call
    by (intro poll_call_kinds) (simp add: reflpD [OF same_kinds_rel(1)] keepsD [OF poll_body_keeps])
  with poll.IH show ?case by (rule transpD [OF same_kinds_rel(2)])
next
  case (discovery d a)
  with discovery_kinds show ?case by (blast intro: transpD [OF same_kinds_rel(2)])
next
  case (prop_write d json fetch publish n v)
  with property_write_kinds show ?case by (blast intro: transpD [OF same_kinds_rel(2)])
qed

text \<open>C4: The valve channel stays hidden for the device's whole life: once the announced
  device hides dimmer channel \<open>k + 1\<close> behind the thermostat valve, no MQTT message, poll
  or rediscovery makes its switch or brightness visible, gives it a toggle action or takes
  the valve power away.\<close>

theorem valve_hidden_forever:
  assumes "valve_hidden k d0" "mqtt_run d0 d" shows "valve_hidden k d"
  using valve_hidden_kinds [OF mqtt_run_same_kinds [OF assms(2)] assms(1)] .

lemma ex_valve0_hidden: "valve_hidden 0 ex_valve0_dev"
  by (simp add: valve_hidden_def ex_valve0_dev_def add_thermostat_def dingz_init_def dimmer_id_def mk_prop_def)

text \<open>C15: Recovery after a timeout: a poll that times out marks the device disconnected,
  and polls are then no-ops whatever the network does; a discovery record with a new
  IPv4 address reconnects the device at that address, and the next poll queries the unit
  again.\<close>

theorem reconnect_after_discovery:
  assumes "js_truthy (connected d)" "js_truthy (address d)"
    and "fetch (api_url (address d) ''state'') ''GET'' = NetFail ''system'' ''ETIMEDOUT''"
    and "CHR '':'' \<notin> set s" "s \<noteq> []"
    and "d1 = final_state (poll_mqtt json fetch d)" "d2 = final_state (updateFromDiscovery (JStr s) d1)"
  shows "\<not> js_truthy (connected d1) \<and> poll_mqtt json fetch' d1 = Done d1
    \<and> address d2 = JStr s \<and> js_truthy (connected d2)
    \<and> poll_mqtt json fetch' d2 = poll_call json fetch' d2 (\<lambda>st d'. if \<not> js_truthy st then Done d' else poll_body outsel_device st d')"
  using assms
  by (simp add: poll_mqtt_def api_call_def updateFromDiscovery_def connectedNotify_def poll_call_def)

text \<open>A message an action or a property write of a registered device publishes comes back
  on \<open>dingz/<id>/<path>\<close> to the adapter's listener, which leaves the whole registry as it
  was, whatever the payload decodes to.\<close>

lemma adapter_loopback:
  assumes "devices a (''dingz-'' @ i) = Some d" "CHR ''/'' \<notin> set i"
    and "deviceType d = JStr dt" "CHR ''/'' \<notin> set dt" "dt \<notin> {''online'', ''announce'', ''last_alive''}"
    and "(i, lp, m) \<in> set (snd (performAction publish n d))
         \<or> (i, lp, m) \<in> set (snd (snd (property_write json fetch publish n' v d)))"
  shows "final_state (mqtt_message json' (''dingz/'' @ i @ ''/'' @ lp) raw a) = a"
proof -
  obtain rest where lp: "lp = dt @ ''/command/'' @ rest" using commands_sent_paths [OF assms(6)] assms(3) by auto
  have ev: "mqtt_event lp v' d = Done d" for v' using mqtt_event_command [OF assms(3-5)] lp by simp
  have sp: "split_on (CHR ''/'') (''dingz/'' @ i @ ''/'' @ lp) = ''dingz'' # i # split_on (CHR ''/'') lp"
    using split_on_sep [of "CHR ''/''" "''dingz''" "i @ ''/'' @ lp"] split_on_sep [OF assms(2), of lp] by simp
  have "(devices a)(''dingz-'' @ i \<mapsto> d) = devices a" using assms(1) by auto
  then show ?thesis
    unfolding mqtt_message_def Let_def sp
    using assms(1) ev by (simp add: part_def join_split_on at_device_def split: option.splits)
qed

text \<open>C6: The exchange of a command with its echoes ends after one round: the echoes of
  everything an action or a property write of a registered device publishes, delivered
  back in order, leave the registry exactly as it was, and handling a message publishes
  nothing, so no further message follows.\<close>

theorem command_echo_terminates:
  assumes "devices a (''dingz-'' @ js_lower (mac d)) = Some d" "CHR ''/'' \<notin> set (js_lower (mac d))"
    and "deviceType d = JStr dt" "CHR ''/'' \<notin> set dt" "dt \<notin> {''online'', ''announce'', ''last_alive''}"
  shows "echo_round json enc (snd (performAction publish n d)) a = a
    \<and> echo_round json enc (snd (snd (property_write json' fetch publish n' v d))) a = a"
proof -
  have sent: "i = js_lower (mac d)" if "(i, lp, m) \<in> set (snd (performAction publish n d))
      \<or> (i, lp, m) \<in> set (snd (snd (property_write json' fetch publish n' v d)))" for i lp m
    using that
    by (auto simp: performAction_def property_write_def dingz_setValue_def Let_def base_setValue_def
        split: option.splits if_splits sum.splits prod.splits dest!: sendMqttEvent_sent)
  have step: "final_state (mqtt_message json (''dingz/'' @ i @ ''/'' @ lp) (enc m) a) = a"
    if "(i, lp, m) \<in> set (snd (performAction publish n d))
      \<or> (i, lp, m) \<in> set (snd (snd (property_write json' fetch publish n' v d)))" for i lp m
    using adapter_loopback [OF _ _ assms(3-5) that] assms(1,2) sent [OF that] by simp
  have "fold (\<lambda>(i, lp, m) a. final_state (mqtt_message json (''dingz/'' @ i @ ''/'' @ lp) (enc m) a)) ms a = a"
    if "\<And>x. x \<in> set ms \<Longrightarrow> final_state (mqtt_message json (''dingz/'' @ fst x @ ''/'' @ fst (snd x)) (enc (snd (snd x))) a) = a"
    for ms using that by (induction ms) auto
  then show ?thesis unfolding echo_round_def using step by (metis prod.collapse)
qed

theorem valve_hidden_forever_witness:
  "valve_hidden 0 (final_state (mqtt_event ''dingz/online'' (JBool False) ex_valve0_dev))"
  using valve_hidden_forever [OF ex_valve0_hidden mqtt_run.message [OF mqtt_run.announced]] .

theorem reconnect_after_discovery_witness:
  "\<not> js_truthy (connected (final_state (poll_mqtt (\<lambda>s. None) (\<lambda>u m. NetFail ''system'' ''ETIMEDOUT'') ex_shade_dev)))
   \<and> poll_mqtt (\<lambda>s. None) (\<lambda>u m. Reply 200 ''{}'')
       (final_state (poll_mqtt (\<lambda>s. None) (\<lambda>u m. NetFail ''system'' ''ETIMEDOUT'') ex_shade_dev))
     = Done (final_state (poll_mqtt (\<lambda>s. None) (\<lambda>u m. NetFail ''system'' ''ETIMEDOUT'') ex_shade_dev))
   \<and> address (final_state (updateFromDiscovery (JStr ''10.0.0.3'')
       (final_state (poll_mqtt (\<lambda>s. None) (\<lambda>u m. NetFail ''system'' ''ETIMEDOUT'') ex_shade_dev)))) = JStr ''10.0.0.3''
   \<and> js_truthy (connected (final_state (updateFromDiscovery (JStr ''10.0.0.3'')
       (final_state (poll_mqtt (\<lambda>s. None) (\<lambda>u m. NetFail ''system'' ''ETIMEDOUT'') ex_shade_dev)))))
   \<and> poll_mqtt (\<lambda>s. None) (\<lambda>u m. Reply 200 ''{}'') (final_state (updateFromDiscovery (JStr ''10.0.0.3'')
       (final_state (poll_mqtt (\<lambda>s. None) (\<lambda>u m. NetFail ''system'' ''ETIMEDOUT'') ex_shade_dev))))
     = poll_call (\<lambda>s. None) (\<lambda>u m. Reply 200 ''{}'') (final_state (updateFromDiscovery (JStr ''10.0.0.3'')
       (final_state (poll_mqtt (\<lambda>s. None) (\<lambda>u m. NetFail ''system'' ''ETIMEDOUT'') ex_shade_dev))))
       (\<lambda>st d'. if \<not> js_truthy st then Done d' else poll_body outsel_device st d')"
  by (rule reconnect_after_discovery [OF _ _ _ _ _ refl refl])
    (simp_all add: ex_shade_dev_def dingz_init_def)
theorem command_echo_terminates_witness:
  "echo_round (\<lambda>s. Some (JBool True)) (\<lambda>m. ''{}'') (snd (performAction (\<lambda>i lp m. None) ''shade1up'' ex_cmd_dev)) ex_cmd_adapter
     = ex_cmd_adapter
   \<and> echo_round (\<lambda>s. Some (JBool True)) (\<lambda>m. ''{}'')
       (snd (snd (property_write (\<lambda>s. None) (\<lambda>u m. NetFail [] []) (\<lambda>i lp m. None) ''led'' (JBool True) ex_cmd_dev)))
       ex_cmd_adapter = ex_cmd_adapter"
  by (rule command_echo_terminates [where dt = "''dingz''"]) (auto simp: ex_cmd_adapter_def)

lemma adapter_loopback_example:
  "final_state (mqtt_message (\<lambda>s. Some (JBool True)) (''dingz/'' @ ''aabbcc'' @ ''/'' @ ''dingz/command/motor/0'') ''{}''
     ex_cmd_adapter) = ex_cmd_adapter"
  by (rule adapter_loopback [where d = ex_cmd_dev and dt = "''dingz''" and m = "JObj [(''motion'', JNum 1)]"
      and publish = "\<lambda>i lp m. None" and n = "''shade1up''" and json = "\<lambda>s. None" and fetch = "\<lambda>u m. NetFail [] []"
      and v = JUndef])
    (simp_all add: ex_cmd_adapter_def performAction_def sendMqttEvent_def)

end
